theory Spec2Isabelle
  imports Main
begin

section \<open>Data model\<close>

text \<open>
  The router workflow of \<^verbatim>\<open>workflow.py\<close> is a set of steps that a workflow
  framework runs: every step takes one event and returns (or sends) further events.
  The steps are embedded one by one, state passing made explicit; the framework's
  event loop is embedded as a pool of pending events from which a scheduler picks.

  Messages, tool selections and exceptions are data of the libraries the program uses.
  Only the fields the program reads or writes are kept. A message's content is a text
  or \<open>None\<close>, as the library has it. Printing (and with it the \<^verbatim>\<open>verbose\<close> flag) is
  left out. Time is counted in seconds, and how long each step takes is for the
  environment to say.
\<close>

datatype MessageRole = SYSTEM | USER | ASSISTANT | TOOL

record ChatMessage =
  role :: MessageRole
  content :: "string option"
  name :: "string option"
  additional_kwargs :: "(string \<times> string) list"

record ToolSelection =
  tool_id :: string
  tool_name :: string
  tool_kwargs :: "(string \<times> string) list"

text \<open>
  Python exceptions (subclasses of \<^verbatim>\<open>Exception\<close>). \<^verbatim>\<open>str(e)\<close> is the message, except
  for a \<^verbatim>\<open>KeyError\<close>, whose text is the \<^verbatim>\<open>repr\<close> of the missing key.
\<close>

datatype exn = ValueError string | KeyError string | Exception string

definition hex_digit :: "nat \<Rightarrow> char" where
  "hex_digit n = ''0123456789abcdef'' ! (n mod 16)"

definition py_escape :: "char \<Rightarrow> char \<Rightarrow> string" where
  "py_escape q c =
     (let n = (of_char c :: nat) in
      if c = q \<or> c = CHR 0x5C then [CHR 0x5C, c]
      else if c = CHR 0x0A then [CHR 0x5C, CHR ''n'']
      else if c = CHR 0x0D then [CHR 0x5C, CHR ''r'']
      else if c = CHR 0x09 then [CHR 0x5C, CHR ''t'']
      else if n < 32 \<or> (127 \<le> n \<and> n \<le> 160) \<or> n = 173
        then [CHR 0x5C, CHR ''x'', hex_digit (n div 16), hex_digit n]
      else [c])"

definition py_repr :: "string \<Rightarrow> string" where
  "py_repr s =
     (let q = (if CHR 0x27 \<in> set s \<and> CHR 0x22 \<notin> set s then CHR 0x22 else CHR 0x27)
      in q # concat (map (py_escape q) s) @ [q])"

fun str_exn :: "exn \<Rightarrow> string" where
  "str_exn (ValueError m) = m"
| "str_exn (KeyError k) = py_repr k"
| "str_exn (Exception m) = m"

text \<open>
  What awaiting an external call can do: return a value, raise an exception, or be
  interrupted (\<^verbatim>\<open>asyncio.CancelledError\<close>, which is not an \<^verbatim>\<open>Exception\<close>).
\<close>

datatype 'a awaited = Returns 'a | Raises exn | Cancelled

text \<open>
  The reasoning client and the tool adapters are external: they read and change a world
  \<open>'w\<close> the program does not see (a remote model, a database, a clock). A tool's
  \<^verbatim>\<open>acall\<close> gives the text of its output (\<^verbatim>\<open>str(output)\<close>), or \<open>None\<close>.
\<close>

record 'w BaseTool =
  metadata_name :: string
  acall :: "(string \<times> string) list \<Rightarrow> 'w \<Rightarrow> string option awaited \<times> 'w"

record ChatResponse =
  message :: ChatMessage

record 'w LLM =
  achat_with_tools ::
    "'w BaseTool list \<Rightarrow> ChatMessage list \<Rightarrow> 'w \<Rightarrow> ChatResponse awaited \<times> 'w"
  get_tool_calls_from_response :: "ChatResponse \<Rightarrow> exn + ToolSelection list"

record 'w RouterOutputAgentWorkflow =
  timeout :: "nat option"
  tools :: "'w BaseTool list"
  tools_dict :: "string \<rightharpoonup> 'w BaseTool"
  llm :: "'w LLM"
  chat_history :: "ChatMessage list"

datatype event =
    StartEvent "string option"
  | InputEvent
  | GatherToolsEvent "ToolSelection list"
  | ToolCallEvent ToolSelection
  | ToolCallEventResult ChatMessage
  | StopEvent "string option"

text \<open>
  The framework's per-run context: the store (\<^verbatim>\<open>ctx.set\<close>, \<^verbatim>\<open>ctx.get\<close>), of which the
  program uses the key \<^verbatim>\<open>num_tool_calls\<close> only, and the buffer of \<^verbatim>\<open>collect_events\<close>,
  which holds \<^verbatim>\<open>ToolCallEventResult\<close> events, each given by its \<^verbatim>\<open>msg\<close>.
\<close>

record Context =
  num_tool_calls :: "nat option"
  events_buffer :: "ChatMessage list"

section \<open>The workflow: construction and reset\<close>

text \<open>
  \<^verbatim>\<open>__init__\<close>: the timeout goes to the framework, which abandons a run that lasts longer
  (\<open>None\<close>: never); a later tool of the same name replaces an earlier one in the catalog;
  the model is the one given or else the global setting, and none at all is an error.
  \<^verbatim>\<open>create_workflow\<close> and \<^verbatim>\<open>main\<close> construct the workflow with a timeout of 120 seconds
  and the global model.
\<close>

definition init ::
  "'w BaseTool list \<Rightarrow> nat option \<Rightarrow> 'w LLM option \<Rightarrow> 'w LLM option \<Rightarrow> ChatMessage list option
     \<Rightarrow> exn + 'w RouterOutputAgentWorkflow" where
  "init tls limit llm_arg settings_llm history =
     (case (case llm_arg of Some l \<Rightarrow> Some l | None \<Rightarrow> settings_llm) of
        None \<Rightarrow> Inl (ValueError ''No LLM provided and Settings.llm is not initialized'')
      | Some l \<Rightarrow>
          Inr \<lparr>timeout = limit,
               tools = tls,
               tools_dict = fold (\<lambda>tool m. m(metadata_name tool \<mapsto> tool)) tls Map.empty,
               llm = l,
               chat_history = (case history of None \<Rightarrow> [] | Some h \<Rightarrow> h)\<rparr>)"

definition create_workflow ::
  "'w BaseTool list \<Rightarrow> 'w LLM option \<Rightarrow> exn + 'w RouterOutputAgentWorkflow" where
  "create_workflow tls settings_llm = init tls (Some 120) None settings_llm None"

definition reset :: "'w RouterOutputAgentWorkflow \<Rightarrow> 'w RouterOutputAgentWorkflow" where
  "reset self = self\<lparr>chat_history := []\<rparr>"

section \<open>The steps\<close>

definition system_prompt :: string where
  "system_prompt = concat
     [''You are an intelligent assistant with access to two specialized tools:\<newline>\<newline>'',
      ''1. SQL Tool: For querying structured data about people/students including names, '',
      ''birthdays, contact info, addresses, etc. Use this for specific person lookups '',
      ''and data analysis.\<newline>\<newline>'',
      ''2. Document Tool: For searching uploaded documents about policies, procedures, '',
      ''institutional information, etc. Use this for conceptual questions.\<newline>\<newline>'',
      ''IMPORTANT GUIDELINES:\<newline>'',
      ''- When a user asks about a specific person's information (name, birthday, phone, email, address), use ONLY the sql_tool\<newline>'',
      ''- When they ask about policies, procedures, or general information from documents, use ONLY the document_tool\<newline>'',
      ''- Make ONE targeted tool call per query - do not make multiple calls to the same tool\<newline>'',
      ''- Choose the most appropriate single tool based on the question type\<newline>'',
      ''- For mixed queries (e.g., 'terms and conditions AND phone owner'), make separate tool calls for each part'']"

definition system_msg :: ChatMessage where
  "system_msg = \<lparr>role = SYSTEM, content = Some system_prompt, name = None, additional_kwargs = []\<rparr>"

definition user_msg :: "string \<Rightarrow> ChatMessage" where
  "user_msg m = \<lparr>role = USER, content = Some m, name = None, additional_kwargs = []\<rparr>"

text \<open>\<^verbatim>\<open>prepare_chat\<close>: the only step that raises.\<close>

definition prepare_chat ::
  "'w RouterOutputAgentWorkflow \<Rightarrow> string option \<Rightarrow> exn + ('w RouterOutputAgentWorkflow \<times> event)" where
  "prepare_chat self msg =
     (case msg of
        None \<Rightarrow> Inl (ValueError '''message' field is required.'')
      | Some m \<Rightarrow>
          (let h = (if chat_history self = [] then chat_history self @ [system_msg] else chat_history self)
           in Inr (self\<lparr>chat_history := h @ [user_msg m]\<rparr>, InputEvent)))"

definition cancelled_answer :: string where
  "cancelled_answer = ''The operation was cancelled. Please try again.''"

definition apology :: string where
  "apology = ''I encountered an issue processing your request. Please try rephrasing your question.''"

definition gather_apology :: string where
  "gather_apology = ''I encountered an issue processing the tool responses. Please try again.''"

text \<open>
  \<^verbatim>\<open>chat\<close>: one reasoning call. \<open>chat_after\<close> is the step from the moment the awaited call
  is over, whether it returned, raised or was interrupted. The assistant message is
  appended only when both the call and the extraction of the tool calls have succeeded;
  the result of a direct answer is the content of that message, which may be \<open>None\<close>.
\<close>

definition chat_after ::
  "'w RouterOutputAgentWorkflow \<Rightarrow> ChatResponse awaited \<Rightarrow> 'w RouterOutputAgentWorkflow \<times> event" where
  "chat_after self out =
     (case out of
        Cancelled \<Rightarrow> (self, StopEvent (Some cancelled_answer))
      | Raises e \<Rightarrow> (self, StopEvent (Some apology))
      | Returns chat_res \<Rightarrow>
          (case get_tool_calls_from_response (llm self) chat_res of
             Inl e \<Rightarrow> (self, StopEvent (Some apology))
           | Inr tool_calls \<Rightarrow>
               (let ai_message = message chat_res;
                    self' = self\<lparr>chat_history := chat_history self @ [ai_message]\<rparr>
                in if tool_calls = [] then (self', StopEvent (content ai_message))
                   else (self', GatherToolsEvent tool_calls))))"

definition chat ::
  "'w RouterOutputAgentWorkflow \<Rightarrow> 'w \<Rightarrow> 'w RouterOutputAgentWorkflow \<times> 'w \<times> event" where
  "chat self w =
     (case achat_with_tools (llm self) (tools self) (chat_history self) w of
        (out, w') \<Rightarrow> (case chat_after self out of (self', ev) \<Rightarrow> (self', w', ev)))"

text \<open>\<^verbatim>\<open>dispatch_calls\<close>: records the number of calls, sends one event per call, returns none.\<close>

definition dispatch_calls :: "Context \<Rightarrow> ToolSelection list \<Rightarrow> Context \<times> event list" where
  "dispatch_calls c tool_calls =
     (c\<lparr>num_tool_calls := Some (length tool_calls)\<rparr>, map ToolCallEvent tool_calls)"

definition tool_msg :: "ToolSelection \<Rightarrow> string \<Rightarrow> ChatMessage" where
  "tool_msg tool_call text =
     \<lparr>role = TOOL, content = Some text, name = Some (tool_name tool_call),
      additional_kwargs =
        [(''tool_call_id'', tool_id tool_call),
         (''name'', tool_name tool_call),
         (''tool_used'', tool_name tool_call)]\<rparr>"

definition error_msg :: "ToolSelection \<Rightarrow> exn \<Rightarrow> string" where
  "error_msg tool_call e = ''Error executing '' @ tool_name tool_call @ '': '' @ str_exn e"

definition cancelled_content :: string where
  "cancelled_content = ''Tool execution was cancelled''"

text \<open>
  \<^verbatim>\<open>call_tool\<close>. \<open>call_tool_after\<close> is the step from the moment the \<^verbatim>\<open>try\<close> body is
  over: with the adapter's output, with \<^verbatim>\<open>CancelledError\<close>, or with an exception. The
  catalog lookup raises \<^verbatim>\<open>KeyError\<close> inside the \<^verbatim>\<open>try\<close>, before the adapter is reached, so
  an unknown tool leaves the world as it is.
\<close>

definition call_tool_after :: "ToolSelection \<Rightarrow> string option awaited \<Rightarrow> event" where
  "call_tool_after tool_call out =
     (case out of
        Returns output \<Rightarrow>
          ToolCallEventResult (tool_msg tool_call (case output of None \<Rightarrow> [] | Some text \<Rightarrow> text))
      | Cancelled \<Rightarrow> ToolCallEventResult (tool_msg tool_call cancelled_content)
      | Raises e \<Rightarrow> ToolCallEventResult (tool_msg tool_call (error_msg tool_call e)))"

definition call_tool ::
  "'w RouterOutputAgentWorkflow \<Rightarrow> ToolSelection \<Rightarrow> 'w \<Rightarrow> event \<times> 'w" where
  "call_tool self tool_call w =
     (case tools_dict self (tool_name tool_call) of
        None \<Rightarrow> (call_tool_after tool_call (Raises (KeyError (tool_name tool_call))), w)
      | Some tool \<Rightarrow>
          (case acall tool (tool_kwargs tool_call) w of
             (out, w') \<Rightarrow> (call_tool_after tool_call out, w')))"

text \<open>
  The framework's \<^verbatim>\<open>collect_events(ev, expected)\<close>: the event joins the buffer; then one
  buffered event is taken from the front for every expected entry, as long as there is
  one. When all expected entries were served the events are handed out, otherwise they
  are put back at the end of the buffer and nothing is handed out. All expected entries
  of the program are of the one type \<^verbatim>\<open>ToolCallEventResult\<close>, so \<open>expected\<close> is their
  number.
\<close>

fun pop_expected :: "nat \<Rightarrow> 'a list \<Rightarrow> 'a list \<times> 'a list" where
  "pop_expected 0 buf = ([], buf)"
| "pop_expected (Suc n) [] = pop_expected n []"
| "pop_expected (Suc n) (x # buf) = (let (retval, rest) = pop_expected n buf in (x # retval, rest))"

definition collect_events :: "Context \<Rightarrow> ChatMessage \<Rightarrow> nat \<Rightarrow> Context \<times> ChatMessage list option" where
  "collect_events c ev expected =
     (let (retval, rest) = pop_expected expected (events_buffer c @ [ev])
      in if length retval = expected then (c\<lparr>events_buffer := rest\<rparr>, Some retval)
         else (c\<lparr>events_buffer := rest @ retval\<rparr>, None))"

text \<open>
  \<^verbatim>\<open>gather\<close>: \<^verbatim>\<open>ctx.get\<close> of a key never set raises inside the \<^verbatim>\<open>try\<close>, which turns it
  into the fixed answer.
\<close>

definition gather ::
  "'w RouterOutputAgentWorkflow \<Rightarrow> Context \<Rightarrow> ChatMessage
     \<Rightarrow> 'w RouterOutputAgentWorkflow \<times> Context \<times> event option" where
  "gather self c ev =
     (case num_tool_calls c of
        None \<Rightarrow> (self, c, Some (StopEvent (Some gather_apology)))
      | Some n \<Rightarrow>
          (case collect_events c ev n of
             (c', None) \<Rightarrow> (self, c', None)
           | (c', Some tool_events) \<Rightarrow>
               if tool_events = [] then (self, c', None)
               else (self\<lparr>chat_history := chat_history self @ tool_events\<rparr>, c', Some InputEvent)))"

section \<open>The event loop\<close>

text \<open>
  A run owns the workflow object, a fresh context and the world. Pending events wait in
  a pool; a scheduler, which may look at the world and at the number of events handled
  so far, says which pending event's step completes next and how many seconds pass until
  then, so that tool calls in flight complete in any order and results are gathered while
  other calls are still in flight. A step that raises ends the run with that exception; a
  \<^verbatim>\<open>StopEvent\<close> ends it with its result; an empty pool leaves the run waiting.

  When the timeout would pass before the next step completes, the framework abandons the
  run: every step in flight is interrupted, \<^verbatim>\<open>run\<close> raises \<^verbatim>\<open>WorkflowTimeoutError\<close>
  (\<open>TimedOut\<close>), and what the interrupted steps return is handled by nobody. A step is
  in flight when it awaits: the reasoning call of \<^verbatim>\<open>chat\<close>, the adapter of \<^verbatim>\<open>call_tool\<close>.
  The caller's own \<^verbatim>\<open>wait_for\<close> (\<^verbatim>\<open>process_query\<close>, 60 seconds) abandons a run in the same
  way, from outside \<^verbatim>\<open>run\<close>.
\<close>

record 'w run_state =
  workflow :: "'w RouterOutputAgentWorkflow"
  ctx :: Context
  world :: 'w
  clock :: nat
  elapsed :: nat

type_synonym 'w scheduler = "'w \<Rightarrow> nat \<Rightarrow> nat \<Rightarrow> nat \<times> nat"

datatype 'w conf =
    Running "'w run_state" "event list"
  | Returned "string option" "'w run_state"
  | Raised exn "'w run_state"
  | TimedOut "'w run_state" "event list"
  | Stalled "'w run_state"

fun handle :: "'w run_state \<Rightarrow> event \<Rightarrow> exn + ('w run_state \<times> event list)" where
  "handle s (StartEvent msg) =
     (case prepare_chat (workflow s) msg of
        Inl e \<Rightarrow> Inl e
      | Inr (self', ev) \<Rightarrow> Inr (s\<lparr>workflow := self'\<rparr>, [ev]))"
| "handle s InputEvent =
     (case chat (workflow s) (world s) of
        (self', w', ev) \<Rightarrow> Inr (s\<lparr>workflow := self', world := w'\<rparr>, [ev]))"
| "handle s (GatherToolsEvent tool_calls) =
     (case dispatch_calls (ctx s) tool_calls of
        (c', evs) \<Rightarrow> Inr (s\<lparr>ctx := c'\<rparr>, evs))"
| "handle s (ToolCallEvent tool_call) =
     (case call_tool (workflow s) tool_call (world s) of
        (ev, w') \<Rightarrow> Inr (s\<lparr>world := w'\<rparr>, [ev]))"
| "handle s (ToolCallEventResult m) =
     (case gather (workflow s) (ctx s) m of
        (self', c', ev) \<Rightarrow>
          Inr (s\<lparr>workflow := self', ctx := c'\<rparr>, (case ev of None \<Rightarrow> [] | Some e \<Rightarrow> [e])))"
| "handle s (StopEvent r) = Inr (s, [])"

text \<open>What a pending event's step returns when it is interrupted in flight.\<close>

definition interrupted :: "'w RouterOutputAgentWorkflow \<Rightarrow> event \<Rightarrow> event list" where
  "interrupted self ev =
     (case ev of
        InputEvent \<Rightarrow> [snd (chat_after self Cancelled)]
      | ToolCallEvent tool_call \<Rightarrow>
          (case tools_dict self (tool_name tool_call) of
             None \<Rightarrow> []
           | Some tool \<Rightarrow> [call_tool_after tool_call Cancelled])
      | _ \<Rightarrow> [])"

definition expired :: "nat option \<Rightarrow> nat \<Rightarrow> bool" where
  "expired limit t = (case limit of None \<Rightarrow> False | Some T \<Rightarrow> T < t)"

definition chosen :: "'w scheduler \<Rightarrow> 'w run_state \<Rightarrow> event list \<Rightarrow> nat" where
  "chosen sch s pool = fst (sch (world s) (clock s) (length pool)) mod length pool"

definition duration :: "'w scheduler \<Rightarrow> 'w run_state \<Rightarrow> event list \<Rightarrow> nat" where
  "duration sch s pool = snd (sch (world s) (clock s) (length pool))"

definition tick :: "'w scheduler \<Rightarrow> 'w run_state \<Rightarrow> event list \<Rightarrow> 'w run_state" where
  "tick sch s pool = s\<lparr>clock := Suc (clock s), elapsed := elapsed s + duration sch s pool\<rparr>"

definition remove_nth :: "nat \<Rightarrow> 'a list \<Rightarrow> 'a list" where
  "remove_nth i xs = take i xs @ drop (Suc i) xs"

fun step_pool :: "'w scheduler \<Rightarrow> 'w conf \<Rightarrow> 'w conf" where
  "step_pool sch (Running s pool) =
     (if pool = [] then Stalled s
      else if expired (timeout (workflow s)) (elapsed s + duration sch s pool)
        then TimedOut s (concat (map (interrupted (workflow s)) pool))
      else
        (let i = chosen sch s pool;
             s1 = tick sch s pool
         in case pool ! i of
              StopEvent r \<Rightarrow> Returned r s1
            | ev \<Rightarrow>
                (case handle s1 ev of
                   Inl e \<Rightarrow> Raised e s1
                 | Inr (s2, evs) \<Rightarrow> Running s2 (remove_nth i pool @ evs))))"
| "step_pool sch c = c"

fun run_loop :: "'w scheduler \<Rightarrow> nat \<Rightarrow> 'w conf \<Rightarrow> 'w conf" where
  "run_loop sch 0 c = c"
| "run_loop sch (Suc n) c = run_loop sch n (step_pool sch c)"

definition start :: "'w RouterOutputAgentWorkflow \<Rightarrow> 'w \<Rightarrow> string option \<Rightarrow> 'w conf" where
  "start self w msg =
     Running \<lparr>workflow = self, ctx = \<lparr>num_tool_calls = None, events_buffer = []\<rparr>,
              world = w, clock = 0, elapsed = 0\<rparr>
       [StartEvent msg]"

text \<open>
  \<^verbatim>\<open>run(message=...)\<close>, observed after \<open>fuel\<close> events: \<open>Returned\<close> is the value it
  returns, \<open>Raised\<close> and \<open>TimedOut\<close> are the exceptions it raises, and a result that is
  still \<open>Running\<close> has not come back within that many events.
\<close>

definition run ::
  "'w scheduler \<Rightarrow> nat \<Rightarrow> 'w RouterOutputAgentWorkflow \<Rightarrow> 'w \<Rightarrow> string option \<Rightarrow> 'w conf" where
  "run sch fuel self w msg = run_loop sch fuel (start self w msg)"

section \<open>The owning session\<close>



section \<open>Invariants of a run\<close>

text \<open>
  The history \<^verbatim>\<open>prepare_chat\<close> leaves, and the predicates of the proofs below. A round
  starts in the configuration \<open>c0\<close> that dispatch leaves. After \<open>k\<close> further events
  (\<open>in_round\<close>) the pool holds calls in flight and results not yet gathered, pool and
  buffer together hold as many events as calls were dispatched, the history is the one
  the round started with, every dispatched call is in the pool or was handled at an
  earlier event of the round, and the result of every call handled so far, as the adapter
  gave it in the world of that moment, is in the pool or the buffer. \<open>round_done\<close> is the
  configuration the last gathered result leaves, \<open>abandoned\<close> the one an expired timeout
  leaves. \<open>reach_inv\<close> holds of every configuration of a run; \<open>calm\<close> of every
  configuration of a run that was given a message. \<open>sim\<close> relates two runs that differ in
  the world only.
\<close>

definition prepared :: "ChatMessage list \<Rightarrow> string \<Rightarrow> ChatMessage list" where
  "prepared h q = (if h = [] then [system_msg, user_msg q] else h @ [user_msg q])"

definition is_call :: "event \<Rightarrow> bool" where
  "is_call ev = (case ev of ToolCallEvent _ \<Rightarrow> True | _ \<Rightarrow> False)"

definition in_round ::
  "'w scheduler \<Rightarrow> 'w conf \<Rightarrow> 'w RouterOutputAgentWorkflow \<Rightarrow> ToolSelection list \<Rightarrow> nat \<Rightarrow> 'w conf \<Rightarrow> bool" where
  "in_round sch c0 self0 tcs k c =
     (\<exists>s pool. c = Running s pool \<and> run_loop sch k c0 = c \<and> workflow s = self0 \<and>
        k < 2 * length tcs \<and> num_tool_calls (ctx s) = Some (length tcs) \<and>
        (\<forall>ev\<in>set pool. (\<exists>tc. ev = ToolCallEvent tc) \<or> (\<exists>m. ev = ToolCallEventResult m \<and> role m = TOOL)) \<and>
        (\<forall>m\<in>set (events_buffer (ctx s)). role m = TOOL) \<and>
        length pool + length (events_buffer (ctx s)) = length tcs \<and>
        length (filter is_call pool) + length pool + k = 2 * length tcs \<and>
        (\<forall>tc\<in>set tcs. ToolCallEvent tc \<in> set pool \<or>
           (\<exists>j<k. \<exists>sj pj. run_loop sch j c0 = Running sj pj \<and> pj ! chosen sch sj pj = ToolCallEvent tc)) \<and>
        (\<forall>j<k. \<forall>sj pj tc. run_loop sch j c0 = Running sj pj \<longrightarrow>
           pj ! chosen sch sj pj = ToolCallEvent tc \<longrightarrow>
           fst (call_tool self0 tc (world sj))
             \<in> set pool \<union> ToolCallEventResult ` set (events_buffer (ctx s))))"

definition round_done ::
  "'w scheduler \<Rightarrow> 'w conf \<Rightarrow> 'w RouterOutputAgentWorkflow \<Rightarrow> ToolSelection list \<Rightarrow> 'w conf \<Rightarrow> bool" where
  "round_done sch c0 self0 tcs c =
     (\<exists>s msgs. c = Running s [InputEvent] \<and>
        workflow s = self0\<lparr>chat_history := chat_history self0 @ msgs\<rparr> \<and>
        length msgs = length tcs \<and> (\<forall>m\<in>set msgs. role m = TOOL) \<and>
        (\<forall>tc\<in>set tcs. \<exists>j<2 * length tcs. \<exists>sj pj.
           run_loop sch j c0 = Running sj pj \<and> pj ! chosen sch sj pj = ToolCallEvent tc) \<and>
        (\<forall>j<2 * length tcs. \<forall>sj pj tc. run_loop sch j c0 = Running sj pj \<longrightarrow>
           pj ! chosen sch sj pj = ToolCallEvent tc \<longrightarrow>
           fst (call_tool self0 tc (world sj)) \<in> ToolCallEventResult ` set msgs) \<and>
        events_buffer (ctx s) = [] \<and> num_tool_calls (ctx s) = Some (length tcs))"

definition abandoned :: "'w RouterOutputAgentWorkflow \<Rightarrow> 'w conf \<Rightarrow> bool" where
  "abandoned self0 c = (\<exists>s dropped. c = TimedOut s dropped \<and> workflow s = self0 \<and> timeout self0 \<noteq> None)"

definition idle_event :: "event \<Rightarrow> bool" where
  "idle_event ev =
     (case ev of StartEvent _ \<Rightarrow> True | InputEvent \<Rightarrow> True | StopEvent _ \<Rightarrow> True
      | GatherToolsEvent tcs \<Rightarrow> tcs \<noteq> [] | _ \<Rightarrow> False)"

definition final_ok :: "'w RouterOutputAgentWorkflow \<Rightarrow> string option \<Rightarrow> bool" where
  "final_ok self r =
     (r = Some apology \<or> r = Some cancelled_answer \<or>
      (chat_history self \<noteq> [] \<and> r = content (last (chat_history self))))"

definition reach_inv :: "'w scheduler \<Rightarrow> 'w conf \<Rightarrow> bool" where
  "reach_inv sch c =
     (case c of
        Running s pool \<Rightarrow>
          (\<exists>ev. pool = [ev] \<and> idle_event ev \<and> events_buffer (ctx s) = [] \<and>
             (\<forall>r. ev = StopEvent r \<longrightarrow> final_ok (workflow s) r)) \<or>
          (\<exists>c0 tcs k. in_round sch c0 (workflow s) tcs k c)
      | Returned r s \<Rightarrow> final_ok (workflow s) r
      | Raised _ _ \<Rightarrow> True
      | TimedOut s _ \<Rightarrow> timeout (workflow s) \<noteq> None
      | Stalled _ \<Rightarrow> False)"

fun state_of :: "'w conf \<Rightarrow> 'w run_state" where
  "state_of (Running s pool) = s"
| "state_of (Returned r s) = s"
| "state_of (Raised e s) = s"
| "state_of (TimedOut s dropped) = s"
| "state_of (Stalled s) = s"

fun returned :: "'w conf \<Rightarrow> string option option" where
  "returned (Returned r s) = Some r"
| "returned _ = None"

definition finished :: "'w conf \<Rightarrow> bool" where
  "finished c = ((\<exists>r s. c = Returned r s) \<or> (\<exists>s dropped. c = TimedOut s dropped))"

definition calm :: "'w conf \<Rightarrow> bool" where
  "calm c = (case c of Running s pool \<Rightarrow> StartEvent None \<notin> set pool | Raised _ _ \<Rightarrow> False | _ \<Rightarrow> True)"

definition agree :: "'w run_state \<Rightarrow> 'w run_state \<Rightarrow> bool" where
  "agree s t = (workflow s = workflow t \<and> ctx s = ctx t \<and> clock s = clock t \<and> elapsed s = elapsed t)"

fun sim :: "'w conf \<Rightarrow> 'w conf \<Rightarrow> bool" where
  "sim (Running s p) (Running t q) = (agree s t \<and> p = q)"
| "sim (Returned r s) (Returned r' t) = (r = r' \<and> agree s t)"
| "sim (Raised e s) (Raised e' t) = (e = e' \<and> agree s t)"
| "sim (TimedOut s d) (TimedOut t d') = (agree s t \<and> d = d')"
| "sim (Stalled s) (Stalled t) = agree s t"
| "sim _ _ = False"

section \<open>An example session\<close>

text \<open>
  A catalog of three tools, of which one returns, one raises and one is interrupted; a
  reasoning client that requests four calls (the fourth to a tool the catalog does not
  have) as long as the history has at most two messages, and answers afterwards; one that
  always raises, one that always answers, one that answers with a message without
  content, and one that answers with the content of the first tool message; a scheduler
  that picks by the number of events handled so far, every step taking a second, a slow
  one, and one that picks by the world. The world counts the external calls.
\<close>

definition demo_sql_tool :: "nat BaseTool" where
  "demo_sql_tool = \<lparr>metadata_name = ''sql_tool'',
     acall = (\<lambda>kwargs w. (Returns (Some ''1990-05-17''), Suc w))\<rparr>"

definition demo_document_tool :: "nat BaseTool" where
  "demo_document_tool = \<lparr>metadata_name = ''document_tool'',
     acall = (\<lambda>kwargs w. (Raises (Exception ''index unavailable''), Suc w))\<rparr>"

definition demo_slow_tool :: "nat BaseTool" where
  "demo_slow_tool = \<lparr>metadata_name = ''slow_tool'',
     acall = (\<lambda>kwargs w. (Cancelled, Suc w))\<rparr>"

definition sql_call :: ToolSelection where
  "sql_call = \<lparr>tool_id = ''call_1'', tool_name = ''sql_tool'',
     tool_kwargs = [(''input'', ''birthday of Paula Walker'')]\<rparr>"

definition document_call :: ToolSelection where
  "document_call = \<lparr>tool_id = ''call_2'', tool_name = ''document_tool'',
     tool_kwargs = [(''input'', ''privacy policy'')]\<rparr>"

definition slow_call :: ToolSelection where
  "slow_call = \<lparr>tool_id = ''call_3'', tool_name = ''slow_tool'', tool_kwargs = []\<rparr>"

definition web_call :: ToolSelection where
  "web_call = \<lparr>tool_id = ''call_4'', tool_name = ''web_tool'', tool_kwargs = []\<rparr>"

definition demo_calls :: "ToolSelection list" where
  "demo_calls = [sql_call, document_call, slow_call, web_call]"

definition demo_request :: ChatMessage where
  "demo_request = \<lparr>role = ASSISTANT, content = None, name = None, additional_kwargs = []\<rparr>"

definition demo_answer :: ChatMessage where
  "demo_answer = \<lparr>role = ASSISTANT, content = Some ''Paula Walker was born on 1990-05-17.'',
     name = None, additional_kwargs = []\<rparr>"

definition demo_llm :: "nat LLM" where
  "demo_llm = \<lparr>achat_with_tools =
       (\<lambda>tls h w. (Returns \<lparr>message = (if length h \<le> 2 then demo_request else demo_answer)\<rparr>, Suc w)),
     get_tool_calls_from_response =
       (\<lambda>res. Inr (if content (message res) = None then demo_calls else []))\<rparr>"

definition failing_llm :: "nat LLM" where
  "failing_llm = \<lparr>achat_with_tools = (\<lambda>tls h w. (Raises (Exception ''rate limit''), Suc w)),
     get_tool_calls_from_response = (\<lambda>res. Inr [])\<rparr>"

definition direct_llm :: "nat LLM" where
  "direct_llm = \<lparr>achat_with_tools = (\<lambda>tls h w. (Returns \<lparr>message = demo_answer\<rparr>, Suc w)),
     get_tool_calls_from_response = (\<lambda>res. Inr [])\<rparr>"

definition silent_llm :: "nat LLM" where
  "silent_llm = \<lparr>achat_with_tools = (\<lambda>tls h w. (Returns \<lparr>message = demo_request\<rparr>, Suc w)),
     get_tool_calls_from_response = (\<lambda>res. Inr [])\<rparr>"

definition echo_llm :: "nat LLM" where
  "echo_llm = \<lparr>achat_with_tools =
       (\<lambda>tls h w.
          (Returns \<lparr>message =
             (case find (\<lambda>m. role m = TOOL) h of
                None \<Rightarrow> demo_request
              | Some m \<Rightarrow> \<lparr>role = ASSISTANT, content = content m, name = None, additional_kwargs = []\<rparr>)\<rparr>,
           Suc w)),
     get_tool_calls_from_response =
       (\<lambda>res. Inr (if content (message res) = None then [sql_call, document_call] else []))\<rparr>"

definition demo_workflow :: "nat RouterOutputAgentWorkflow" where
  "demo_workflow =
     (case create_workflow [demo_sql_tool, demo_document_tool, demo_slow_tool] (Some demo_llm) of
        Inr self \<Rightarrow> self)"

definition echo_workflow :: "nat RouterOutputAgentWorkflow" where
  "echo_workflow =
     (case init [demo_sql_tool, demo_document_tool] (Some 120) (Some echo_llm) None None of
        Inr self \<Rightarrow> self)"

definition demo_sched :: "nat scheduler" where
  "demo_sched w k n = (k, 1)"

definition slow_sched :: "nat scheduler" where
  "slow_sched w k n = (k, 35)"

definition world_sched :: "nat scheduler" where
  "world_sched w k n = (if w = 1 then 1 else 0, 1)"

section \<open>The event loop, step by step\<close>

declare step_pool.simps(1) [simp del]

lemma run_loop_add: "run_loop sch (m + n) c = run_loop sch n (run_loop sch m c)"
  by (induction m arbitrary: c) simp_all

lemma run_loop_Suc_end: "run_loop sch (Suc n) c = step_pool sch (run_loop sch n c)"
  by (induction n arbitrary: c) simp_all

lemma run_loop_Returned: "run_loop sch n (Returned r s) = Returned r s"
  by (induction n) simp_all

lemma run_loop_Raised: "run_loop sch n (Raised e s) = Raised e s"
  by (induction n) simp_all

lemma run_loop_TimedOut: "run_loop sch n (TimedOut s dropped) = TimedOut s dropped"
  by (induction n) simp_all

lemma tick_simps:
  "workflow (tick sch s pool) = workflow s" "ctx (tick sch s pool) = ctx s"
  "world (tick sch s pool) = world s" "clock (tick sch s pool) = Suc (clock s)"
  "elapsed (tick sch s pool) = elapsed s + duration sch s pool"
  by (simp_all add: tick_def)

lemma expired_less: "\<not> expired limit t \<Longrightarrow> t' \<le> t \<Longrightarrow> \<not> expired limit t'"
  by (cases limit) (simp_all add: expired_def)

lemma expired_Some: "expired limit t \<Longrightarrow> limit \<noteq> None"
  by (cases limit) (simp_all add: expired_def)

lemma expired_None: "\<not> expired None t"
  by (simp add: expired_def)

lemma prepare_chat_Some:
  "prepare_chat self (Some q) =
     Inr (self\<lparr>chat_history :=
            (if chat_history self = [] then [system_msg, user_msg q]
             else chat_history self @ [user_msg q])\<rparr>, InputEvent)"
  by (simp add: prepare_chat_def)

lemma step_pool_expired:
  "pool \<noteq> [] \<Longrightarrow> expired (timeout (workflow s)) (elapsed s + duration sch s pool) \<Longrightarrow>
     step_pool sch (Running s pool) = TimedOut s (concat (map (interrupted (workflow s)) pool))"
  by (simp add: step_pool.simps(1))

lemma step_pool_nonempty:
  "pool \<noteq> [] \<Longrightarrow> \<not> expired (timeout (workflow s)) (elapsed s + duration sch s pool) \<Longrightarrow>
   step_pool sch (Running s pool) =
     (case pool ! chosen sch s pool of
        StopEvent r \<Rightarrow> Returned r (tick sch s pool)
      | ev \<Rightarrow> (case handle (tick sch s pool) ev of
                Inl e \<Rightarrow> Raised e (tick sch s pool)
              | Inr (s2, evs) \<Rightarrow> Running s2 (remove_nth (chosen sch s pool) pool @ evs)))"
  by (simp add: step_pool.simps(1) Let_def)

lemma step_pool_single:
  "\<not> expired (timeout (workflow s)) (elapsed s + duration sch s [ev]) \<Longrightarrow>
   step_pool sch (Running s [ev]) =
     (case ev of
        StopEvent r \<Rightarrow> Returned r (tick sch s [ev])
      | _ \<Rightarrow> (case handle (tick sch s [ev]) ev of
                Inl e \<Rightarrow> Raised e (tick sch s [ev])
              | Inr (s2, evs) \<Rightarrow> Running s2 evs))"
  by (cases ev) (simp_all add: step_pool_nonempty chosen_def remove_nth_def split: sum.splits prod.splits)

lemma step_Start:
  "\<not> expired (timeout (workflow s)) (elapsed s + duration sch s [StartEvent (Some q)]) \<Longrightarrow>
   step_pool sch (Running s [StartEvent (Some q)]) =
     Running ((tick sch s [StartEvent (Some q)])
                \<lparr>workflow := (workflow s)\<lparr>chat_history := prepared (chat_history (workflow s)) q\<rparr>\<rparr>)
       [InputEvent]"
  by (simp add: step_pool_single prepare_chat_Some prepared_def tick_simps)

lemma step_Stop:
  "\<not> expired (timeout (workflow s)) (elapsed s + duration sch s [StopEvent r]) \<Longrightarrow>
   step_pool sch (Running s [StopEvent r]) = Returned r (tick sch s [StopEvent r])"
  by (simp add: step_pool_single)

lemma step_Input:
  "\<not> expired (timeout (workflow s)) (elapsed s + duration sch s [InputEvent]) \<Longrightarrow>
   step_pool sch (Running s [InputEvent]) =
     (case chat (workflow s) (world s) of
        (self', w', ev) \<Rightarrow> Running ((tick sch s [InputEvent])\<lparr>workflow := self', world := w'\<rparr>) [ev])"
  by (simp add: step_pool_single tick_simps split: prod.splits)

lemma chat_direct:
  assumes "achat_with_tools (llm self) (tools self) (chat_history self) w = (Returns res, w')"
    and "get_tool_calls_from_response (llm self) res = Inr []"
  shows "chat self w = (self\<lparr>chat_history := chat_history self @ [message res]\<rparr>, w',
                        StopEvent (content (message res)))"
  using assms by (simp add: chat_def chat_after_def Let_def)

lemma chat_raises:
  assumes "achat_with_tools (llm self) (tools self) (chat_history self) w = (Raises e, w')"
  shows "chat self w = (self, w', StopEvent (Some apology))"
  using assms by (simp add: chat_def chat_after_def)

lemma chat_malformed:
  assumes "achat_with_tools (llm self) (tools self) (chat_history self) w = (Returns res, w')"
    and "get_tool_calls_from_response (llm self) res = Inl e"
  shows "chat self w = (self, w', StopEvent (Some apology))"
  using assms by (simp add: chat_def chat_after_def)

lemma run_None:
  "\<not> expired (timeout self) (snd (sch w 0 1)) \<Longrightarrow>
   run sch (Suc n) self w None =
     Raised (ValueError '''message' field is required.'')
       \<lparr>workflow = self, ctx = \<lparr>num_tool_calls = None, events_buffer = []\<rparr>, world = w,
        clock = 1, elapsed = snd (sch w 0 1)\<rparr>"
  by (simp add: run_def start_def step_pool_single prepare_chat_def run_loop_Raised duration_def tick_def)

section \<open>A round of tool calls\<close>

lemma length_remove_nth: "i < length xs \<Longrightarrow> length (remove_nth i xs) = length xs - 1"
  by (simp add: remove_nth_def)

lemma set_remove_nth_subset: "set (remove_nth i xs) \<subseteq> set xs"
  unfolding remove_nth_def using set_take_subset [of i xs] set_drop_subset [of "Suc i" xs] by auto

lemma split_at_nth: "i < length xs \<Longrightarrow> xs = take i xs @ xs ! i # drop (Suc i) xs"
  by (simp add: id_take_nth_drop)

lemma set_remove_nth_cover: "i < length xs \<Longrightarrow> set xs = insert (xs ! i) (set (remove_nth i xs))"
proof -
  assume "i < length xs"
  then have "set xs = set (take i xs @ xs ! i # drop (Suc i) xs)"
    using split_at_nth [of i xs] by simp
  then show ?thesis by (simp add: remove_nth_def)
qed

lemma filter_remove_nth:
  "i < length xs \<Longrightarrow>
     length (filter P xs) = length (filter P (remove_nth i xs)) + (if P (xs ! i) then 1 else 0)"
proof -
  assume "i < length xs"
  then have "length (filter P xs) = length (filter P (take i xs @ xs ! i # drop (Suc i) xs))"
    using split_at_nth [of i xs] by simp
  then show ?thesis by (simp add: remove_nth_def)
qed

lemma pop_expected_take_drop: "pop_expected n buf = (take n buf, drop n buf)"
  by (induction n buf rule: pop_expected.induct) simp_all

lemma collect_events_short:
  "length (events_buffer c) + 1 < n \<Longrightarrow>
     collect_events c ev n = (c\<lparr>events_buffer := events_buffer c @ [ev]\<rparr>, None)"
  by (simp add: collect_events_def pop_expected_take_drop)

lemma collect_events_full:
  "length (events_buffer c) + 1 = n \<Longrightarrow>
     collect_events c ev n = (c\<lparr>events_buffer := []\<rparr>, Some (events_buffer c @ [ev]))"
  by (auto simp add: collect_events_def pop_expected_take_drop)

lemma gather_short:
  "num_tool_calls c = Some n \<Longrightarrow> length (events_buffer c) + 1 < n \<Longrightarrow>
     gather self c ev = (self, c\<lparr>events_buffer := events_buffer c @ [ev]\<rparr>, None)"
  by (simp add: gather_def collect_events_short)

lemma gather_full:
  "num_tool_calls c = Some n \<Longrightarrow> length (events_buffer c) + 1 = n \<Longrightarrow>
     gather self c ev =
       (self\<lparr>chat_history := chat_history self @ events_buffer c @ [ev]\<rparr>,
        c\<lparr>events_buffer := []\<rparr>, Some InputEvent)"
  by (simp add: gather_def collect_events_full)

lemma call_tool_after_result: "\<exists>m. call_tool_after tc out = ToolCallEventResult m \<and> role m = TOOL"
  by (cases out) (simp_all add: call_tool_after_def tool_msg_def)

lemma call_tool_result: "\<exists>m. fst (call_tool self tc w) = ToolCallEventResult m \<and> role m = TOOL"
  using call_tool_after_result by (auto simp add: call_tool_def split: option.splits prod.splits)

lemma in_roundI:
  assumes "c = Running s pool" and "run_loop sch k c0 = c" and "workflow s = self0"
    and "k < 2 * length tcs" and "num_tool_calls (ctx s) = Some (length tcs)"
    and "\<forall>ev\<in>set pool. (\<exists>tc. ev = ToolCallEvent tc) \<or> (\<exists>m. ev = ToolCallEventResult m \<and> role m = TOOL)"
    and "\<forall>m\<in>set (events_buffer (ctx s)). role m = TOOL"
    and "length pool + length (events_buffer (ctx s)) = length tcs"
    and "length (filter is_call pool) + length pool + k = 2 * length tcs"
    and "\<forall>tc\<in>set tcs. ToolCallEvent tc \<in> set pool \<or>
           (\<exists>j<k. \<exists>sj pj. run_loop sch j c0 = Running sj pj \<and> pj ! chosen sch sj pj = ToolCallEvent tc)"
    and "\<forall>j<k. \<forall>sj pj tc. run_loop sch j c0 = Running sj pj \<longrightarrow>
           pj ! chosen sch sj pj = ToolCallEvent tc \<longrightarrow>
           fst (call_tool self0 tc (world sj))
             \<in> set pool \<union> ToolCallEventResult ` set (events_buffer (ctx s))"
  shows "in_round sch c0 self0 tcs k c"
  unfolding in_round_def using assms by blast

lemma in_round_step:
  assumes "in_round sch c0 self0 tcs k c"
  shows "abandoned self0 (step_pool sch c) \<or>
         (if Suc k = 2 * length tcs then round_done sch c0 self0 tcs (step_pool sch c)
          else in_round sch c0 self0 tcs (Suc k) (step_pool sch c))"
proof -
  from assms obtain s pool where c: "c = Running s pool" and rl: "run_loop sch k c0 = c"
    and wf: "workflow s = self0"
    and k: "k < 2 * length tcs" and n: "num_tool_calls (ctx s) = Some (length tcs)"
    and shape: "\<forall>ev\<in>set pool. (\<exists>tc. ev = ToolCallEvent tc) \<or> (\<exists>m. ev = ToolCallEventResult m \<and> role m = TOOL)"
    and bufrole: "\<forall>m\<in>set (events_buffer (ctx s)). role m = TOOL"
    and len: "length pool + length (events_buffer (ctx s)) = length tcs"
    and meas: "length (filter is_call pool) + length pool + k = 2 * length tcs"
    and p1: "\<forall>tc\<in>set tcs. ToolCallEvent tc \<in> set pool \<or>
           (\<exists>j<k. \<exists>sj pj. run_loop sch j c0 = Running sj pj \<and> pj ! chosen sch sj pj = ToolCallEvent tc)"
    and p2: "\<forall>j<k. \<forall>sj pj tc. run_loop sch j c0 = Running sj pj \<longrightarrow>
           pj ! chosen sch sj pj = ToolCallEvent tc \<longrightarrow>
           fst (call_tool self0 tc (world sj))
             \<in> set pool \<union> ToolCallEventResult ` set (events_buffer (ctx s))"
    unfolding in_round_def by blast
  have ne: "pool \<noteq> []" using meas k by auto
  have rk: "run_loop sch k c0 = Running s pool" using rl c by simp
  have rl': "run_loop sch (Suc k) c0 = step_pool sch c" by (simp only: run_loop_Suc_end rl)
  show ?thesis
  proof (cases "expired (timeout (workflow s)) (elapsed s + duration sch s pool)")
    case True
    from expired_Some [OF this] have "timeout self0 \<noteq> None" using wf by simp
    then have "abandoned self0 (step_pool sch c)"
      using True ne wf by (simp add: c step_pool_expired abandoned_def)
    then show ?thesis by simp
  next
    case False
    define i where "i = chosen sch s pool"
    have i: "i < length pool" using ne by (simp add: i_def chosen_def)
    define s1 where "s1 = tick sch s pool"
    define rest where "rest = remove_nth i pool"
    have ws1: "workflow s1 = self0" "ctx s1 = ctx s" "world s1 = world s"
      by (simp_all add: s1_def tick_simps wf)
    have step: "step_pool sch c =
        (case pool ! i of StopEvent r \<Rightarrow> Returned r s1
         | ev \<Rightarrow> (case handle s1 ev of Inl e \<Rightarrow> Raised e s1
                  | Inr (s2, evs) \<Rightarrow> Running s2 (rest @ evs)))"
      unfolding c i_def s1_def rest_def using ne False by (rule step_pool_nonempty)
    have cover: "set pool = insert (pool ! i) (set rest)"
      unfolding rest_def using i by (rule set_remove_nth_cover)
    have sub: "set rest \<subseteq> set pool"
      unfolding rest_def by (rule set_remove_nth_subset)
    have lrest: "length rest = length pool - 1"
      unfolding rest_def using i by (rule length_remove_nth)
    have frest: "length (filter is_call pool) = length (filter is_call rest) + (if is_call (pool ! i) then 1 else 0)"
      unfolding rest_def using i by (rule filter_remove_nth)
    have "pool ! i \<in> set pool" using i by simp
    with shape consider (call) tc where "pool ! i = ToolCallEvent tc"
      | (res) m where "pool ! i = ToolCallEventResult m" "role m = TOOL"
      by blast
    then show ?thesis
    proof cases
      case call
      obtain m w' where ct: "call_tool self0 tc (world s) = (ToolCallEventResult m, w')" and rm: "role m = TOOL"
        using call_tool_result [of self0 tc "world s"] by (cases "call_tool self0 tc (world s)") auto
      define s2 where "s2 = s1\<lparr>world := w'\<rparr>"
      have st: "step_pool sch c = Running s2 (rest @ [ToolCallEventResult m])"
        by (simp add: step call ct ws1 s2_def)
      have s2f: "workflow s2 = self0" "ctx s2 = ctx s" by (simp_all add: s2_def ws1)
      have ic: "is_call (pool ! i)" by (simp add: call is_call_def)
      have nic: "\<not> is_call (ToolCallEventResult m)" by (simp add: is_call_def)
      have k': "Suc k < 2 * length tcs" using meas frest ic lrest ne by (cases pool) auto
      have q1: "\<forall>ev\<in>set (rest @ [ToolCallEventResult m]).
          (\<exists>tc. ev = ToolCallEvent tc) \<or> (\<exists>m. ev = ToolCallEventResult m \<and> role m = TOOL)"
        using shape sub rm by auto
      have q2: "length (rest @ [ToolCallEventResult m]) + length (events_buffer (ctx s)) = length tcs"
        using len lrest ne by (cases pool) auto
      have q3: "length (filter is_call (rest @ [ToolCallEventResult m])) + length (rest @ [ToolCallEventResult m]) + Suc k
          = 2 * length tcs"
        using meas frest ic nic lrest ne by (cases pool) auto
      have q4: "\<forall>tc'\<in>set tcs. ToolCallEvent tc' \<in> set (rest @ [ToolCallEventResult m]) \<or>
           (\<exists>j<Suc k. \<exists>sj pj. run_loop sch j c0 = Running sj pj \<and> pj ! chosen sch sj pj = ToolCallEvent tc')"
      proof
        fix tc' assume "tc' \<in> set tcs"
        with p1 have "ToolCallEvent tc' \<in> set pool \<or>
           (\<exists>j<k. \<exists>sj pj. run_loop sch j c0 = Running sj pj \<and> pj ! chosen sch sj pj = ToolCallEvent tc')"
          by blast
        then show "ToolCallEvent tc' \<in> set (rest @ [ToolCallEventResult m]) \<or>
           (\<exists>j<Suc k. \<exists>sj pj. run_loop sch j c0 = Running sj pj \<and> pj ! chosen sch sj pj = ToolCallEvent tc')"
        proof
          assume a: "ToolCallEvent tc' \<in> set pool"
          show ?thesis
          proof (cases "tc' = tc")
            case True
            have "run_loop sch k c0 = Running s pool \<and> pool ! chosen sch s pool = ToolCallEvent tc'"
              using rk call True by (simp add: i_def)
            then show ?thesis by blast
          next
            case False
            with a cover call have "ToolCallEvent tc' \<in> set rest" by auto
            then show ?thesis by simp
          qed
        next
          assume "\<exists>j<k. \<exists>sj pj. run_loop sch j c0 = Running sj pj \<and> pj ! chosen sch sj pj = ToolCallEvent tc'"
          then show ?thesis using less_Suc_eq by blast
        qed
      qed
      have q5: "\<forall>j<Suc k. \<forall>sj pj tc'. run_loop sch j c0 = Running sj pj \<longrightarrow>
           pj ! chosen sch sj pj = ToolCallEvent tc' \<longrightarrow>
           fst (call_tool self0 tc' (world sj))
             \<in> set (rest @ [ToolCallEventResult m]) \<union> ToolCallEventResult ` set (events_buffer (ctx s))"
      proof (intro allI impI)
        fix j sj pj tc'
        assume j: "j < Suc k" and r: "run_loop sch j c0 = Running sj pj"
          and ch: "pj ! chosen sch sj pj = ToolCallEvent tc'"
        show "fst (call_tool self0 tc' (world sj))
             \<in> set (rest @ [ToolCallEventResult m]) \<union> ToolCallEventResult ` set (events_buffer (ctx s))"
        proof (cases "j = k")
          case True
          with r rk have "sj = s" "pj = pool" by simp_all
          with ch call have "tc' = tc" by (simp add: i_def)
          then show ?thesis using \<open>sj = s\<close> ct by simp
        next
          case False
          with j have "j < k" by simp
          with p2 r ch have old: "fst (call_tool self0 tc' (world sj))
             \<in> set pool \<union> ToolCallEventResult ` set (events_buffer (ctx s))" by blast
          obtain m' where m': "fst (call_tool self0 tc' (world sj)) = ToolCallEventResult m'"
            using call_tool_result [of self0 tc' "world sj"] by blast
          from old m' cover call show ?thesis by auto
        qed
      qed
      have "in_round sch c0 self0 tcs (Suc k) (step_pool sch c)"
      proof (rule in_roundI [OF st rl' s2f(1) k'])
        show "num_tool_calls (ctx s2) = Some (length tcs)" by (simp only: s2f n)
        show "\<forall>m\<in>set (events_buffer (ctx s2)). role m = TOOL" using bufrole by (simp only: s2f)
        show "length (rest @ [ToolCallEventResult m]) + length (events_buffer (ctx s2)) = length tcs"
          using q2 by (simp only: s2f)
        show "\<forall>j<Suc k. \<forall>sj pj tc. run_loop sch j c0 = Running sj pj \<longrightarrow>
           pj ! chosen sch sj pj = ToolCallEvent tc \<longrightarrow>
           fst (call_tool self0 tc (world sj))
             \<in> set (rest @ [ToolCallEventResult m]) \<union> ToolCallEventResult ` set (events_buffer (ctx s2))"
          using q5 by (simp only: s2f)
      qed (rule q1 q3 q4)+
      with k' show ?thesis by simp
    next
      case res
      have nic: "\<not> is_call (pool ! i)" by (simp add: res is_call_def)
      show ?thesis
      proof (cases "length (events_buffer (ctx s)) + 1 = length tcs")
        case True
        then have lp: "length pool = 1" using len by simp
        then have pool1: "pool = [ToolCallEventResult m]" and rest0: "rest = []"
          using res i lrest by (cases pool; simp)+
        have g: "gather self0 (ctx s) m =
            (self0\<lparr>chat_history := chat_history self0 @ events_buffer (ctx s) @ [m]\<rparr>,
             (ctx s)\<lparr>events_buffer := []\<rparr>, Some InputEvent)"
          using n True by (rule gather_full)
        define s2 where "s2 = s1\<lparr>workflow := self0\<lparr>chat_history := chat_history self0 @ events_buffer (ctx s) @ [m]\<rparr>,
                         ctx := (ctx s)\<lparr>events_buffer := []\<rparr>\<rparr>"
        have st: "step_pool sch c = Running s2 [InputEvent]"
          by (simp add: step res g ws1 rest0 s2_def)
        have k': "Suc k = 2 * length tcs" using meas pool1 by (simp add: is_call_def)
        have q4: "\<forall>tc\<in>set tcs. \<exists>j<2 * length tcs. \<exists>sj pj.
           run_loop sch j c0 = Running sj pj \<and> pj ! chosen sch sj pj = ToolCallEvent tc"
        proof
          fix tc assume "tc \<in> set tcs"
          with p1 pool1 have "\<exists>j<k. \<exists>sj pj. run_loop sch j c0 = Running sj pj \<and> pj ! chosen sch sj pj = ToolCallEvent tc"
            by auto
          then show "\<exists>j<2 * length tcs. \<exists>sj pj.
              run_loop sch j c0 = Running sj pj \<and> pj ! chosen sch sj pj = ToolCallEvent tc"
            using k by (meson less_trans)
        qed
        have q5: "\<forall>j<2 * length tcs. \<forall>sj pj tc. run_loop sch j c0 = Running sj pj \<longrightarrow>
           pj ! chosen sch sj pj = ToolCallEvent tc \<longrightarrow>
           fst (call_tool self0 tc (world sj)) \<in> ToolCallEventResult ` set (events_buffer (ctx s) @ [m])"
        proof (intro allI impI)
          fix j sj pj tc
          assume j: "j < 2 * length tcs" and r: "run_loop sch j c0 = Running sj pj"
            and ch: "pj ! chosen sch sj pj = ToolCallEvent tc"
          have "j \<noteq> k"
          proof
            assume "j = k"
            with r rk have "sj = s" "pj = pool" by simp_all
            with ch res show False by (simp add: i_def)
          qed
          with j k' have "j < k" by simp
          with p2 r ch have "fst (call_tool self0 tc (world sj))
             \<in> set pool \<union> ToolCallEventResult ` set (events_buffer (ctx s))" by blast
          then show "fst (call_tool self0 tc (world sj)) \<in> ToolCallEventResult ` set (events_buffer (ctx s) @ [m])"
            using pool1 by auto
        qed
        have "round_done sch c0 self0 tcs (step_pool sch c)"
          unfolding round_done_def st using True bufrole res(2) q4 q5 n
          by (intro exI [of _ s2] exI [of _ "events_buffer (ctx s) @ [m]"])
             (auto simp add: s2_def)
        with k' show ?thesis by simp
      next
        case False
        then have short: "length (events_buffer (ctx s)) + 1 < length tcs" using len ne by (cases pool) auto
        have g: "gather self0 (ctx s) m = (self0, (ctx s)\<lparr>events_buffer := events_buffer (ctx s) @ [m]\<rparr>, None)"
          using n short by (rule gather_short)
        define s2 where "s2 = s1\<lparr>workflow := self0, ctx := (ctx s)\<lparr>events_buffer := events_buffer (ctx s) @ [m]\<rparr>\<rparr>"
        have st: "step_pool sch c = Running s2 rest"
          by (simp add: step res g ws1 s2_def)
        have s2f: "workflow s2 = self0" "ctx s2 = (ctx s)\<lparr>events_buffer := events_buffer (ctx s) @ [m]\<rparr>"
          by (simp_all add: s2_def)
        have lr: "length rest + length (events_buffer (ctx s) @ [m]) = length tcs"
          using len lrest ne by (cases pool) auto
        have k': "Suc k < 2 * length tcs" using meas lrest short len by auto
        have q3: "length (filter is_call rest) + length rest + Suc k = 2 * length tcs"
          using meas frest nic lrest ne by (cases pool) auto
        have q1: "\<forall>ev\<in>set rest. (\<exists>tc. ev = ToolCallEvent tc) \<or> (\<exists>m. ev = ToolCallEventResult m \<and> role m = TOOL)"
          using shape sub by auto
        have q2: "\<forall>m'\<in>set (events_buffer (ctx s) @ [m]). role m' = TOOL"
          using bufrole res(2) by auto
        have q4: "\<forall>tc\<in>set tcs. ToolCallEvent tc \<in> set rest \<or>
             (\<exists>j<Suc k. \<exists>sj pj. run_loop sch j c0 = Running sj pj \<and> pj ! chosen sch sj pj = ToolCallEvent tc)"
        proof
          fix tc assume "tc \<in> set tcs"
          with p1 have "ToolCallEvent tc \<in> set pool \<or>
             (\<exists>j<k. \<exists>sj pj. run_loop sch j c0 = Running sj pj \<and> pj ! chosen sch sj pj = ToolCallEvent tc)"
            by blast
          then show "ToolCallEvent tc \<in> set rest \<or>
             (\<exists>j<Suc k. \<exists>sj pj. run_loop sch j c0 = Running sj pj \<and> pj ! chosen sch sj pj = ToolCallEvent tc)"
          proof
            assume "ToolCallEvent tc \<in> set pool"
            with cover res(1) have "ToolCallEvent tc \<in> set rest" by auto
            then show ?thesis by simp
          next
            assume "\<exists>j<k. \<exists>sj pj. run_loop sch j c0 = Running sj pj \<and> pj ! chosen sch sj pj = ToolCallEvent tc"
            then show ?thesis using less_Suc_eq by blast
          qed
        qed
        have q5: "\<forall>j<Suc k. \<forall>sj pj tc. run_loop sch j c0 = Running sj pj \<longrightarrow>
           pj ! chosen sch sj pj = ToolCallEvent tc \<longrightarrow>
           fst (call_tool self0 tc (world sj))
             \<in> set rest \<union> ToolCallEventResult ` set (events_buffer (ctx s) @ [m])"
        proof (intro allI impI)
          fix j sj pj tc
          assume j: "j < Suc k" and r: "run_loop sch j c0 = Running sj pj"
            and ch: "pj ! chosen sch sj pj = ToolCallEvent tc"
          have "j \<noteq> k"
          proof
            assume "j = k"
            with r rk have "sj = s" "pj = pool" by simp_all
            with ch res show False by (simp add: i_def)
          qed
          with j have "j < k" by simp
          with p2 r ch have "fst (call_tool self0 tc (world sj))
             \<in> set pool \<union> ToolCallEventResult ` set (events_buffer (ctx s))" by blast
          then show "fst (call_tool self0 tc (world sj))
             \<in> set rest \<union> ToolCallEventResult ` set (events_buffer (ctx s) @ [m])"
            using cover res(1) by auto
        qed
        have bs2: "events_buffer (ctx s2) = events_buffer (ctx s) @ [m]"
          "num_tool_calls (ctx s2) = num_tool_calls (ctx s)" by (simp_all add: s2f)
        have "in_round sch c0 self0 tcs (Suc k) (step_pool sch c)"
        proof (rule in_roundI [OF st rl' s2f(1) k'])
          show "num_tool_calls (ctx s2) = Some (length tcs)" by (simp only: bs2 n)
          show "\<forall>m\<in>set (events_buffer (ctx s2)). role m = TOOL" using q2 by (simp only: bs2)
          show "length rest + length (events_buffer (ctx s2)) = length tcs" using lr by (simp only: bs2)
          show "\<forall>j<Suc k. \<forall>sj pj tc. run_loop sch j c0 = Running sj pj \<longrightarrow>
             pj ! chosen sch sj pj = ToolCallEvent tc \<longrightarrow>
             fst (call_tool self0 tc (world sj))
               \<in> set rest \<union> ToolCallEventResult ` set (events_buffer (ctx s2))"
            using q5 by (simp only: bs2)
        qed (rule q1 q3 q4)+
        with k' show ?thesis by simp
      qed
    qed
  qed
qed

lemma abandoned_run_loop: "abandoned self0 c \<Longrightarrow> run_loop sch n c = c"
  by (auto simp add: abandoned_def run_loop_TimedOut)

lemma round_run:
  "in_round sch c0 self0 tcs k c \<Longrightarrow> k + j \<le> 2 * length tcs \<Longrightarrow>
     abandoned self0 (run_loop sch j c) \<or>
     (if k + j = 2 * length tcs then round_done sch c0 self0 tcs (run_loop sch j c)
      else in_round sch c0 self0 tcs (k + j) (run_loop sch j c))"
proof (induction j arbitrary: k c)
  case 0
  then have "k < 2 * length tcs" by (auto simp add: in_round_def)
  with 0 show ?case by simp
next
  case (Suc j)
  from in_round_step [OF Suc.prems(1)]
  consider (a) "abandoned self0 (step_pool sch c)"
    | (d) "Suc k = 2 * length tcs" "round_done sch c0 self0 tcs (step_pool sch c)"
    | (r) "Suc k \<noteq> 2 * length tcs" "in_round sch c0 self0 tcs (Suc k) (step_pool sch c)"
    by (cases "Suc k = 2 * length tcs") auto
  then show ?case
  proof cases
    case a
    then show ?thesis by (simp add: abandoned_run_loop)
  next
    case d
    with Suc.prems(2) have "j = 0" by simp
    with d show ?thesis by simp
  next
    case r
    from Suc.IH [OF r(2)] Suc.prems(2) show ?thesis by (auto split: if_splits)
  qed
qed

lemma step_Gather:
  "\<not> expired (timeout (workflow s)) (elapsed s + duration sch s [GatherToolsEvent tcs]) \<Longrightarrow>
   step_pool sch (Running s [GatherToolsEvent tcs]) =
     Running ((tick sch s [GatherToolsEvent tcs])\<lparr>ctx := (ctx s)\<lparr>num_tool_calls := Some (length tcs)\<rparr>\<rparr>)
       (map ToolCallEvent tcs)"
  by (simp add: step_pool_single dispatch_calls_def tick_simps)

lemma round_start:
  fixes sch :: "'w scheduler" and s :: "'w run_state"
  assumes "tcs \<noteq> []" and "events_buffer (ctx s) = []"
  defines "c0 \<equiv> step_pool sch (Running s [GatherToolsEvent tcs])"
  shows "abandoned (workflow s) c0 \<or> in_round sch c0 (workflow s) tcs 0 c0"
proof (cases "expired (timeout (workflow s)) (elapsed s + duration sch s [GatherToolsEvent tcs])")
  case True
  from expired_Some [OF this] True show ?thesis
    by (simp add: c0_def step_pool_expired abandoned_def)
next
  case False
  have f: "filter is_call (map ToolCallEvent tcs) = map ToolCallEvent tcs"
    by (induction tcs) (simp_all add: is_call_def)
  have "in_round sch c0 (workflow s) tcs 0 c0"
  proof (rule in_roundI)
    show "c0 = Running ((tick sch s [GatherToolsEvent tcs])\<lparr>ctx := (ctx s)\<lparr>num_tool_calls := Some (length tcs)\<rparr>\<rparr>)
       (map ToolCallEvent tcs)"
      unfolding c0_def using False by (rule step_Gather)
  qed (use assms(1,2) in \<open>auto simp add: tick_simps f\<close>)
  then show ?thesis by simp
qed

lemma round_from_gather:
  fixes sch :: "'w scheduler" and s :: "'w run_state"
  assumes "tcs \<noteq> []" and "events_buffer (ctx s) = []" and "j \<le> 2 * length tcs"
  defines "c0 \<equiv> step_pool sch (Running s [GatherToolsEvent tcs])"
  shows "abandoned (workflow s) (run_loop sch (Suc j) (Running s [GatherToolsEvent tcs])) \<or>
     (if j = 2 * length tcs
      then round_done sch c0 (workflow s) tcs (run_loop sch (Suc j) (Running s [GatherToolsEvent tcs]))
      else in_round sch c0 (workflow s) tcs j (run_loop sch (Suc j) (Running s [GatherToolsEvent tcs])))"
proof -
  have e: "run_loop sch (Suc j) (Running s [GatherToolsEvent tcs]) = run_loop sch j c0"
    by (simp add: c0_def)
  from round_start [OF assms(1,2), of sch] show ?thesis
  proof
    assume "abandoned (workflow s) (step_pool sch (Running s [GatherToolsEvent tcs]))"
    then show ?thesis unfolding e c0_def by (simp add: abandoned_run_loop)
  next
    assume "in_round sch (step_pool sch (Running s [GatherToolsEvent tcs])) (workflow s) tcs 0
        (step_pool sch (Running s [GatherToolsEvent tcs]))"
    from round_run [OF this, of j] assms(3) show ?thesis unfolding e c0_def
      by (auto split: if_splits)
  qed
qed

section \<open>Reachable configurations\<close>

lemma chat_event:
  "chat self w = (self', w', ev) \<Longrightarrow> idle_event ev \<and> reset self' = reset self"
  by (auto simp add: chat_def chat_after_def Let_def idle_event_def reset_def
      split: prod.splits awaited.splits sum.splits if_splits)

lemma chat_kind:
  "chat self w = (self', w', ev) \<Longrightarrow> (\<exists>r. ev = StopEvent r) \<or> (\<exists>tcs. ev = GatherToolsEvent tcs)"
  by (auto simp add: chat_def chat_after_def Let_def split: prod.splits awaited.splits sum.splits if_splits)

lemma chat_final:
  "chat self w = (self', w', StopEvent r) \<Longrightarrow> final_ok self' r"
  by (auto simp add: chat_def chat_after_def Let_def final_ok_def
      split: prod.splits awaited.splits sum.splits if_splits)

lemma chat_gather:
  "chat self w = (self', w', GatherToolsEvent tcs) \<Longrightarrow>
     \<exists>res. achat_with_tools (llm self) (tools self) (chat_history self) w = (Returns res, w') \<and>
       get_tool_calls_from_response (llm self) res = Inr tcs \<and> tcs \<noteq> [] \<and>
       self' = self\<lparr>chat_history := chat_history self @ [message res]\<rparr>"
  by (auto simp add: chat_def chat_after_def Let_def split: prod.splits awaited.splits sum.splits if_splits)

lemma round_done_reach: "round_done sch c0 self0 tcs c \<Longrightarrow> reach_inv sch c"
  by (auto simp add: round_done_def reach_inv_def idle_event_def)

lemma abandoned_reach: "abandoned self0 c \<Longrightarrow> reach_inv sch c"
  by (auto simp add: abandoned_def reach_inv_def)

lemma in_round_reach: "in_round sch c0 self0 tcs k c \<Longrightarrow> reach_inv sch c"
proof -
  assume r: "in_round sch c0 self0 tcs k c"
  then obtain s pool where c: "c = Running s pool" and "workflow s = self0"
    by (auto simp add: in_round_def)
  with r have "in_round sch c0 (workflow s) tcs k c" by simp
  then show ?thesis unfolding c reach_inv_def by auto
qed

lemma reach_step: assumes "reach_inv sch c" shows "reach_inv sch (step_pool sch c)"
proof (cases c)
  case (Running s pool)
  with assms consider (idle) ev where "pool = [ev]" "idle_event ev" "events_buffer (ctx s) = []"
      "\<forall>r. ev = StopEvent r \<longrightarrow> final_ok (workflow s) r"
    | (round) c0 tcs k where "in_round sch c0 (workflow s) tcs k c"
    by (auto simp add: reach_inv_def)
  then show ?thesis
  proof cases
    case idle
    show ?thesis
    proof (cases "expired (timeout (workflow s)) (elapsed s + duration sch s [ev])")
      case True
      from expired_Some [OF this] True show ?thesis
        by (simp add: Running idle(1) step_pool_expired reach_inv_def)
    next
      case False
      show ?thesis
      proof (cases ev)
        case (StartEvent m)
        then show ?thesis using idle Running False
          by (cases m) (simp_all add: step_pool_single prepare_chat_def reach_inv_def idle_event_def tick_simps)
      next
        case InputEvent
        obtain self' w' ev' where ch: "chat (workflow s) (world s) = (self', w', ev')"
          by (cases "chat (workflow s) (world s)") auto
        from chat_event [OF ch] have "idle_event ev'" by simp
        moreover have "\<forall>r. ev' = StopEvent r \<longrightarrow> final_ok self' r"
        proof (intro allI impI)
          fix r assume "ev' = StopEvent r"
          with ch show "final_ok self' r" by (auto intro: chat_final)
        qed
        ultimately show ?thesis using idle Running InputEvent ch False
          by (simp add: step_Input reach_inv_def tick_simps)
      next
        case (GatherToolsEvent tcs)
        with idle have "tcs \<noteq> []" by (simp add: idle_event_def)
        from round_start [OF this idle(3), of sch] show ?thesis
          unfolding Running idle(1) GatherToolsEvent
          using abandoned_reach in_round_reach by blast
      next
        case (ToolCallEvent x4)
        then show ?thesis using idle by (simp add: idle_event_def)
      next
        case (ToolCallEventResult x5)
        then show ?thesis using idle by (simp add: idle_event_def)
      next
        case (StopEvent r)
        then show ?thesis using idle Running False
          by (simp add: step_Stop reach_inv_def tick_simps)
      qed
    qed
  next
    case round
    from in_round_step [OF this] show ?thesis
      using abandoned_reach round_done_reach in_round_reach
      by (cases "Suc k = 2 * length tcs") auto
  qed
next
  case (Returned r s) with assms show ?thesis by simp
next
  case (Raised e s) then show ?thesis by (simp add: reach_inv_def)
next
  case (TimedOut s d) with assms show ?thesis by simp
next
  case (Stalled s) with assms show ?thesis by (simp add: reach_inv_def)
qed

lemma reach_run_loop: "reach_inv sch c \<Longrightarrow> reach_inv sch (run_loop sch n c)"
  by (induction n arbitrary: c) (simp_all add: reach_step)

lemma reach_start: "reach_inv sch (start self w msg)"
  by (simp add: start_def reach_inv_def idle_event_def)

lemma reach_run: "reach_inv sch (run sch n self w msg)"
  unfolding run_def by (rule reach_run_loop [OF reach_start])

lemma reach_gather:
  assumes "reach_inv sch (Running s pool)" and "GatherToolsEvent tcs \<in> set pool"
  shows "pool = [GatherToolsEvent tcs] \<and> tcs \<noteq> [] \<and> events_buffer (ctx s) = []"
  using assms by (auto simp add: reach_inv_def in_round_def idle_event_def)

section \<open>What a run never changes\<close>

lemma gather_static: "gather self c m = (self', c', ev) \<Longrightarrow> reset self' = reset self"
  by (auto simp add: gather_def reset_def split: option.splits prod.splits if_splits)

lemma handle_static:
  "handle s ev = Inr (s', evs) \<Longrightarrow> reset (workflow s') = reset (workflow s)"
proof (cases ev)
  case (StartEvent m)
  assume "handle s ev = Inr (s', evs)"
  then show ?thesis using StartEvent
    by (cases m) (auto simp add: prepare_chat_def reset_def Let_def)
next
  case InputEvent
  assume "handle s ev = Inr (s', evs)"
  then show ?thesis using InputEvent chat_event [of "workflow s" "world s"]
    by (auto split: prod.splits)
next
  case (GatherToolsEvent x3)
  assume "handle s ev = Inr (s', evs)"
  then show ?thesis using GatherToolsEvent by (auto split: prod.splits)
next
  case (ToolCallEvent x4)
  assume "handle s ev = Inr (s', evs)"
  then show ?thesis using ToolCallEvent by (auto split: prod.splits)
next
  case (ToolCallEventResult x5)
  assume "handle s ev = Inr (s', evs)"
  then show ?thesis using ToolCallEventResult gather_static
    by (auto split: prod.splits)
next
  case (StopEvent x6)
  assume "handle s ev = Inr (s', evs)"
  then show ?thesis using StopEvent by auto
qed

lemma step_pool_cases:
  fixes sch :: "'w scheduler" and s :: "'w run_state" and pool :: "event list"
  assumes "pool \<noteq> []" and "\<not> expired (timeout (workflow s)) (elapsed s + duration sch s pool)"
  defines "i \<equiv> chosen sch s pool"
  defines "s1 \<equiv> tick sch s pool"
  shows "(\<exists>r. pool ! i = StopEvent r \<and> step_pool sch (Running s pool) = Returned r s1) \<or>
         (\<exists>e. handle s1 (pool ! i) = Inl e \<and> step_pool sch (Running s pool) = Raised e s1) \<or>
         (\<exists>s2 evs. (\<forall>r. pool ! i \<noteq> StopEvent r) \<and> handle s1 (pool ! i) = Inr (s2, evs) \<and>
             step_pool sch (Running s pool) = Running s2 (remove_nth i pool @ evs))"
proof (cases "handle s1 (pool ! i)")
  case (Inl e)
  then show ?thesis using assms(1,2) unfolding i_def s1_def
    by (cases "pool ! chosen sch s pool")
       (simp_all add: step_pool_nonempty del: handle.simps)
next
  case (Inr p)
  then show ?thesis using assms(1,2) unfolding i_def s1_def
    by (cases p; cases "pool ! chosen sch s pool")
       (simp_all add: step_pool_nonempty del: handle.simps)
qed

lemma step_static: "reset (workflow (state_of (step_pool sch c))) = reset (workflow (state_of c))"
proof (cases c)
  case (Running s pool)
  show ?thesis
  proof (cases "pool = []")
    case True
    then show ?thesis by (simp add: Running step_pool.simps(1))
  next
    case False
    show ?thesis
    proof (cases "expired (timeout (workflow s)) (elapsed s + duration sch s pool)")
      case True
      with False show ?thesis by (simp add: Running step_pool_expired)
    next
      case ne: False
      from step_pool_cases [OF False ne] handle_static [of "tick sch s pool"]
      show ?thesis unfolding Running by (fastforce simp add: tick_simps)
    qed
  qed
qed simp_all

lemma run_loop_static: "reset (workflow (state_of (run_loop sch n c))) = reset (workflow (state_of c))"
  by (induction n arbitrary: c) (simp_all add: step_static)

lemma run_static: "reset (workflow (state_of (run sch n self w msg))) = reset self"
  by (simp add: run_def run_loop_static) (simp add: start_def)

lemma reset_fields:
  "reset a = reset b \<Longrightarrow>
     llm a = llm b \<and> tools a = tools b \<and> tools_dict a = tools_dict b \<and> timeout a = timeout b"
proof -
  assume r: "reset a = reset b"
  have "llm (reset a) = llm a" "tools (reset a) = tools a" "tools_dict (reset a) = tools_dict a"
    "timeout (reset a) = timeout a"
    "llm (reset b) = llm b" "tools (reset b) = tools b" "tools_dict (reset b) = tools_dict b"
    "timeout (reset b) = timeout b"
    by (simp_all add: reset_def)
  with r show ?thesis by metis
qed

section \<open>Raising and returning\<close>

lemma handle_Inl: "handle s ev = Inl e \<Longrightarrow> ev = StartEvent None"
  by (cases ev) (auto simp add: prepare_chat_def Let_def split: option.splits prod.splits)

lemma gather_kind:
  "gather self c m = (self', c', Some ev) \<Longrightarrow> ev = InputEvent \<or> ev = StopEvent (Some gather_apology)"
  by (auto simp add: gather_def split: option.splits prod.splits if_splits)

lemma handle_emits: "handle s ev = Inr (s', evs) \<Longrightarrow> StartEvent m \<notin> set evs"
proof (cases ev)
  case (StartEvent q)
  assume "handle s ev = Inr (s', evs)"
  then show ?thesis using StartEvent
    by (cases q) (auto simp add: prepare_chat_def Let_def)
next
  case InputEvent
  assume "handle s ev = Inr (s', evs)"
  then show ?thesis using InputEvent chat_kind [of "workflow s" "world s"]
    by (auto split: prod.splits)
next
  case (GatherToolsEvent x3)
  assume "handle s ev = Inr (s', evs)"
  then show ?thesis using GatherToolsEvent by (auto simp add: dispatch_calls_def)
next
  case (ToolCallEvent tc)
  assume "handle s ev = Inr (s', evs)"
  then show ?thesis using ToolCallEvent call_tool_result [of "workflow s" tc "world s"]
    by (auto split: prod.splits)
next
  case (ToolCallEventResult x5)
  assume "handle s ev = Inr (s', evs)"
  then show ?thesis using ToolCallEventResult gather_kind
    by (fastforce split: prod.splits option.splits)
next
  case (StopEvent x6)
  assume "handle s ev = Inr (s', evs)"
  then show ?thesis using StopEvent by auto
qed

lemma calm_step: assumes "calm c" shows "calm (step_pool sch c)"
proof (cases c)
  case (Running s pool)
  show ?thesis
  proof (cases "pool = []")
    case True
    then show ?thesis by (simp add: Running step_pool.simps(1) calm_def)
  next
    case False
    show ?thesis
    proof (cases "expired (timeout (workflow s)) (elapsed s + duration sch s pool)")
      case True
      with False show ?thesis by (simp add: Running step_pool_expired calm_def)
    next
      case ne: False
      define i where "i = chosen sch s pool"
      have i: "i < length pool" using False by (simp add: i_def chosen_def)
      then have mem: "pool ! i \<in> set pool" by simp
      have nn: "StartEvent None \<notin> set pool" using assms Running by (simp add: calm_def)
      from step_pool_cases [OF False ne] handle_Inl [of "tick sch s pool" "pool ! i"]
        handle_emits [of "tick sch s pool" "pool ! i" _ _ None]
        mem nn set_remove_nth_subset [of i pool]
      show ?thesis unfolding Running i_def [symmetric] by (fastforce simp add: calm_def)
    qed
  qed
next
  case (Raised e s) with assms show ?thesis by (simp add: calm_def)
qed (simp_all add: calm_def)

lemma calm_run_loop: "calm c \<Longrightarrow> calm (run_loop sch n c)"
  by (induction n arbitrary: c) (simp_all add: calm_step)

lemma calm_run: "calm (run sch n self w (Some m))"
  unfolding run_def by (rule calm_run_loop) (simp add: calm_def start_def)

lemma finished_run_loop: "finished c \<Longrightarrow> run_loop sch n c = c"
  by (auto simp add: finished_def run_loop_Returned run_loop_TimedOut)

lemma finished_later:
  assumes "finished (run_loop sch n c)" shows "finished (run_loop sch (n + k) c)"
  using assms by (simp only: run_loop_add finished_run_loop)

lemma step_finishes_or_runs:
  assumes "pool \<noteq> []" and "expired (timeout (workflow s)) (elapsed s + duration sch s pool)"
  shows "finished (step_pool sch (Running s pool))"
  using assms by (simp add: step_pool_expired finished_def)

lemma terminates_from_input:
  assumes quiet: "\<And>h w res w' tcs. B \<le> length h \<Longrightarrow> achat_with_tools L T h w = (Returns res, w') \<Longrightarrow>
      get_tool_calls_from_response L res = Inr tcs \<Longrightarrow> tcs = []"
  shows "llm (workflow s) = L \<Longrightarrow> tools (workflow s) = T \<Longrightarrow> events_buffer (ctx s) = [] \<Longrightarrow>
     \<exists>n. finished (run_loop sch n (Running s [InputEvent]))"
proof (induction "B - length (chat_history (workflow s))" arbitrary: s rule: less_induct)
  case less
  show ?case
  proof (cases "expired (timeout (workflow s)) (elapsed s + duration sch s [InputEvent])")
    case True
    then have "finished (run_loop sch 1 (Running s [InputEvent]))"
      by (simp add: step_finishes_or_runs)
    then show ?thesis by blast
  next
    case False
    obtain self' w' ev where ch: "chat (workflow s) (world s) = (self', w', ev)"
      by (cases "chat (workflow s) (world s)") auto
    define s1 where "s1 = (tick sch s [InputEvent])\<lparr>workflow := self', world := w'\<rparr>"
    have st1: "step_pool sch (Running s [InputEvent]) = Running s1 [ev]"
      using False by (simp add: step_Input ch s1_def)
    from chat_kind [OF ch] show ?thesis
    proof
      assume "\<exists>r. ev = StopEvent r"
      then obtain r where ev: "ev = StopEvent r" by blast
      have "finished (step_pool sch (Running s1 [StopEvent r]))"
      proof (cases "expired (timeout (workflow s1)) (elapsed s1 + duration sch s1 [StopEvent r])")
        case True
        then show ?thesis by (simp add: step_finishes_or_runs)
      next
        case False
        then show ?thesis by (simp add: step_Stop finished_def)
      qed
      then have "finished (run_loop sch 2 (Running s [InputEvent]))"
        by (simp add: numeral_2_eq_2 st1 ev)
      then show ?thesis by blast
    next
      assume "\<exists>tcs. ev = GatherToolsEvent tcs"
      then obtain tcs where ev: "ev = GatherToolsEvent tcs" by blast
      from chat_gather [OF ch [unfolded ev]] obtain res where
        a: "achat_with_tools (llm (workflow s)) (tools (workflow s)) (chat_history (workflow s)) (world s) = (Returns res, w')"
        and g: "get_tool_calls_from_response (llm (workflow s)) res = Inr tcs" and ne: "tcs \<noteq> []"
        and self': "self' = (workflow s)\<lparr>chat_history := chat_history (workflow s) @ [message res]\<rparr>"
        by blast
      have short: "length (chat_history (workflow s)) < B"
      proof (rule ccontr)
        assume "\<not> length (chat_history (workflow s)) < B"
        then have "B \<le> length (chat_history (workflow s))" by simp
        from quiet [OF this a [unfolded less.prems(1) less.prems(2)] g [unfolded less.prems(1)]] ne
        show False by simp
      qed
      have buf1: "events_buffer (ctx s1) = []" using less.prems(3) by (simp add: s1_def tick_simps)
      have ws1: "workflow s1 = self'" by (simp add: s1_def)
      define c2 where "c2 = run_loop sch (Suc (2 * length tcs)) (Running s1 [GatherToolsEvent tcs])"
      from round_from_gather [OF ne buf1, of "2 * length tcs" sch]
      have "abandoned (workflow s1) c2 \<or>
          round_done sch (step_pool sch (Running s1 [GatherToolsEvent tcs])) (workflow s1) tcs c2"
        by (simp add: c2_def)
      then have "\<exists>n. finished (run_loop sch n c2)"
      proof
        assume "abandoned (workflow s1) c2"
        then have "finished (run_loop sch 0 c2)" by (auto simp add: abandoned_def finished_def)
        then show ?thesis by blast
      next
        assume "round_done sch (step_pool sch (Running s1 [GatherToolsEvent tcs])) (workflow s1) tcs c2"
        then obtain s2 msgs where r2: "c2 = Running s2 [InputEvent]"
          and w2: "workflow s2 = (workflow s1)\<lparr>chat_history := chat_history (workflow s1) @ msgs\<rparr>"
          and b2: "events_buffer (ctx s2) = []"
          unfolding round_done_def by blast
        have "B - length (chat_history (workflow s2)) < B - length (chat_history (workflow s))"
          using short w2 self' ws1 by simp
        moreover have "llm (workflow s2) = L" "tools (workflow s2) = T"
          using w2 self' ws1 less.prems by simp_all
        ultimately show ?thesis using less.hyps [of s2] b2 r2 by blast
      qed
      then obtain n where fin: "finished (run_loop sch n c2)" by blast
      have "run_loop sch (1 + (Suc (2 * length tcs) + n)) (Running s [InputEvent]) =
          run_loop sch n (run_loop sch (Suc (2 * length tcs)) (run_loop sch 1 (Running s [InputEvent])))"
        by (simp only: run_loop_add)
      also have "\<dots> = run_loop sch n c2" by (simp add: st1 ev c2_def)
      finally show ?thesis using fin by metis
    qed
  qed
qed

section \<open>Two runs that differ in the world only\<close>

lemma chat_det:
  assumes "fst (achat_with_tools (llm self) (tools self) (chat_history self) w1) =
           fst (achat_with_tools (llm self) (tools self) (chat_history self) w2)"
  shows "\<exists>self' ev u1 u2. chat self w1 = (self', u1, ev) \<and> chat self w2 = (self', u2, ev)"
proof -
  obtain o1 u1 where a1: "achat_with_tools (llm self) (tools self) (chat_history self) w1 = (o1, u1)"
    by (cases "achat_with_tools (llm self) (tools self) (chat_history self) w1") auto
  obtain o2 u2 where a2: "achat_with_tools (llm self) (tools self) (chat_history self) w2 = (o2, u2)"
    by (cases "achat_with_tools (llm self) (tools self) (chat_history self) w2") auto
  from assms a1 a2 have "o2 = o1" by simp
  with a1 a2 show ?thesis
    by (cases "chat_after self o1") (simp add: chat_def)
qed

lemma call_tool_det:
  assumes "\<And>nm tool kw w1 w2. tools_dict self nm = Some tool \<Longrightarrow> fst (acall tool kw w1) = fst (acall tool kw w2)"
  shows "fst (call_tool self tc w1) = fst (call_tool self tc w2)"
proof (cases "tools_dict self (tool_name tc)")
  case None
  then show ?thesis by (simp add: call_tool_def)
next
  case (Some tool)
  obtain o1 u1 where a1: "acall tool (tool_kwargs tc) w1 = (o1, u1)"
    by (cases "acall tool (tool_kwargs tc) w1") auto
  obtain o2 u2 where a2: "acall tool (tool_kwargs tc) w2 = (o2, u2)"
    by (cases "acall tool (tool_kwargs tc) w2") auto
  from assms [OF Some, of "tool_kwargs tc" w1 w2] a1 a2 have "o2 = o1" by simp
  with a1 a2 Some show ?thesis
    by (simp add: call_tool_def)
qed

lemma handle_sim:
  assumes dl: "\<And>h w1 w2. fst (achat_with_tools (llm self0) (tools self0) h w1) =
                 fst (achat_with_tools (llm self0) (tools self0) h w2)"
    and dt: "\<And>nm tool kw w1 w2. tools_dict self0 nm = Some tool \<Longrightarrow>
                 fst (acall tool kw w1) = fst (acall tool kw w2)"
    and st: "reset (workflow s) = reset self0"
    and ag: "agree s t"
  shows "(\<exists>e. handle s ev = Inl e \<and> handle t ev = Inl e) \<or>
         (\<exists>s' t' evs. handle s ev = Inr (s', evs) \<and> handle t ev = Inr (t', evs) \<and> agree s' t')"
proof -
  from reset_fields [OF st] have f: "llm (workflow s) = llm self0" "tools (workflow s) = tools self0"
    "tools_dict (workflow s) = tools_dict self0" by simp_all
  from ag have e: "workflow t = workflow s" "ctx t = ctx s" "clock t = clock s" "elapsed t = elapsed s"
    by (simp_all add: agree_def)
  show ?thesis
  proof (cases ev)
    case (StartEvent m)
    then show ?thesis using e by (cases m) (simp_all add: prepare_chat_def Let_def agree_def)
  next
    case InputEvent
    from chat_det [of "workflow s" "world s" "world t"] dl f
    obtain self' ev' u1 u2 where "chat (workflow s) (world s) = (self', u1, ev')"
      "chat (workflow s) (world t) = (self', u2, ev')" by auto
    then show ?thesis using InputEvent e by (simp add: agree_def)
  next
    case (GatherToolsEvent tcs)
    then show ?thesis using e by (simp add: dispatch_calls_def agree_def)
  next
    case (ToolCallEvent tc)
    have "fst (call_tool (workflow s) tc (world s)) = fst (call_tool (workflow s) tc (world t))"
      by (rule call_tool_det) (simp add: f dt)
    then show ?thesis using ToolCallEvent e
      by (cases "call_tool (workflow s) tc (world s)"; cases "call_tool (workflow s) tc (world t)")
         (simp add: agree_def)
  next
    case (ToolCallEventResult m)
    then show ?thesis using e
      by (cases "gather (workflow s) (ctx s) m") (simp add: agree_def)
  next
    case (StopEvent r)
    then show ?thesis using ag by simp
  qed
qed

lemma step_sim:
  assumes dl: "\<And>h w1 w2. fst (achat_with_tools (llm self0) (tools self0) h w1) =
                 fst (achat_with_tools (llm self0) (tools self0) h w2)"
    and dt: "\<And>nm tool kw w1 w2. tools_dict self0 nm = Some tool \<Longrightarrow>
                 fst (acall tool kw w1) = fst (acall tool kw w2)"
    and ds: "\<And>w1 w2 k n. sch w1 k n = sch w2 k n"
    and st: "reset (workflow (state_of c1)) = reset self0"
    and sm: "sim c1 c2"
  shows "sim (step_pool sch c1) (step_pool sch c2)"
proof (cases c1)
  case (Running s pool)
  with sm obtain t where c2: "c2 = Running t pool" and ag: "agree s t" by (cases c2) auto
  from ag have e: "workflow t = workflow s" "ctx t = ctx s" "clock t = clock s" "elapsed t = elapsed s"
    by (simp_all add: agree_def)
  have same: "sch (world t) (clock t) (length pool) = sch (world s) (clock s) (length pool)"
    using ds [of "world t" "clock s" "length pool" "world s"] e by simp
  have it: "chosen sch t pool = chosen sch s pool" and du: "duration sch t pool = duration sch s pool"
    using same by (simp_all add: chosen_def duration_def)
  show ?thesis
  proof (cases "pool = []")
    case True
    then show ?thesis using ag by (simp add: Running c2 step_pool.simps(1))
  next
    case False
    show ?thesis
    proof (cases "expired (timeout (workflow s)) (elapsed s + duration sch s pool)")
      case True
      then have "expired (timeout (workflow t)) (elapsed t + duration sch t pool)" by (simp add: e du)
      with True False show ?thesis using ag e by (simp add: Running c2 step_pool_expired)
    next
      case ne: False
      then have net: "\<not> expired (timeout (workflow t)) (elapsed t + duration sch t pool)" by (simp add: e du)
      define i where "i = chosen sch s pool"
      define s1 where "s1 = tick sch s pool"
      define t1 where "t1 = tick sch t pool"
      have ag1: "agree s1 t1" unfolding s1_def t1_def using ag du by (simp add: agree_def tick_simps)
      have st1: "reset (workflow s1) = reset self0" using st by (simp add: Running s1_def tick_simps)
      have sp: "step_pool sch c1 =
          (case pool ! i of StopEvent r \<Rightarrow> Returned r s1
           | ev \<Rightarrow> (case handle s1 ev of Inl e \<Rightarrow> Raised e s1
                    | Inr (s2, evs) \<Rightarrow> Running s2 (remove_nth i pool @ evs)))"
        unfolding Running i_def s1_def using False ne by (rule step_pool_nonempty)
      have tp: "step_pool sch c2 =
          (case pool ! i of StopEvent r \<Rightarrow> Returned r t1
           | ev \<Rightarrow> (case handle t1 ev of Inl e \<Rightarrow> Raised e t1
                    | Inr (s2, evs) \<Rightarrow> Running s2 (remove_nth i pool @ evs)))"
        unfolding c2 i_def t1_def it [symmetric] using False net by (rule step_pool_nonempty)
      show ?thesis
      proof (cases "\<exists>r. pool ! i = StopEvent r")
        case True
        then obtain r where r: "pool ! i = StopEvent r" by blast
        show ?thesis using ag1 by (simp add: sp tp r)
      next
        case ns: False
        from handle_sim [where ev = "pool ! i", OF dl dt st1 ag1] show ?thesis
        proof
          assume "\<exists>e. handle s1 (pool ! i) = Inl e \<and> handle t1 (pool ! i) = Inl e"
          then obtain e where h: "handle s1 (pool ! i) = Inl e" "handle t1 (pool ! i) = Inl e" by blast
          have "step_pool sch c1 = Raised e s1" "step_pool sch c2 = Raised e t1"
            using ns h unfolding sp tp
            by (cases "pool ! i"; simp del: handle.simps)+
          then show ?thesis using ag1 by simp
        next
          assume "\<exists>s' t' evs. handle s1 (pool ! i) = Inr (s', evs) \<and> handle t1 (pool ! i) = Inr (t', evs) \<and> agree s' t'"
          then obtain s' t' evs where h: "handle s1 (pool ! i) = Inr (s', evs)"
            "handle t1 (pool ! i) = Inr (t', evs)" and ag': "agree s' t'" by blast
          have "step_pool sch c1 = Running s' (remove_nth i pool @ evs)"
            "step_pool sch c2 = Running t' (remove_nth i pool @ evs)"
            using ns h unfolding sp tp
            by (cases "pool ! i"; simp del: handle.simps)+
          then show ?thesis using ag' by simp
        qed
      qed
    qed
  qed
next
  case (Returned r s) with sm show ?thesis by (cases c2) auto
next
  case (Raised e s) with sm show ?thesis by (cases c2) auto
next
  case (TimedOut s d) with sm show ?thesis by (cases c2) auto
next
  case (Stalled s) with sm show ?thesis by (cases c2) auto
qed

lemma run_loop_sim:
  assumes dl: "\<And>h w1 w2. fst (achat_with_tools (llm self0) (tools self0) h w1) =
                 fst (achat_with_tools (llm self0) (tools self0) h w2)"
    and dt: "\<And>nm tool kw w1 w2. tools_dict self0 nm = Some tool \<Longrightarrow>
                 fst (acall tool kw w1) = fst (acall tool kw w2)"
    and ds: "\<And>w1 w2 k n. sch w1 k n = sch w2 k n"
  shows "reset (workflow (state_of c1)) = reset self0 \<Longrightarrow> sim c1 c2 \<Longrightarrow>
         sim (run_loop sch n c1) (run_loop sch n c2)"
proof (induction n arbitrary: c1 c2)
  case 0
  then show ?case by simp
next
  case (Suc n)
  have "sim (step_pool sch c1) (step_pool sch c2)"
    using dl dt ds Suc.prems by (rule step_sim)
  moreover have "reset (workflow (state_of (step_pool sch c1))) = reset self0"
    using Suc.prems(1) by (simp add: step_static)
  ultimately show ?case using Suc.IH by simp
qed

section \<open>Rounds of a run\<close>

lemma call_tool_static: "tools_dict a = tools_dict b \<Longrightarrow> call_tool a tc w = call_tool b tc w"
  by (simp add: call_tool_def)

lemma run_step: "run sch (Suc n) self w msg = step_pool sch (run sch n self w msg)"
  by (simp only: run_def run_loop_Suc_end)

lemma run_add: "run sch (n + k) self w msg = run_loop sch k (run sch n self w msg)"
  by (simp only: run_def run_loop_add)

lemma run_ge:
  assumes "run sch k self w msg = Returned r s" and "k \<le> fuel"
  shows "run sch fuel self w msg = Returned r s"
proof -
  from assms(2) obtain d where "fuel = k + d" by (auto simp add: le_iff_add)
  then show ?thesis using assms(1) by (simp only: run_add) (simp add: run_loop_Returned)
qed

lemma run_fields:
  assumes "run sch n self w msg = Running s pool"
  shows "tools_dict (workflow s) = tools_dict self" and "llm (workflow s) = llm self"
    and "tools (workflow s) = tools self" and "timeout (workflow s) = timeout self"
proof -
  from run_static [of sch n self w msg] assms have "reset (workflow s) = reset self" by simp
  from reset_fields [OF this]
  show "tools_dict (workflow s) = tools_dict self" and "llm (workflow s) = llm self"
    and "tools (workflow s) = tools self" and "timeout (workflow s) = timeout self" by simp_all
qed

lemma round_entry:
  assumes "run sch n self w msg = Running s [GatherToolsEvent tcs]"
  shows "tcs \<noteq> [] \<and> events_buffer (ctx s) = []"
proof -
  from reach_run [of sch n self w msg] assms have "reach_inv sch (Running s [GatherToolsEvent tcs])" by simp
  from reach_gather [OF this, of tcs] show ?thesis by simp
qed

lemma round_of_run:
  assumes "run sch n self w msg = Running s [GatherToolsEvent tcs]" and "j \<le> 2 * length tcs"
  shows "abandoned (workflow s) (run sch (Suc n + j) self w msg) \<or>
     (if j = 2 * length tcs
      then round_done sch (run sch (Suc n) self w msg) (workflow s) tcs (run sch (Suc n + j) self w msg)
      else in_round sch (run sch (Suc n) self w msg) (workflow s) tcs j (run sch (Suc n + j) self w msg))"
proof -
  from round_entry [OF assms(1)] have ne: "tcs \<noteq> []" and buf: "events_buffer (ctx s) = []" by simp_all
  have a: "run sch (Suc n) self w msg = step_pool sch (Running s [GatherToolsEvent tcs])"
    by (simp only: run_step assms(1))
  have "run sch (n + Suc j) self w msg = run_loop sch (Suc j) (Running s [GatherToolsEvent tcs])"
    by (simp only: run_add assms(1))
  then have b: "run sch (Suc n + j) self w msg = run_loop sch (Suc j) (Running s [GatherToolsEvent tcs])"
    by simp
  from round_from_gather [OF ne buf assms(2), of sch] show ?thesis
    unfolding a b .
qed

lemma round_fold:
  assumes "run sch n self w msg = Running s [GatherToolsEvent tcs]"
  shows "(\<exists>s' dropped. run sch (Suc n + 2 * length tcs) self w msg = TimedOut s' dropped \<and>
            workflow s' = workflow s \<and> timeout self \<noteq> None) \<or>
     (\<exists>s' msgs. run sch (Suc n + 2 * length tcs) self w msg = Running s' [InputEvent] \<and>
        workflow s' = (workflow s)\<lparr>chat_history := chat_history (workflow s) @ msgs\<rparr> \<and>
        length msgs = length tcs \<and> (\<forall>m\<in>set msgs. role m = TOOL) \<and>
        (\<forall>tc\<in>set tcs. \<exists>j<2 * length tcs. \<exists>sj pj.
           run sch (Suc n + j) self w msg = Running sj pj \<and> pj ! chosen sch sj pj = ToolCallEvent tc) \<and>
        (\<forall>j<2 * length tcs. \<forall>sj pj tc. run sch (Suc n + j) self w msg = Running sj pj \<longrightarrow>
           pj ! chosen sch sj pj = ToolCallEvent tc \<longrightarrow>
           fst (call_tool self tc (world sj)) \<in> ToolCallEventResult ` set msgs) \<and>
        events_buffer (ctx s') = [] \<and> num_tool_calls (ctx s') = Some (length tcs))"
proof -
  have td: "tools_dict (workflow s) = tools_dict self" using assms by (rule run_fields)
  have ct: "\<And>tc w'. call_tool (workflow s) tc w' = call_tool self tc w'"
    using td by (rule call_tool_static)
  have rj: "\<And>j. run_loop sch j (run sch (Suc n) self w msg) = run sch (Suc n + j) self w msg"
    by (simp only: run_add)
  from round_of_run [OF assms, of "2 * length tcs"]
  have "abandoned (workflow s) (run sch (Suc n + 2 * length tcs) self w msg) \<or>
      round_done sch (run sch (Suc n) self w msg) (workflow s) tcs (run sch (Suc n + 2 * length tcs) self w msg)"
    by simp
  then show ?thesis
  proof
    assume "abandoned (workflow s) (run sch (Suc n + 2 * length tcs) self w msg)"
    then show ?thesis unfolding abandoned_def run_fields(4) [OF assms] by blast
  next
    assume "round_done sch (run sch (Suc n) self w msg) (workflow s) tcs (run sch (Suc n + 2 * length tcs) self w msg)"
    then have "\<exists>s' msgs. run sch (Suc n + 2 * length tcs) self w msg = Running s' [InputEvent] \<and>
        workflow s' = (workflow s)\<lparr>chat_history := chat_history (workflow s) @ msgs\<rparr> \<and>
        length msgs = length tcs \<and> (\<forall>m\<in>set msgs. role m = TOOL) \<and>
        (\<forall>tc\<in>set tcs. \<exists>j<2 * length tcs. \<exists>sj pj.
           run sch (Suc n + j) self w msg = Running sj pj \<and> pj ! chosen sch sj pj = ToolCallEvent tc) \<and>
        (\<forall>j<2 * length tcs. \<forall>sj pj tc. run sch (Suc n + j) self w msg = Running sj pj \<longrightarrow>
           pj ! chosen sch sj pj = ToolCallEvent tc \<longrightarrow>
           fst (call_tool self tc (world sj)) \<in> ToolCallEventResult ` set msgs) \<and>
        events_buffer (ctx s') = [] \<and> num_tool_calls (ctx s') = Some (length tcs)"
      unfolding round_done_def rj ct .
    then show ?thesis by (rule disjI2)
  qed
qed

lemma round_progress:
  assumes "run sch n self w msg = Running s [GatherToolsEvent tcs]" and "j < 2 * length tcs"
  shows "(\<exists>s' dropped. run sch (Suc n + j) self w msg = TimedOut s' dropped \<and> workflow s' = workflow s \<and>
            timeout self \<noteq> None) \<or>
     (\<exists>s' pool. run sch (Suc n + j) self w msg = Running s' pool \<and> pool \<noteq> [] \<and>
          InputEvent \<notin> set pool \<and> num_tool_calls (ctx s') = Some (length tcs) \<and>
          length pool + length (events_buffer (ctx s')) = length tcs \<and>
          workflow s' = workflow s)"
proof -
  from assms(2) have "j \<le> 2 * length tcs" "j \<noteq> 2 * length tcs" by simp_all
  with round_of_run [OF assms(1), of j]
  have "abandoned (workflow s) (run sch (Suc n + j) self w msg) \<or>
      in_round sch (run sch (Suc n) self w msg) (workflow s) tcs j (run sch (Suc n + j) self w msg)"
    by simp
  then show ?thesis
  proof
    assume "abandoned (workflow s) (run sch (Suc n + j) self w msg)"
    then show ?thesis unfolding abandoned_def run_fields(4) [OF assms(1)] by blast
  next
    assume "in_round sch (run sch (Suc n) self w msg) (workflow s) tcs j (run sch (Suc n + j) self w msg)"
    then have "\<exists>s' pool. run sch (Suc n + j) self w msg = Running s' pool \<and> pool \<noteq> [] \<and>
          InputEvent \<notin> set pool \<and> num_tool_calls (ctx s') = Some (length tcs) \<and>
          length pool + length (events_buffer (ctx s')) = length tcs \<and>
          workflow s' = workflow s"
      unfolding in_round_def by fastforce
    then show ?thesis by (rule disjI2)
  qed
qed

lemma call_tool_raises:
  "tools_dict self (tool_name tc) = Some tool \<Longrightarrow> fst (acall tool (tool_kwargs tc) w) = Raises e \<Longrightarrow>
     fst (call_tool self tc w) = ToolCallEventResult (tool_msg tc (error_msg tc e))"
  by (cases "acall tool (tool_kwargs tc) w") (simp add: call_tool_def call_tool_after_def)

lemma call_tool_returns:
  "tools_dict self (tool_name tc) = Some tool \<Longrightarrow> fst (acall tool (tool_kwargs tc) w) = Returns output \<Longrightarrow>
     fst (call_tool self tc w) =
       ToolCallEventResult (tool_msg tc (case output of None \<Rightarrow> [] | Some text \<Rightarrow> text))"
  by (cases "acall tool (tool_kwargs tc) w") (simp add: call_tool_def call_tool_after_def)

lemma call_tool_cancelled:
  "tools_dict self (tool_name tc) = Some tool \<Longrightarrow> fst (acall tool (tool_kwargs tc) w) = Cancelled \<Longrightarrow>
     fst (call_tool self tc w) = ToolCallEventResult (tool_msg tc cancelled_content)"
  by (cases "acall tool (tool_kwargs tc) w") (simp add: call_tool_def call_tool_after_def)

lemma call_tool_unknown:
  "tools_dict self (tool_name tc) = None \<Longrightarrow>
     call_tool self tc w =
       (ToolCallEventResult (tool_msg tc (error_msg tc (KeyError (tool_name tc)))), w)"
  by (simp add: call_tool_def call_tool_after_def)

lemma folded_result:
  assumes "\<forall>j<k. \<forall>sj pj tc. run sch (a + j) self w msg = Running sj pj \<longrightarrow>
           pj ! chosen sch sj pj = ToolCallEvent tc \<longrightarrow>
           fst (call_tool self tc (world sj)) \<in> ToolCallEventResult ` set msgs"
    and "j < k" and "run sch (a + j) self w msg = Running sj pj"
    and "pj ! chosen sch sj pj = ToolCallEvent tc"
    and "fst (call_tool self tc (world sj)) = ToolCallEventResult m"
  shows "m \<in> set msgs"
  using assms by fastforce

section \<open>The example session, evaluated\<close>

lemma demo_workflow_eq:
  "demo_workflow = \<lparr>timeout = Some 120, tools = [demo_sql_tool, demo_document_tool, demo_slow_tool],
       tools_dict = [''sql_tool'' \<mapsto> demo_sql_tool, ''document_tool'' \<mapsto> demo_document_tool,
                     ''slow_tool'' \<mapsto> demo_slow_tool],
       llm = demo_llm, chat_history = []\<rparr>"
  by (simp add: demo_workflow_def create_workflow_def init_def demo_sql_tool_def demo_document_tool_def
      demo_slow_tool_def)

lemma demo_calls_length: "length demo_calls = 4"
  by (simp add: demo_calls_def)

lemma demo_lookup:
  "tools_dict demo_workflow ''sql_tool'' = Some demo_sql_tool"
  "tools_dict demo_workflow ''document_tool'' = Some demo_document_tool"
  "tools_dict demo_workflow ''slow_tool'' = Some demo_slow_tool"
  "tools_dict demo_workflow ''web_tool'' = None"
  by (simp_all add: demo_workflow_eq)

lemmas eval_defs = step_pool.simps(1) Let_def chosen_def duration_def tick_def expired_def
  remove_nth_def mod_Suc prepare_chat_def chat_def chat_after_def dispatch_calls_def call_tool_def
  call_tool_after_def gather_def collect_events_def

lemma demo_run2:
  "run demo_sched 2 demo_workflow 0 (Some ''q'') =
     Running \<lparr>workflow = demo_workflow\<lparr>chat_history := [system_msg, user_msg ''q'', demo_request]\<rparr>,
              ctx = \<lparr>num_tool_calls = None, events_buffer = []\<rparr>, world = 1, clock = 2, elapsed = 2\<rparr>
       [GatherToolsEvent demo_calls]"
  by (simp add: run_def start_def numeral_2_eq_2 eval_defs demo_sched_def
       demo_workflow_eq demo_llm_def demo_request_def demo_calls_def)

lemma demo_round:
  "run_loop demo_sched 9 (Running \<lparr>workflow = demo_workflow\<lparr>chat_history := [system_msg, user_msg ''q'', demo_request]\<rparr>,
              ctx = \<lparr>num_tool_calls = None, events_buffer = []\<rparr>, world = 1, clock = 2, elapsed = 2\<rparr>
       [GatherToolsEvent demo_calls]) =
    Running \<lparr>workflow = demo_workflow\<lparr>chat_history := [system_msg, user_msg ''q'', demo_request,
         tool_msg sql_call ''1990-05-17'',
         tool_msg web_call (error_msg web_call (KeyError ''web_tool'')),
         tool_msg document_call (error_msg document_call (Exception ''index unavailable'')),
         tool_msg slow_call cancelled_content]\<rparr>,
              ctx = \<lparr>num_tool_calls = Some 4, events_buffer = []\<rparr>, world = 4, clock = 11, elapsed = 11\<rparr>
       [InputEvent]"
  apply (simp add: eval_nat_numeral)
  apply (simp add: eval_defs demo_sched_def demo_calls_def
        demo_workflow_eq sql_call_def document_call_def slow_call_def web_call_def
        demo_sql_tool_def demo_document_tool_def demo_slow_tool_def)
  done

section \<open>Results of a round, and runs of three events\<close>

lemma not_timed_out_before:
  assumes "run sch (a + b) self w msg = Running s pool"
  shows "run sch a self w msg \<noteq> TimedOut s' dropped"
proof
  assume "run sch a self w msg = TimedOut s' dropped"
  then have "run sch (a + b) self w msg = TimedOut s' dropped"
    by (simp only: run_add run_loop_TimedOut)
  with assms show False by simp
qed

lemma demo_run11:
  "run demo_sched 11 demo_workflow 0 (Some ''q'') =
    Running \<lparr>workflow = demo_workflow\<lparr>chat_history := [system_msg, user_msg ''q'', demo_request,
         tool_msg sql_call ''1990-05-17'',
         tool_msg web_call (error_msg web_call (KeyError ''web_tool'')),
         tool_msg document_call (error_msg document_call (Exception ''index unavailable'')),
         tool_msg slow_call cancelled_content]\<rparr>,
              ctx = \<lparr>num_tool_calls = Some 4, events_buffer = []\<rparr>, world = 4, clock = 11, elapsed = 11\<rparr>
       [InputEvent]"
proof -
  have "run demo_sched (2 + 9) demo_workflow 0 (Some ''q'') =
      run_loop demo_sched 9 (run demo_sched 2 demo_workflow 0 (Some ''q''))"
    by (simp only: run_add)
  then show ?thesis by (simp only: demo_run2 demo_round) simp
qed

lemma call_tool_message:
  "fst (call_tool self tc u) =
     ToolCallEventResult
       (tool_msg tc
          (case tools_dict self (tool_name tc) of
             None \<Rightarrow> error_msg tc (KeyError (tool_name tc))
           | Some tool \<Rightarrow>
               (case fst (acall tool (tool_kwargs tc) u) of
                  Returns output \<Rightarrow> (case output of None \<Rightarrow> [] | Some text \<Rightarrow> text)
                | Raises e \<Rightarrow> error_msg tc e
                | Cancelled \<Rightarrow> cancelled_content)))"
  by (cases "tools_dict self (tool_name tc)")
     (auto simp add: call_tool_def call_tool_after_def split: prod.splits awaited.splits)

lemma round_results:
  assumes "run sch n self w msg = Running s [GatherToolsEvent tcs]"
  shows "(\<exists>s' dropped. run sch (Suc n + 2 * length tcs) self w msg = TimedOut s' dropped \<and>
            timeout self \<noteq> None \<and> chat_history (workflow s') = chat_history (workflow s)) \<or>
     (\<exists>s' msgs. run sch (Suc n + 2 * length tcs) self w msg = Running s' [InputEvent] \<and>
        chat_history (workflow s') = chat_history (workflow s) @ msgs \<and>
        length msgs = length tcs \<and>
        (\<forall>tc\<in>set tcs. \<exists>j<2 * length tcs. \<exists>sj pj.
           run sch (Suc n + j) self w msg = Running sj pj \<and> pj ! chosen sch sj pj = ToolCallEvent tc) \<and>
        (\<forall>j<2 * length tcs. \<forall>sj pj tc. run sch (Suc n + j) self w msg = Running sj pj \<longrightarrow>
           pj ! chosen sch sj pj = ToolCallEvent tc \<longrightarrow>
           tool_msg tc
             (case tools_dict self (tool_name tc) of
                None \<Rightarrow> error_msg tc (KeyError (tool_name tc))
              | Some tool \<Rightarrow>
                  (case fst (acall tool (tool_kwargs tc) (world sj)) of
                     Returns output \<Rightarrow> (case output of None \<Rightarrow> [] | Some text \<Rightarrow> text)
                   | Raises e \<Rightarrow> error_msg tc e
                   | Cancelled \<Rightarrow> cancelled_content)) \<in> set msgs))"
  using round_fold [OF assms]
proof
  assume "\<exists>s' dropped. run sch (Suc n + 2 * length tcs) self w msg = TimedOut s' dropped \<and>
            workflow s' = workflow s \<and> timeout self \<noteq> None"
  then show ?thesis by auto
next
  assume "\<exists>s' msgs. run sch (Suc n + 2 * length tcs) self w msg = Running s' [InputEvent] \<and>
        workflow s' = (workflow s)\<lparr>chat_history := chat_history (workflow s) @ msgs\<rparr> \<and>
        length msgs = length tcs \<and> (\<forall>m\<in>set msgs. role m = TOOL) \<and>
        (\<forall>tc\<in>set tcs. \<exists>j<2 * length tcs. \<exists>sj pj.
           run sch (Suc n + j) self w msg = Running sj pj \<and> pj ! chosen sch sj pj = ToolCallEvent tc) \<and>
        (\<forall>j<2 * length tcs. \<forall>sj pj tc. run sch (Suc n + j) self w msg = Running sj pj \<longrightarrow>
           pj ! chosen sch sj pj = ToolCallEvent tc \<longrightarrow>
           fst (call_tool self tc (world sj)) \<in> ToolCallEventResult ` set msgs) \<and>
        events_buffer (ctx s') = [] \<and> num_tool_calls (ctx s') = Some (length tcs)"
  then obtain s' msgs where r: "run sch (Suc n + 2 * length tcs) self w msg = Running s' [InputEvent]"
    and h: "workflow s' = (workflow s)\<lparr>chat_history := chat_history (workflow s) @ msgs\<rparr>"
    and l: "length msgs = length tcs"
    and p1: "\<forall>tc\<in>set tcs. \<exists>j<2 * length tcs. \<exists>sj pj.
           run sch (Suc n + j) self w msg = Running sj pj \<and> pj ! chosen sch sj pj = ToolCallEvent tc"
    and p2: "\<forall>j<2 * length tcs. \<forall>sj pj tc. run sch (Suc n + j) self w msg = Running sj pj \<longrightarrow>
           pj ! chosen sch sj pj = ToolCallEvent tc \<longrightarrow>
           fst (call_tool self tc (world sj)) \<in> ToolCallEventResult ` set msgs"
    by blast
  from h have h': "chat_history (workflow s') = chat_history (workflow s) @ msgs" by simp
  have p2': "\<forall>j<2 * length tcs. \<forall>sj pj tc. run sch (Suc n + j) self w msg = Running sj pj \<longrightarrow>
           pj ! chosen sch sj pj = ToolCallEvent tc \<longrightarrow>
           tool_msg tc
             (case tools_dict self (tool_name tc) of
                None \<Rightarrow> error_msg tc (KeyError (tool_name tc))
              | Some tool \<Rightarrow>
                  (case fst (acall tool (tool_kwargs tc) (world sj)) of
                     Returns output \<Rightarrow> (case output of None \<Rightarrow> [] | Some text \<Rightarrow> text)
                   | Raises e \<Rightarrow> error_msg tc e
                   | Cancelled \<Rightarrow> cancelled_content)) \<in> set msgs"
  proof (intro allI impI)
    fix j sj pj tc
    assume "j < 2 * length tcs" "run sch (Suc n + j) self w msg = Running sj pj"
      "pj ! chosen sch sj pj = ToolCallEvent tc"
    with p2 have "fst (call_tool self tc (world sj)) \<in> ToolCallEventResult ` set msgs" by blast
    then show "tool_msg tc
             (case tools_dict self (tool_name tc) of
                None \<Rightarrow> error_msg tc (KeyError (tool_name tc))
              | Some tool \<Rightarrow>
                  (case fst (acall tool (tool_kwargs tc) (world sj)) of
                     Returns output \<Rightarrow> (case output of None \<Rightarrow> [] | Some text \<Rightarrow> text)
                   | Raises e \<Rightarrow> error_msg tc e
                   | Cancelled \<Rightarrow> cancelled_content)) \<in> set msgs"
      unfolding call_tool_message by auto
  qed
  show ?thesis
    by (rule disjI2, intro exI [of _ s'] exI [of _ msgs] conjI) (rule r h' l p1 p2')+
qed

lemma run_ge_TimedOut:
  assumes "run sch k self w msg = TimedOut s dropped" and "k \<le> fuel"
  shows "run sch fuel self w msg = TimedOut s dropped"
proof -
  from assms(2) obtain d where "fuel = k + d" by (auto simp add: le_iff_add)
  then show ?thesis using assms(1) by (simp only: run_add) (simp add: run_loop_TimedOut)
qed

lemma timeout_interrupts_call:
  assumes "run sch k self w msg = Running sk pool"
    and "ToolCallEvent tc \<in> set pool"
    and "tools_dict self (tool_name tc) = Some tool"
    and "expired (timeout self) (elapsed sk + duration sch sk pool)"
  shows "\<exists>dropped. run sch (Suc k) self w msg = TimedOut sk dropped \<and>
           ToolCallEventResult (tool_msg tc cancelled_content) \<in> set dropped"
proof -
  from assms(2) have ne: "pool \<noteq> []" by auto
  have td: "tools_dict (workflow sk) = tools_dict self" and tm: "timeout (workflow sk) = timeout self"
    using run_fields [OF assms(1)] by simp_all
  from assms(4) have ex: "expired (timeout (workflow sk)) (elapsed sk + duration sch sk pool)"
    by (simp only: tm)
  have "run sch (Suc k) self w msg = TimedOut sk (concat (map (interrupted (workflow sk)) pool))"
    by (simp only: run_step assms(1)) (rule step_pool_expired [OF ne ex])
  moreover have "interrupted (workflow sk) (ToolCallEvent tc) =
      [ToolCallEventResult (tool_msg tc cancelled_content)]"
    by (simp add: interrupted_def td assms(3) call_tool_after_def)
  then have "ToolCallEventResult (tool_msg tc cancelled_content)
      \<in> set (concat (map (interrupted (workflow sk)) pool))"
    using assms(2) by (auto intro!: bexI [of _ "ToolCallEvent tc"])
  ultimately show ?thesis by blast
qed

lemma slow_run3:
  "run slow_sched 3 demo_workflow 0 (Some ''q'') =
     Running \<lparr>workflow = demo_workflow\<lparr>chat_history := [system_msg, user_msg ''q'', demo_request]\<rparr>,
              ctx = \<lparr>num_tool_calls = Some 4, events_buffer = []\<rparr>, world = 1, clock = 3, elapsed = 105\<rparr>
       (map ToolCallEvent demo_calls)"
  by (simp add: run_def start_def numeral_3_eq_3 eval_defs slow_sched_def
       demo_workflow_eq demo_llm_def demo_request_def demo_calls_def)

lemma slow_run2:
  "run slow_sched 2 demo_workflow 0 (Some ''q'') =
     Running \<lparr>workflow = demo_workflow\<lparr>chat_history := [system_msg, user_msg ''q'', demo_request]\<rparr>,
              ctx = \<lparr>num_tool_calls = None, events_buffer = []\<rparr>, world = 1, clock = 2, elapsed = 70\<rparr>
       [GatherToolsEvent demo_calls]"
  by (simp add: run_def start_def numeral_2_eq_2 eval_defs slow_sched_def
       demo_workflow_eq demo_llm_def demo_request_def demo_calls_def)

lemma slow_run4:
  "run slow_sched 4 demo_workflow 0 (Some ''q'') =
     TimedOut \<lparr>workflow = demo_workflow\<lparr>chat_history := [system_msg, user_msg ''q'', demo_request]\<rparr>,
              ctx = \<lparr>num_tool_calls = Some 4, events_buffer = []\<rparr>, world = 1, clock = 3, elapsed = 105\<rparr>
       [ToolCallEventResult (tool_msg sql_call cancelled_content),
        ToolCallEventResult (tool_msg document_call cancelled_content),
        ToolCallEventResult (tool_msg slow_call cancelled_content)]"
proof -
  have "run slow_sched (Suc 3) demo_workflow 0 (Some ''q'') =
      step_pool slow_sched
        (Running \<lparr>workflow = demo_workflow\<lparr>chat_history := [system_msg, user_msg ''q'', demo_request]\<rparr>,
              ctx = \<lparr>num_tool_calls = Some 4, events_buffer = []\<rparr>, world = 1, clock = 3, elapsed = 105\<rparr>
           (map ToolCallEvent demo_calls))"
    by (simp only: run_step slow_run3)
  then show ?thesis
    by (simp add: eval_defs slow_sched_def demo_calls_def interrupted_def
        demo_workflow_eq sql_call_def document_call_def slow_call_def web_call_def
        call_tool_after_def chat_after_def)
qed

lemma chat_timeout: "chat self w = (self', w', ev) \<Longrightarrow> timeout self' = timeout self"
  by (auto simp add: chat_def chat_after_def Let_def split: prod.splits awaited.splits sum.splits if_splits)

lemma run3_cases:
  fixes sch :: "'w scheduler"
  assumes c: "chat (self\<lparr>chat_history := prepared (chat_history self) q\<rparr>) w = (self2, w', StopEvent r)"
  shows "run sch 3 self w (Some q) =
    (if expired (timeout self) (snd (sch w 0 1)) then
       TimedOut \<lparr>workflow = self, ctx = \<lparr>num_tool_calls = None, events_buffer = []\<rparr>,
                 world = w, clock = 0, elapsed = 0\<rparr> []
     else if expired (timeout self) (snd (sch w 0 1) + snd (sch w 1 1)) then
       TimedOut \<lparr>workflow = self\<lparr>chat_history := prepared (chat_history self) q\<rparr>,
                 ctx = \<lparr>num_tool_calls = None, events_buffer = []\<rparr>,
                 world = w, clock = 1, elapsed = snd (sch w 0 1)\<rparr>
         [StopEvent (Some cancelled_answer)]
     else if expired (timeout self) (snd (sch w 0 1) + snd (sch w 1 1) + snd (sch w' 2 1)) then
       TimedOut \<lparr>workflow = self2, ctx = \<lparr>num_tool_calls = None, events_buffer = []\<rparr>,
                 world = w', clock = 2, elapsed = snd (sch w 0 1) + snd (sch w 1 1)\<rparr> []
     else
       Returned r \<lparr>workflow = self2, ctx = \<lparr>num_tool_calls = None, events_buffer = []\<rparr>,
                   world = w', clock = 3,
                   elapsed = snd (sch w 0 1) + snd (sch w 1 1) + snd (sch w' 2 1)\<rparr>)"
proof -
  define s0 :: "'w run_state" where
    "s0 = \<lparr>workflow = self, ctx = \<lparr>num_tool_calls = None, events_buffer = []\<rparr>,
           world = w, clock = 0, elapsed = 0\<rparr>"
  define s1 :: "'w run_state" where
    "s1 = \<lparr>workflow = self\<lparr>chat_history := prepared (chat_history self) q\<rparr>,
           ctx = \<lparr>num_tool_calls = None, events_buffer = []\<rparr>,
           world = w, clock = 1, elapsed = snd (sch w 0 1)\<rparr>"
  define s2 :: "'w run_state" where
    "s2 = \<lparr>workflow = self2, ctx = \<lparr>num_tool_calls = None, events_buffer = []\<rparr>,
           world = w', clock = 2, elapsed = snd (sch w 0 1) + snd (sch w 1 1)\<rparr>"
  have t2: "timeout self2 = timeout self" using chat_timeout [OF c] by simp
  have r0: "run sch 0 self w (Some q) = Running s0 [StartEvent (Some q)]"
    by (simp add: run_def start_def s0_def)
  have fin: "\<And>c. finished c \<Longrightarrow> run sch (Suc 0) self w (Some q) = c \<Longrightarrow>
      run sch 3 self w (Some q) = c"
    "\<And>c. finished c \<Longrightarrow> run sch (Suc (Suc 0)) self w (Some q) = c \<Longrightarrow>
      run sch 3 self w (Some q) = c"
    by (simp_all add: run_def eval_nat_numeral finished_def del: run_loop.simps)
       (auto simp add: run_loop_Suc_end)
  have r1: "run sch (Suc 0) self w (Some q) = step_pool sch (Running s0 [StartEvent (Some q)])"
    by (simp only: run_step r0)
  show ?thesis
  proof (cases "expired (timeout self) (snd (sch w 0 1))")
    case True
    then have "run sch (Suc 0) self w (Some q) = TimedOut s0 []"
      unfolding r1 by (simp add: step_pool_expired s0_def duration_def interrupted_def)
    from fin(1) [OF _ this] show ?thesis using True by (simp add: finished_def s0_def)
  next
    case e0: False
    then have r1': "run sch (Suc 0) self w (Some q) = Running s1 [InputEvent]"
      unfolding r1 by (simp add: step_Start s0_def s1_def duration_def tick_def)
    have r2: "run sch (Suc (Suc 0)) self w (Some q) = step_pool sch (Running s1 [InputEvent])"
      unfolding run_step [of sch "Suc 0"] r1' by (rule refl)
    show ?thesis
    proof (cases "expired (timeout self) (snd (sch w 0 1) + snd (sch w 1 1))")
      case True
      then have "run sch (Suc (Suc 0)) self w (Some q) = TimedOut s1 [StopEvent (Some cancelled_answer)]"
        unfolding r2 by (simp add: step_pool_expired s1_def duration_def interrupted_def chat_after_def)
      from fin(2) [OF _ this] show ?thesis using True e0 by (simp add: finished_def s1_def)
    next
      case e1: False
      then have r2': "run sch (Suc (Suc 0)) self w (Some q) = Running s2 [StopEvent r]"
        unfolding r2 by (simp add: step_Input s1_def s2_def duration_def tick_def c)
      have "run sch (Suc (Suc (Suc 0))) self w (Some q) = step_pool sch (Running s2 [StopEvent r])"
        unfolding run_step [of sch "Suc (Suc 0)"] r2' by (rule refl)
      then have r3: "run sch 3 self w (Some q) = step_pool sch (Running s2 [StopEvent r])"
        by (simp only: numeral_3_eq_3)
      show ?thesis
      proof (cases "expired (timeout self) (snd (sch w 0 1) + snd (sch w 1 1) + snd (sch w' 2 1))")
        case True
        then have "run sch 3 self w (Some q) = TimedOut s2 []"
          unfolding r3 by (simp add: step_pool_expired s2_def duration_def interrupted_def t2)
        then show ?thesis using True e0 e1 by (simp add: s2_def)
      next
        case False
        then have "run sch 3 self w (Some q) =
            Returned r \<lparr>workflow = self2, ctx = \<lparr>num_tool_calls = None, events_buffer = []\<rparr>,
                   world = w', clock = 3,
                   elapsed = snd (sch w 0 1) + snd (sch w 1 1) + snd (sch w' 2 1)\<rparr>"
          unfolding r3 by (simp add: step_Stop s2_def duration_def tick_def t2)
        then show ?thesis using False e0 e1 by simp
      qed
    qed
  qed
qed

lemma run3_finished:
  assumes "chat (self\<lparr>chat_history := prepared (chat_history self) q\<rparr>) w = (self2, w', StopEvent r)"
    and "3 \<le> fuel"
  shows "run sch fuel self w (Some q) = run sch 3 self w (Some q)"
proof -
  have f: "finished (run sch 3 self w (Some q))"
    by (simp add: run3_cases [OF assms(1)] finished_def)
  from assms(2) obtain d where "fuel = 3 + d" by (auto simp add: le_iff_add)
  then show ?thesis using finished_run_loop [OF f] by (simp only: run_add)
qed

section \<open>Runs that end, and the sessions of the examples\<close>

lemma run_timeout_field: "timeout (workflow (state_of (run sch n self w msg))) = timeout self"
  using reset_fields [OF run_static [of sch n self w msg]] by simp

lemma run_finishes:
  assumes quiet: "\<And>h u res u' tcs. B \<le> length h \<Longrightarrow>
        achat_with_tools (llm self) (tools self) h u = (Returns res, u') \<Longrightarrow>
        get_tool_calls_from_response (llm self) res = Inr tcs \<Longrightarrow> tcs = []"
  shows "\<exists>fuel. finished (run sch fuel self w (Some m))"
proof (cases "expired (timeout self) (snd (sch w 0 1))")
  case True
  then have "finished (run sch (Suc 0) self w (Some m))"
    unfolding run_step [of sch 0]
    by (simp add: run_def start_def step_finishes_or_runs duration_def)
  then show ?thesis by blast
next
  case False
  define s1 :: "'a run_state" where
    "s1 = \<lparr>workflow = self\<lparr>chat_history := prepared (chat_history self) m\<rparr>,
           ctx = \<lparr>num_tool_calls = None, events_buffer = []\<rparr>, world = w, clock = 1,
           elapsed = snd (sch w 0 1)\<rparr>"
  have r1: "run sch (Suc 0) self w (Some m) = Running s1 [InputEvent]"
    unfolding run_step [of sch 0] using False
    by (simp add: run_def start_def step_Start duration_def tick_def s1_def)
  have "\<exists>n. finished (run_loop sch n (Running s1 [InputEvent]))"
  proof (rule terminates_from_input [where B = B and L = "llm self" and T = "tools self"])
    fix h u res u' tcs
    assume "B \<le> length h" "achat_with_tools (llm self) (tools self) h u = (Returns res, u')"
      "get_tool_calls_from_response (llm self) res = Inr tcs"
    then show "tcs = []" by (rule quiet)
  qed (simp_all add: s1_def)
  then obtain n where "finished (run_loop sch n (Running s1 [InputEvent]))" by blast
  then have "finished (run sch (Suc 0 + n) self w (Some m))"
    by (simp only: run_add r1)
  then show ?thesis by blast
qed

lemma silent_run3:
  "run demo_sched 3 (demo_workflow\<lparr>llm := silent_llm\<rparr>) 0 (Some ''q'') =
     Returned None
       \<lparr>workflow = demo_workflow\<lparr>llm := silent_llm,
            chat_history := [system_msg, user_msg ''q'', demo_request]\<rparr>,
        ctx = \<lparr>num_tool_calls = None, events_buffer = []\<rparr>, world = 1, clock = 3, elapsed = 3\<rparr>"
proof -
  have "chat ((demo_workflow\<lparr>llm := silent_llm\<rparr>)
          \<lparr>chat_history := prepared (chat_history (demo_workflow\<lparr>llm := silent_llm\<rparr>)) ''q''\<rparr>) 0 =
     (demo_workflow\<lparr>llm := silent_llm, chat_history := [system_msg, user_msg ''q'', demo_request]\<rparr>, 1,
      StopEvent None)"
    by (simp add: chat_def chat_after_def Let_def demo_workflow_eq silent_llm_def demo_request_def prepared_def)
  from run3_cases [OF this, of demo_sched] show ?thesis
    by (simp add: demo_workflow_eq demo_sched_def expired_def)
qed

lemma echo_workflow_eq:
  "echo_workflow = \<lparr>timeout = Some 120, tools = [demo_sql_tool, demo_document_tool],
       tools_dict = [''sql_tool'' \<mapsto> demo_sql_tool, ''document_tool'' \<mapsto> demo_document_tool],
       llm = echo_llm, chat_history = []\<rparr>"
  by (simp add: echo_workflow_def init_def demo_sql_tool_def demo_document_tool_def)

lemma echo_session_deterministic:
  "(\<forall>h w1 w2. fst (achat_with_tools (llm echo_workflow) (tools echo_workflow) h w1) =
               fst (achat_with_tools (llm echo_workflow) (tools echo_workflow) h w2)) \<and>
   (\<forall>nm tool kwargs w1 w2. tools_dict echo_workflow nm = Some tool \<longrightarrow>
               fst (acall tool kwargs w1) = fst (acall tool kwargs w2))"
  by (auto simp add: echo_workflow_eq echo_llm_def demo_sql_tool_def demo_document_tool_def
      split: if_splits)

lemma echo_run_first:
  "run world_sched 9 echo_workflow 0 (Some ''q'') =
     Returned (Some ''Error executing document_tool: index unavailable'')
       \<lparr>workflow = echo_workflow\<lparr>chat_history := [system_msg, user_msg ''q'', demo_request,
            tool_msg document_call ''Error executing document_tool: index unavailable'',
            tool_msg sql_call ''1990-05-17'',
            \<lparr>role = ASSISTANT, content = Some ''Error executing document_tool: index unavailable'',
             name = None, additional_kwargs = []\<rparr>]\<rparr>,
        ctx = \<lparr>num_tool_calls = Some 2, events_buffer = []\<rparr>, world = 4, clock = 9, elapsed = 9\<rparr>"
  apply (simp add: run_def start_def eval_nat_numeral)
  apply (simp add: eval_defs world_sched_def echo_workflow_eq echo_llm_def demo_request_def
        sql_call_def document_call_def demo_sql_tool_def demo_document_tool_def
        system_msg_def user_msg_def tool_msg_def error_msg_def)
  done

lemma echo_run_second:
  "run world_sched 9 echo_workflow 4 (Some ''q'') =
     Returned (Some ''1990-05-17'')
       \<lparr>workflow = echo_workflow\<lparr>chat_history := [system_msg, user_msg ''q'', demo_request,
            tool_msg sql_call ''1990-05-17'',
            tool_msg document_call ''Error executing document_tool: index unavailable'',
            \<lparr>role = ASSISTANT, content = Some ''1990-05-17'', name = None, additional_kwargs = []\<rparr>]\<rparr>,
        ctx = \<lparr>num_tool_calls = Some 2, events_buffer = []\<rparr>, world = 8, clock = 9, elapsed = 9\<rparr>"
  apply (simp add: run_def start_def eval_nat_numeral)
  apply (simp add: eval_defs world_sched_def echo_workflow_eq echo_llm_def demo_request_def
        sql_call_def document_call_def demo_sql_tool_def demo_document_tool_def
        system_msg_def user_msg_def tool_msg_def error_msg_def)
  done


lemma demo_run13:
  "run demo_sched 13 demo_workflow 0 (Some ''q'') =
     Returned (Some ''Paula Walker was born on 1990-05-17.'')
       \<lparr>workflow = demo_workflow\<lparr>chat_history := [system_msg, user_msg ''q'', demo_request,
         tool_msg sql_call ''1990-05-17'',
         tool_msg web_call (error_msg web_call (KeyError ''web_tool'')),
         tool_msg document_call (error_msg document_call (Exception ''index unavailable'')),
         tool_msg slow_call cancelled_content, demo_answer]\<rparr>,
        ctx = \<lparr>num_tool_calls = Some 4, events_buffer = []\<rparr>, world = 5, clock = 13, elapsed = 13\<rparr>"
proof -
  have "run demo_sched (11 + 2) demo_workflow 0 (Some ''q'') =
      run_loop demo_sched 2 (run demo_sched 11 demo_workflow 0 (Some ''q''))"
    by (simp only: run_add)
  also have "\<dots> = run_loop demo_sched 2
      (Running \<lparr>workflow = demo_workflow\<lparr>chat_history := [system_msg, user_msg ''q'', demo_request,
         tool_msg sql_call ''1990-05-17'',
         tool_msg web_call (error_msg web_call (KeyError ''web_tool'')),
         tool_msg document_call (error_msg document_call (Exception ''index unavailable'')),
         tool_msg slow_call cancelled_content]\<rparr>,
              ctx = \<lparr>num_tool_calls = Some 4, events_buffer = []\<rparr>, world = 4, clock = 11, elapsed = 11\<rparr>
       [InputEvent])"
    by (simp only: demo_run11)
  also have "\<dots> = Returned (Some ''Paula Walker was born on 1990-05-17.'')
       \<lparr>workflow = demo_workflow\<lparr>chat_history := [system_msg, user_msg ''q'', demo_request,
         tool_msg sql_call ''1990-05-17'',
         tool_msg web_call (error_msg web_call (KeyError ''web_tool'')),
         tool_msg document_call (error_msg document_call (Exception ''index unavailable'')),
         tool_msg slow_call cancelled_content, demo_answer]\<rparr>,
        ctx = \<lparr>num_tool_calls = Some 4, events_buffer = []\<rparr>, world = 5, clock = 13, elapsed = 13\<rparr>"
    by (simp add: numeral_2_eq_2 eval_defs demo_sched_def demo_workflow_eq demo_llm_def
          demo_answer_def)
  finally show ?thesis by simp
qed

section \<open>The claims\<close>

text \<open>
  Claim C1 as first stated fails in three ways. Without a message \<^verbatim>\<open>prepare_chat\<close> raises
  \<^verbatim>\<open>ValueError\<close>, and the run ends with it. When the time limit expires (here with
  every step taking 35 seconds and a limit of 120) \<^verbatim>\<open>run\<close> raises
  \<^verbatim>\<open>WorkflowTimeoutError\<close>. And when the assistant message of a direct answer has no
  content, the result of \<^verbatim>\<open>run\<close> is \<open>None\<close>, not a text.
\<close>

theorem run_missing_message_raises:
  "run demo_sched 1 demo_workflow 0 None =
     Raised (ValueError '''message' field is required.'')
       \<lparr>workflow = demo_workflow, ctx = \<lparr>num_tool_calls = None, events_buffer = []\<rparr>,
        world = 0, clock = 1, elapsed = 1\<rparr> \<and>
   run slow_sched 4 demo_workflow 0 (Some ''q'') =
     TimedOut
       \<lparr>workflow = demo_workflow\<lparr>chat_history := [system_msg, user_msg ''q'', demo_request]\<rparr>,
        ctx = \<lparr>num_tool_calls = Some 4, events_buffer = []\<rparr>, world = 1, clock = 3, elapsed = 105\<rparr>
       [ToolCallEventResult (tool_msg sql_call cancelled_content),
        ToolCallEventResult (tool_msg document_call cancelled_content),
        ToolCallEventResult (tool_msg slow_call cancelled_content)] \<and>
   run demo_sched 3 (demo_workflow\<lparr>llm := silent_llm\<rparr>) 0 (Some ''q'') =
     Returned None
       \<lparr>workflow = demo_workflow\<lparr>llm := silent_llm,
            chat_history := [system_msg, user_msg ''q'', demo_request]\<rparr>,
        ctx = \<lparr>num_tool_calls = None, events_buffer = []\<rparr>, world = 1, clock = 3, elapsed = 3\<rparr>"
proof -
  have "\<not> expired (timeout demo_workflow) (snd (demo_sched 0 0 1))"
    by (simp add: demo_workflow_eq demo_sched_def expired_def)
  with run_None [of demo_workflow demo_sched 0 0] show ?thesis
    by (simp add: silent_run3 slow_run4 demo_sched_def)
qed

text \<open>
  Claim C1, as amended. With a message present, no exception of a step leaves \<^verbatim>\<open>run\<close>:
  whatever the reasoning client, the adapters and the order of completion do, after any
  number of events the run either is still under way with an event pending, or has
  returned, or has been ended by its time limit (\<^verbatim>\<open>WorkflowTimeoutError\<close>, only when a
  limit is set). What it returns is one of the two fixed texts of \<^verbatim>\<open>chat\<close> or the content
  of the last message of the history, which may be \<open>None\<close>. The run does end, in one of
  these two ways, as soon as the reasoning client stops requesting tools (here: once the
  history has \<open>B\<close> messages).
\<close>

theorem run_with_message_never_raises:
  "(\<forall>fuel.
      (\<exists>s pool. run sch fuel self w (Some m) = Running s pool \<and> pool \<noteq> []) \<or>
      (\<exists>r s. run sch fuel self w (Some m) = Returned r s \<and>
         (r = Some ''I encountered an issue processing your request. Please try rephrasing your question.'' \<or>
          r = Some ''The operation was cancelled. Please try again.'' \<or>
          (chat_history (workflow s) \<noteq> [] \<and> r = content (last (chat_history (workflow s)))))) \<or>
      (\<exists>s dropped. run sch fuel self w (Some m) = TimedOut s dropped \<and> timeout self \<noteq> None)) \<and>
   ((\<forall>h u res u' tcs. B \<le> length h \<longrightarrow>
        achat_with_tools (llm self) (tools self) h u = (Returns res, u') \<longrightarrow>
        get_tool_calls_from_response (llm self) res = Inr tcs \<longrightarrow> tcs = []) \<longrightarrow>
    (\<exists>fuel. (\<exists>r s. run sch fuel self w (Some m) = Returned r s) \<or>
            (\<exists>s dropped. run sch fuel self w (Some m) = TimedOut s dropped \<and> timeout self \<noteq> None)))"
proof (intro conjI allI impI)
  fix fuel
  have c: "calm (run sch fuel self w (Some m))" by (rule calm_run)
  have r: "reach_inv sch (run sch fuel self w (Some m))" by (rule reach_run)
  show "(\<exists>s pool. run sch fuel self w (Some m) = Running s pool \<and> pool \<noteq> []) \<or>
      (\<exists>r s. run sch fuel self w (Some m) = Returned r s \<and>
         (r = Some ''I encountered an issue processing your request. Please try rephrasing your question.'' \<or>
          r = Some ''The operation was cancelled. Please try again.'' \<or>
          (chat_history (workflow s) \<noteq> [] \<and> r = content (last (chat_history (workflow s)))))) \<or>
      (\<exists>s dropped. run sch fuel self w (Some m) = TimedOut s dropped \<and> timeout self \<noteq> None)"
  proof (cases "run sch fuel self w (Some m)")
    case (Running s pool)
    with r have "pool \<noteq> []" by (auto simp add: reach_inv_def in_round_def)
    with Running show ?thesis by simp
  next
    case (Returned r' s)
    with r have "final_ok (workflow s) r'" by (simp add: reach_inv_def)
    with Returned show ?thesis by (simp add: final_ok_def apology_def cancelled_answer_def)
  next
    case (Raised e s) with c show ?thesis by (simp add: calm_def)
  next
    case (TimedOut s dropped)
    with r have "timeout (workflow s) \<noteq> None" by (simp add: reach_inv_def)
    moreover have "timeout (workflow s) = timeout self"
      using run_timeout_field [of sch fuel self w "Some m"] TimedOut by simp
    ultimately show ?thesis using TimedOut by simp
  next
    case (Stalled s) with r show ?thesis by (simp add: reach_inv_def)
  qed
next
  assume q: "\<forall>h u res u' tcs. B \<le> length h \<longrightarrow>
        achat_with_tools (llm self) (tools self) h u = (Returns res, u') \<longrightarrow>
        get_tool_calls_from_response (llm self) res = Inr tcs \<longrightarrow> tcs = []"
  have "\<exists>fuel. finished (run sch fuel self w (Some m))"
  proof (rule run_finishes [where B = B])
    fix h u res u' tcs
    assume "B \<le> length h" "achat_with_tools (llm self) (tools self) h u = (Returns res, u')"
      "get_tool_calls_from_response (llm self) res = Inr tcs"
    with q show "tcs = []" by blast
  qed
  then obtain fuel where f: "finished (run sch fuel self w (Some m))" by blast
  have "(\<exists>r s. run sch fuel self w (Some m) = Returned r s) \<or>
        (\<exists>s dropped. run sch fuel self w (Some m) = TimedOut s dropped \<and> timeout self \<noteq> None)"
  proof (cases "run sch fuel self w (Some m)")
    case (TimedOut s dropped)
    have "reach_inv sch (run sch fuel self w (Some m))" by (rule reach_run)
    with TimedOut have "timeout (workflow s) \<noteq> None" by (simp add: reach_inv_def)
    moreover have "timeout (workflow s) = timeout self"
      using run_timeout_field [of sch fuel self w "Some m"] TimedOut by simp
    ultimately show ?thesis using TimedOut by simp
  qed (insert f, simp_all add: finished_def)
  then show "\<exists>fuel. (\<exists>r s. run sch fuel self w (Some m) = Returned r s) \<or>
            (\<exists>s dropped. run sch fuel self w (Some m) = TimedOut s dropped \<and> timeout self \<noteq> None)"
    by blast
qed

theorem run_with_message_never_raises_witness:
  "((\<exists>s pool. run demo_sched 7 demo_workflow 0 (Some ''q'') = Running s pool \<and> pool \<noteq> []) \<or>
    (\<exists>r s. run demo_sched 7 demo_workflow 0 (Some ''q'') = Returned r s \<and>
         (r = Some ''I encountered an issue processing your request. Please try rephrasing your question.'' \<or>
          r = Some ''The operation was cancelled. Please try again.'' \<or>
          (chat_history (workflow s) \<noteq> [] \<and> r = content (last (chat_history (workflow s)))))) \<or>
    (\<exists>s dropped. run demo_sched 7 demo_workflow 0 (Some ''q'') = TimedOut s dropped \<and>
         timeout demo_workflow \<noteq> None)) \<and>
   (\<exists>fuel. (\<exists>r s. run demo_sched fuel demo_workflow 0 (Some ''q'') = Returned r s) \<or>
           (\<exists>s dropped. run demo_sched fuel demo_workflow 0 (Some ''q'') = TimedOut s dropped \<and>
              timeout demo_workflow \<noteq> None))"
proof -
  have "\<forall>h u res u' tcs. 3 \<le> length h \<longrightarrow>
        achat_with_tools (llm demo_workflow) (tools demo_workflow) h u = (Returns res, u') \<longrightarrow>
        get_tool_calls_from_response (llm demo_workflow) res = Inr tcs \<longrightarrow> tcs = []"
    by (auto simp add: demo_workflow_eq demo_llm_def demo_answer_def)
  with run_with_message_never_raises [of demo_sched demo_workflow 0 "''q''" 3]
  show ?thesis by blast
qed

text \<open>
  Claim C2. In every round in which the reasoning step requests \<open>N \<ge> 1\<close> tool calls
  (the run has reached the pool holding that one \<^verbatim>\<open>GatherToolsEvent\<close>): dispatch records
  \<open>N\<close> as \<^verbatim>\<open>num_tool_calls\<close> and sends the \<open>N\<close> calls; during the next \<open>2 * N\<close> events,
  whatever the order in which calls complete and results are gathered, no
  \<^verbatim>\<open>InputEvent\<close> is pending, the history is untouched, and the calls still pending
  plus the results buffered are \<open>N\<close>; after exactly these events the only pending event is
  the \<^verbatim>\<open>InputEvent\<close> for the next reasoning call, and the history has grown by exactly
  \<open>N\<close> messages, all of role tool. The one other course is that the time limit of the
  run, if it has one, expires during the round: then the run has ended with the history
  as the round found it. A workflow without a limit never takes that course.
\<close>

theorem gather_waits_for_all_results:
  assumes "run sch n self w msg = Running s [GatherToolsEvent tool_calls]"
  shows "tool_calls \<noteq> [] \<and>
     ((\<exists>s1. run sch (Suc n) self w msg = Running s1 (map ToolCallEvent tool_calls) \<and>
        num_tool_calls (ctx s1) = Some (length tool_calls) \<and> events_buffer (ctx s1) = []) \<or>
      (\<exists>s' dropped. run sch (Suc n) self w msg = TimedOut s' dropped \<and> timeout self \<noteq> None \<and>
        chat_history (workflow s') = chat_history (workflow s))) \<and>
     (\<forall>j<2 * length tool_calls.
        (\<exists>s' pool. run sch (Suc n + j) self w msg = Running s' pool \<and> pool \<noteq> [] \<and>
          InputEvent \<notin> set pool \<and>
          num_tool_calls (ctx s') = Some (length tool_calls) \<and>
          length pool + length (events_buffer (ctx s')) = length tool_calls \<and>
          chat_history (workflow s') = chat_history (workflow s)) \<or>
        (\<exists>s' dropped. run sch (Suc n + j) self w msg = TimedOut s' dropped \<and> timeout self \<noteq> None \<and>
          chat_history (workflow s') = chat_history (workflow s))) \<and>
     ((\<exists>s' msgs. run sch (Suc n + 2 * length tool_calls) self w msg = Running s' [InputEvent] \<and>
        chat_history (workflow s') = chat_history (workflow s) @ msgs \<and>
        length msgs = length tool_calls \<and> (\<forall>m\<in>set msgs. role m = TOOL) \<and>
        events_buffer (ctx s') = []) \<or>
      (\<exists>s' dropped. run sch (Suc n + 2 * length tool_calls) self w msg = TimedOut s' dropped \<and>
        timeout self \<noteq> None \<and> chat_history (workflow s') = chat_history (workflow s)))"
proof (intro conjI)
  from round_entry [OF assms] have ne: "tool_calls \<noteq> []" and buf: "events_buffer (ctx s) = []" by simp_all
  show "tool_calls \<noteq> []" by (rule ne)
  show "(\<exists>s1. run sch (Suc n) self w msg = Running s1 (map ToolCallEvent tool_calls) \<and>
        num_tool_calls (ctx s1) = Some (length tool_calls) \<and> events_buffer (ctx s1) = []) \<or>
      (\<exists>s' dropped. run sch (Suc n) self w msg = TimedOut s' dropped \<and> timeout self \<noteq> None \<and>
        chat_history (workflow s') = chat_history (workflow s))"
  proof (cases "expired (timeout (workflow s)) (elapsed s + duration sch s [GatherToolsEvent tool_calls])")
    case True
    from expired_Some [OF this] have t: "timeout self \<noteq> None" by (simp add: run_fields(4) [OF assms])
    have "run sch (Suc n) self w msg =
        TimedOut s (concat (map (interrupted (workflow s)) [GatherToolsEvent tool_calls]))"
      by (simp only: run_step assms) (rule step_pool_expired [OF _ True], simp)
    with t show ?thesis by blast
  next
    case False
    then show ?thesis using buf by (simp add: run_step assms step_Gather tick_simps)
  qed
  show "\<forall>j<2 * length tool_calls.
        (\<exists>s' pool. run sch (Suc n + j) self w msg = Running s' pool \<and> pool \<noteq> [] \<and>
          InputEvent \<notin> set pool \<and>
          num_tool_calls (ctx s') = Some (length tool_calls) \<and>
          length pool + length (events_buffer (ctx s')) = length tool_calls \<and>
          chat_history (workflow s') = chat_history (workflow s)) \<or>
        (\<exists>s' dropped. run sch (Suc n + j) self w msg = TimedOut s' dropped \<and> timeout self \<noteq> None \<and>
          chat_history (workflow s') = chat_history (workflow s))"
  proof (intro allI impI)
    fix j assume "j < 2 * length tool_calls"
    from round_progress [OF assms this]
    show "(\<exists>s' pool. run sch (Suc n + j) self w msg = Running s' pool \<and> pool \<noteq> [] \<and>
          InputEvent \<notin> set pool \<and>
          num_tool_calls (ctx s') = Some (length tool_calls) \<and>
          length pool + length (events_buffer (ctx s')) = length tool_calls \<and>
          chat_history (workflow s') = chat_history (workflow s)) \<or>
        (\<exists>s' dropped. run sch (Suc n + j) self w msg = TimedOut s' dropped \<and> timeout self \<noteq> None \<and>
          chat_history (workflow s') = chat_history (workflow s))"
      by fastforce
  qed
  from round_fold [OF assms]
  show "(\<exists>s' msgs. run sch (Suc n + 2 * length tool_calls) self w msg = Running s' [InputEvent] \<and>
        chat_history (workflow s') = chat_history (workflow s) @ msgs \<and>
        length msgs = length tool_calls \<and> (\<forall>m\<in>set msgs. role m = TOOL) \<and>
        events_buffer (ctx s') = []) \<or>
      (\<exists>s' dropped. run sch (Suc n + 2 * length tool_calls) self w msg = TimedOut s' dropped \<and>
        timeout self \<noteq> None \<and> chat_history (workflow s') = chat_history (workflow s))"
  proof
    assume "\<exists>s' dropped. run sch (Suc n + 2 * length tool_calls) self w msg = TimedOut s' dropped \<and>
            workflow s' = workflow s \<and> timeout self \<noteq> None"
    then show ?thesis by auto
  next
    assume "\<exists>s' msgs. run sch (Suc n + 2 * length tool_calls) self w msg = Running s' [InputEvent] \<and>
        workflow s' = (workflow s)\<lparr>chat_history := chat_history (workflow s) @ msgs\<rparr> \<and>
        length msgs = length tool_calls \<and> (\<forall>m\<in>set msgs. role m = TOOL) \<and>
        (\<forall>tc\<in>set tool_calls. \<exists>j<2 * length tool_calls. \<exists>sj pj.
           run sch (Suc n + j) self w msg = Running sj pj \<and> pj ! chosen sch sj pj = ToolCallEvent tc) \<and>
        (\<forall>j<2 * length tool_calls. \<forall>sj pj tc. run sch (Suc n + j) self w msg = Running sj pj \<longrightarrow>
           pj ! chosen sch sj pj = ToolCallEvent tc \<longrightarrow>
           fst (call_tool self tc (world sj)) \<in> ToolCallEventResult ` set msgs) \<and>
        events_buffer (ctx s') = [] \<and> num_tool_calls (ctx s') = Some (length tool_calls)"
    then obtain s' msgs where "run sch (Suc n + 2 * length tool_calls) self w msg = Running s' [InputEvent]"
      "workflow s' = (workflow s)\<lparr>chat_history := chat_history (workflow s) @ msgs\<rparr>"
      "length msgs = length tool_calls" "\<forall>m\<in>set msgs. role m = TOOL" "events_buffer (ctx s') = []"
      by blast
    then have "\<exists>s' msgs. run sch (Suc n + 2 * length tool_calls) self w msg = Running s' [InputEvent] \<and>
        chat_history (workflow s') = chat_history (workflow s) @ msgs \<and>
        length msgs = length tool_calls \<and> (\<forall>m\<in>set msgs. role m = TOOL) \<and>
        events_buffer (ctx s') = []"
      by (intro exI [of _ s'] exI [of _ msgs]) simp
    then show ?thesis by (rule disjI1)
  qed
qed

theorem gather_waits_for_all_results_witness:
  "\<exists>s s3 pool3 s' msgs.
     run demo_sched 2 demo_workflow 0 (Some ''q'') = Running s [GatherToolsEvent demo_calls] \<and>
     run demo_sched 6 demo_workflow 0 (Some ''q'') = Running s3 pool3 \<and>
     InputEvent \<notin> set pool3 \<and> length pool3 + length (events_buffer (ctx s3)) = 4 \<and>
     chat_history (workflow s3) = chat_history (workflow s) \<and>
     run demo_sched 11 demo_workflow 0 (Some ''q'') = Running s' [InputEvent] \<and>
     chat_history (workflow s') = chat_history (workflow s) @ msgs \<and> length msgs = 4"
proof -
  note r = gather_waits_for_all_results [OF demo_run2]
  have len: "length demo_calls = 4" by (rule demo_calls_length)
  have nt6: "\<And>s' d. run demo_sched (Suc 2 + 3) demo_workflow 0 (Some ''q'') \<noteq> TimedOut s' d"
    using not_timed_out_before [of demo_sched 6 5 demo_workflow 0 "Some ''q''"] demo_run11 by simp
  have nt11: "\<And>s' d. run demo_sched (Suc 2 + 2 * length demo_calls) demo_workflow 0 (Some ''q'') \<noteq> TimedOut s' d"
    using demo_run11 by (simp add: len)
  from r have "\<forall>j<2 * length demo_calls.
        (\<exists>s' pool. run demo_sched (Suc 2 + j) demo_workflow 0 (Some ''q'') = Running s' pool \<and> pool \<noteq> [] \<and>
          InputEvent \<notin> set pool \<and>
          num_tool_calls (ctx s') = Some (length demo_calls) \<and>
          length pool + length (events_buffer (ctx s')) = length demo_calls \<and>
          chat_history (workflow s') = [system_msg, user_msg ''q'', demo_request]) \<or>
        (\<exists>s' dropped. run demo_sched (Suc 2 + j) demo_workflow 0 (Some ''q'') = TimedOut s' dropped \<and>
          timeout demo_workflow \<noteq> None \<and>
          chat_history (workflow s') = [system_msg, user_msg ''q'', demo_request])"
    by simp
  then have "(\<exists>s' pool. run demo_sched (Suc 2 + 3) demo_workflow 0 (Some ''q'') = Running s' pool \<and> pool \<noteq> [] \<and>
          InputEvent \<notin> set pool \<and>
          num_tool_calls (ctx s') = Some (length demo_calls) \<and>
          length pool + length (events_buffer (ctx s')) = length demo_calls \<and>
          chat_history (workflow s') = [system_msg, user_msg ''q'', demo_request]) \<or>
        (\<exists>s' dropped. run demo_sched (Suc 2 + 3) demo_workflow 0 (Some ''q'') = TimedOut s' dropped \<and>
          timeout demo_workflow \<noteq> None \<and>
          chat_history (workflow s') = [system_msg, user_msg ''q'', demo_request])"
    unfolding len by (rule allE [of _ 3]) simp
  with nt6 obtain s3 pool3 where a: "run demo_sched 6 demo_workflow 0 (Some ''q'') = Running s3 pool3"
      "InputEvent \<notin> set pool3" "length pool3 + length (events_buffer (ctx s3)) = 4"
      "chat_history (workflow s3) = [system_msg, user_msg ''q'', demo_request]"
    unfolding len by auto
  from r nt11 obtain s' msgs where b: "run demo_sched (Suc 2 + 2 * length demo_calls) demo_workflow 0 (Some ''q'') = Running s' [InputEvent]"
      "chat_history (workflow s') = [system_msg, user_msg ''q'', demo_request] @ msgs" "length msgs = length demo_calls"
    by auto
  from b have b': "run demo_sched 11 demo_workflow 0 (Some ''q'') = Running s' [InputEvent]" "length msgs = 4"
    unfolding len by simp_all
  show ?thesis using a b' b(2) by (simp add: demo_run2)
qed

text \<open>
  Claim C3, as amended. When the reasoning client answers the query without requesting a
  tool and the time limit of the run does not expire, \<^verbatim>\<open>run\<close> returns the content of the
  assistant message verbatim (it may be \<open>None\<close>), and the history afterwards is the history
  found, followed by the system message if the history found was empty, the user message
  and the assistant message. On a fresh or reset workflow this is exactly system, user,
  assistant. When the limit expires during the three events, \<^verbatim>\<open>run\<close> raises
  \<^verbatim>\<open>WorkflowTimeoutError\<close> instead.
\<close>

theorem direct_answer_history:
  assumes "achat_with_tools (llm self) (tools self)
             (if chat_history self = [] then [system_msg, user_msg q]
              else chat_history self @ [user_msg q]) w = (Returns res, w')"
    and "get_tool_calls_from_response (llm self) res = Inr []"
    and "3 \<le> fuel"
  shows "(\<not> expired (timeout self) (snd (sch w 0 1) + snd (sch w 1 1) + snd (sch w' 2 1)) \<longrightarrow>
      run sch fuel self w (Some q) =
        Returned (content (message res))
          \<lparr>workflow = self\<lparr>chat_history :=
               (if chat_history self = [] then [system_msg] else chat_history self)
                 @ [user_msg q, message res]\<rparr>,
           ctx = \<lparr>num_tool_calls = None, events_buffer = []\<rparr>, world = w', clock = 3,
           elapsed = snd (sch w 0 1) + snd (sch w 1 1) + snd (sch w' 2 1)\<rparr>) \<and>
     (expired (timeout self) (snd (sch w 0 1) + snd (sch w 1 1) + snd (sch w' 2 1)) \<longrightarrow>
      (\<exists>s' dropped. run sch fuel self w (Some q) = TimedOut s' dropped \<and> timeout self \<noteq> None))"
proof -
  define self1 where "self1 = self\<lparr>chat_history := prepared (chat_history self) q\<rparr>"
  have a: "achat_with_tools (llm self1) (tools self1) (chat_history self1) w = (Returns res, w')"
    using assms(1) by (simp add: self1_def prepared_def)
  have g: "get_tool_calls_from_response (llm self1) res = Inr []"
    using assms(2) by (simp add: self1_def)
  have c: "chat (self\<lparr>chat_history := prepared (chat_history self) q\<rparr>) w =
      (self1\<lparr>chat_history := chat_history self1 @ [message res]\<rparr>, w', StopEvent (content (message res)))"
    using chat_direct [OF a g] by (simp only: self1_def)
  note r = run3_cases [OF c, of sch] run3_finished [OF c assms(3), of sch]
  show ?thesis
  proof (intro conjI impI)
    assume "\<not> expired (timeout self) (snd (sch w 0 1) + snd (sch w 1 1) + snd (sch w' 2 1))"
    moreover from this have "\<not> expired (timeout self) (snd (sch w 0 1) + snd (sch w 1 1))"
      "\<not> expired (timeout self) (snd (sch w 0 1))"
      by (cases "timeout self"; simp add: expired_def)+
    ultimately show "run sch fuel self w (Some q) =
        Returned (content (message res))
          \<lparr>workflow = self\<lparr>chat_history :=
               (if chat_history self = [] then [system_msg] else chat_history self)
                 @ [user_msg q, message res]\<rparr>,
           ctx = \<lparr>num_tool_calls = None, events_buffer = []\<rparr>, world = w', clock = 3,
           elapsed = snd (sch w 0 1) + snd (sch w 1 1) + snd (sch w' 2 1)\<rparr>"
      by (simp add: r self1_def prepared_def)
  next
    assume e: "expired (timeout self) (snd (sch w 0 1) + snd (sch w 1 1) + snd (sch w' 2 1))"
    from expired_Some [OF this] have "timeout self \<noteq> None" .
    moreover have "\<exists>s' dropped. run sch fuel self w (Some q) = TimedOut s' dropped"
      using e by (simp add: r)
    ultimately show "\<exists>s' dropped. run sch fuel self w (Some q) = TimedOut s' dropped \<and> timeout self \<noteq> None"
      by blast
  qed
qed

theorem direct_answer_history_witness:
  "run demo_sched 5 (demo_workflow\<lparr>llm := direct_llm\<rparr>) 0 (Some ''When was Paula Walker born?'') =
     Returned (Some ''Paula Walker was born on 1990-05-17.'')
       \<lparr>workflow = demo_workflow\<lparr>llm := direct_llm,
            chat_history := [system_msg, user_msg ''When was Paula Walker born?'', demo_answer]\<rparr>,
        ctx = \<lparr>num_tool_calls = None, events_buffer = []\<rparr>, world = 1, clock = 3, elapsed = 3\<rparr>"
  using direct_answer_history [of "demo_workflow\<lparr>llm := direct_llm\<rparr>"
      "''When was Paula Walker born?''" 0 "\<lparr>message = demo_answer\<rparr>" 1 5 demo_sched]
  by (simp add: demo_workflow_eq direct_llm_def demo_answer_def demo_sched_def expired_def)

text \<open>
  Claim C3 as first stated fails: the history is not exactly these three messages when
  the session has earlier turns, which \<^verbatim>\<open>process_query\<close> keeps on purpose: the second
  direct answer of a session leaves five messages.
\<close>

theorem direct_answer_keeps_earlier_history:
  "run demo_sched 3
      (demo_workflow\<lparr>chat_history := [system_msg, user_msg ''hello'', demo_answer]\<rparr>) 0 (Some ''again'') =
     Returned (Some ''Paula Walker was born on 1990-05-17.'')
       \<lparr>workflow = demo_workflow\<lparr>chat_history :=
            [system_msg, user_msg ''hello'', demo_answer, user_msg ''again'', demo_answer]\<rparr>,
        ctx = \<lparr>num_tool_calls = None, events_buffer = []\<rparr>, world = 1, clock = 3, elapsed = 3\<rparr>"
proof -
  have "chat ((demo_workflow\<lparr>chat_history := [system_msg, user_msg ''hello'', demo_answer]\<rparr>)
          \<lparr>chat_history := prepared (chat_history
             (demo_workflow\<lparr>chat_history := [system_msg, user_msg ''hello'', demo_answer]\<rparr>)) ''again''\<rparr>) 0 =
     (demo_workflow\<lparr>chat_history :=
            [system_msg, user_msg ''hello'', demo_answer, user_msg ''again'', demo_answer]\<rparr>, 1,
      StopEvent (Some ''Paula Walker was born on 1990-05-17.''))"
    by (simp add: chat_def chat_after_def Let_def demo_workflow_eq demo_llm_def demo_answer_def prepared_def)
  from run3_cases [OF this, of demo_sched] show ?thesis
    by (simp add: demo_workflow_eq demo_sched_def expired_def)
qed

text \<open>
  Claim C4. A call whose adapter raises yields that call's own result: the tool message
  that carries the call's id and name and the content
  \<^verbatim>\<open>Error executing <name>: <text of the exception>\<close>. The round is not aborted by it: unless
  the time limit of the run expires, after the \<open>2 * N\<close> events of the round the next
  reasoning call is pending and the history has grown by \<open>N\<close> messages. Every dispatched
  call was handled at some event of the round; for each call handled, whatever the order
  of completion, the message of what its adapter did in the world of that moment is among
  the \<open>N\<close> messages: the error message if it raised, the message with its output if it
  returned. So a sibling's result is folded as its adapter gave it, next to the failed
  call's.
\<close>

theorem tool_failure_is_isolated:
  assumes "run sch n self w msg = Running s [GatherToolsEvent tool_calls]"
  shows "(\<forall>tc tool u e. tools_dict self (tool_name tc) = Some tool \<longrightarrow>
            fst (acall tool (tool_kwargs tc) u) = Raises e \<longrightarrow>
            fst (call_tool self tc u) =
              ToolCallEventResult
                \<lparr>role = TOOL,
                 content = Some (''Error executing '' @ tool_name tc @ '': '' @ str_exn e),
                 name = Some (tool_name tc),
                 additional_kwargs = [(''tool_call_id'', tool_id tc), (''name'', tool_name tc),
                                      (''tool_used'', tool_name tc)]\<rparr>) \<and>
     ((\<exists>s' dropped. run sch (Suc n + 2 * length tool_calls) self w msg = TimedOut s' dropped \<and>
         timeout self \<noteq> None \<and> chat_history (workflow s') = chat_history (workflow s)) \<or>
      (\<exists>s' msgs.
         run sch (Suc n + 2 * length tool_calls) self w msg = Running s' [InputEvent] \<and>
         chat_history (workflow s') = chat_history (workflow s) @ msgs \<and>
         length msgs = length tool_calls \<and>
         (\<forall>tc\<in>set tool_calls. \<exists>j<2 * length tool_calls. \<exists>sj pj.
            run sch (Suc n + j) self w msg = Running sj pj \<and>
            pj ! chosen sch sj pj = ToolCallEvent tc) \<and>
         (\<forall>j<2 * length tool_calls. \<forall>sj pj tc tool.
            run sch (Suc n + j) self w msg = Running sj pj \<longrightarrow>
            pj ! chosen sch sj pj = ToolCallEvent tc \<longrightarrow>
            tools_dict self (tool_name tc) = Some tool \<longrightarrow>
            (\<forall>e. fst (acall tool (tool_kwargs tc) (world sj)) = Raises e \<longrightarrow>
               \<lparr>role = TOOL,
                content = Some (''Error executing '' @ tool_name tc @ '': '' @ str_exn e),
                name = Some (tool_name tc),
                additional_kwargs = [(''tool_call_id'', tool_id tc), (''name'', tool_name tc),
                                     (''tool_used'', tool_name tc)]\<rparr> \<in> set msgs) \<and>
            (\<forall>output. fst (acall tool (tool_kwargs tc) (world sj)) = Returns output \<longrightarrow>
               \<lparr>role = TOOL,
                content = Some (case output of None \<Rightarrow> [] | Some text \<Rightarrow> text),
                name = Some (tool_name tc),
                additional_kwargs = [(''tool_call_id'', tool_id tc), (''name'', tool_name tc),
                                     (''tool_used'', tool_name tc)]\<rparr> \<in> set msgs))))"
proof (rule conjI)
  show "\<forall>tc tool u e. tools_dict self (tool_name tc) = Some tool \<longrightarrow>
            fst (acall tool (tool_kwargs tc) u) = Raises e \<longrightarrow>
            fst (call_tool self tc u) =
              ToolCallEventResult
                \<lparr>role = TOOL,
                 content = Some (''Error executing '' @ tool_name tc @ '': '' @ str_exn e),
                 name = Some (tool_name tc),
                 additional_kwargs = [(''tool_call_id'', tool_id tc), (''name'', tool_name tc),
                                      (''tool_used'', tool_name tc)]\<rparr>"
    by (simp add: call_tool_message tool_msg_def error_msg_def)
  from round_results [OF assms]
  show "(\<exists>s' dropped. run sch (Suc n + 2 * length tool_calls) self w msg = TimedOut s' dropped \<and>
         timeout self \<noteq> None \<and> chat_history (workflow s') = chat_history (workflow s)) \<or>
      (\<exists>s' msgs.
         run sch (Suc n + 2 * length tool_calls) self w msg = Running s' [InputEvent] \<and>
         chat_history (workflow s') = chat_history (workflow s) @ msgs \<and>
         length msgs = length tool_calls \<and>
         (\<forall>tc\<in>set tool_calls. \<exists>j<2 * length tool_calls. \<exists>sj pj.
            run sch (Suc n + j) self w msg = Running sj pj \<and>
            pj ! chosen sch sj pj = ToolCallEvent tc) \<and>
         (\<forall>j<2 * length tool_calls. \<forall>sj pj tc tool.
            run sch (Suc n + j) self w msg = Running sj pj \<longrightarrow>
            pj ! chosen sch sj pj = ToolCallEvent tc \<longrightarrow>
            tools_dict self (tool_name tc) = Some tool \<longrightarrow>
            (\<forall>e. fst (acall tool (tool_kwargs tc) (world sj)) = Raises e \<longrightarrow>
               \<lparr>role = TOOL,
                content = Some (''Error executing '' @ tool_name tc @ '': '' @ str_exn e),
                name = Some (tool_name tc),
                additional_kwargs = [(''tool_call_id'', tool_id tc), (''name'', tool_name tc),
                                     (''tool_used'', tool_name tc)]\<rparr> \<in> set msgs) \<and>
            (\<forall>output. fst (acall tool (tool_kwargs tc) (world sj)) = Returns output \<longrightarrow>
               \<lparr>role = TOOL,
                content = Some (case output of None \<Rightarrow> [] | Some text \<Rightarrow> text),
                name = Some (tool_name tc),
                additional_kwargs = [(''tool_call_id'', tool_id tc), (''name'', tool_name tc),
                                     (''tool_used'', tool_name tc)]\<rparr> \<in> set msgs)))"
  proof
    assume "\<exists>s' dropped. run sch (Suc n + 2 * length tool_calls) self w msg = TimedOut s' dropped \<and>
            timeout self \<noteq> None \<and> chat_history (workflow s') = chat_history (workflow s)"
    then show ?thesis by (rule disjI1)
  next
    assume "\<exists>s' msgs. run sch (Suc n + 2 * length tool_calls) self w msg = Running s' [InputEvent] \<and>
        chat_history (workflow s') = chat_history (workflow s) @ msgs \<and>
        length msgs = length tool_calls \<and>
        (\<forall>tc\<in>set tool_calls. \<exists>j<2 * length tool_calls. \<exists>sj pj.
           run sch (Suc n + j) self w msg = Running sj pj \<and> pj ! chosen sch sj pj = ToolCallEvent tc) \<and>
        (\<forall>j<2 * length tool_calls. \<forall>sj pj tc. run sch (Suc n + j) self w msg = Running sj pj \<longrightarrow>
           pj ! chosen sch sj pj = ToolCallEvent tc \<longrightarrow>
           tool_msg tc
             (case tools_dict self (tool_name tc) of
                None \<Rightarrow> error_msg tc (KeyError (tool_name tc))
              | Some tool \<Rightarrow>
                  (case fst (acall tool (tool_kwargs tc) (world sj)) of
                     Returns output \<Rightarrow> (case output of None \<Rightarrow> [] | Some text \<Rightarrow> text)
                   | Raises e \<Rightarrow> error_msg tc e
                   | Cancelled \<Rightarrow> cancelled_content)) \<in> set msgs)"
    then obtain s' msgs where r: "run sch (Suc n + 2 * length tool_calls) self w msg = Running s' [InputEvent]"
      and h: "chat_history (workflow s') = chat_history (workflow s) @ msgs"
      and l: "length msgs = length tool_calls"
      and p1: "\<forall>tc\<in>set tool_calls. \<exists>j<2 * length tool_calls. \<exists>sj pj.
           run sch (Suc n + j) self w msg = Running sj pj \<and> pj ! chosen sch sj pj = ToolCallEvent tc"
      and p2: "\<forall>j<2 * length tool_calls. \<forall>sj pj tc. run sch (Suc n + j) self w msg = Running sj pj \<longrightarrow>
           pj ! chosen sch sj pj = ToolCallEvent tc \<longrightarrow>
           tool_msg tc
             (case tools_dict self (tool_name tc) of
                None \<Rightarrow> error_msg tc (KeyError (tool_name tc))
              | Some tool \<Rightarrow>
                  (case fst (acall tool (tool_kwargs tc) (world sj)) of
                     Returns output \<Rightarrow> (case output of None \<Rightarrow> [] | Some text \<Rightarrow> text)
                   | Raises e \<Rightarrow> error_msg tc e
                   | Cancelled \<Rightarrow> cancelled_content)) \<in> set msgs"
      by blast
    have p3: "\<forall>j<2 * length tool_calls. \<forall>sj pj tc tool.
            run sch (Suc n + j) self w msg = Running sj pj \<longrightarrow>
            pj ! chosen sch sj pj = ToolCallEvent tc \<longrightarrow>
            tools_dict self (tool_name tc) = Some tool \<longrightarrow>
            (\<forall>e. fst (acall tool (tool_kwargs tc) (world sj)) = Raises e \<longrightarrow>
               \<lparr>role = TOOL,
                content = Some (''Error executing '' @ tool_name tc @ '': '' @ str_exn e),
                name = Some (tool_name tc),
                additional_kwargs = [(''tool_call_id'', tool_id tc), (''name'', tool_name tc),
                                     (''tool_used'', tool_name tc)]\<rparr> \<in> set msgs) \<and>
            (\<forall>output. fst (acall tool (tool_kwargs tc) (world sj)) = Returns output \<longrightarrow>
               \<lparr>role = TOOL,
                content = Some (case output of None \<Rightarrow> [] | Some text \<Rightarrow> text),
                name = Some (tool_name tc),
                additional_kwargs = [(''tool_call_id'', tool_id tc), (''name'', tool_name tc),
                                     (''tool_used'', tool_name tc)]\<rparr> \<in> set msgs)"
    proof (intro allI impI)
      fix j sj pj tc tool
      assume a: "j < 2 * length tool_calls" "run sch (Suc n + j) self w msg = Running sj pj"
        "pj ! chosen sch sj pj = ToolCallEvent tc" "tools_dict self (tool_name tc) = Some tool"
      from p2 a(1,2,3) have "tool_msg tc
             (case tools_dict self (tool_name tc) of
                None \<Rightarrow> error_msg tc (KeyError (tool_name tc))
              | Some tool \<Rightarrow>
                  (case fst (acall tool (tool_kwargs tc) (world sj)) of
                     Returns output \<Rightarrow> (case output of None \<Rightarrow> [] | Some text \<Rightarrow> text)
                   | Raises e \<Rightarrow> error_msg tc e
                   | Cancelled \<Rightarrow> cancelled_content)) \<in> set msgs" by blast
      then show "(\<forall>e. fst (acall tool (tool_kwargs tc) (world sj)) = Raises e \<longrightarrow>
               \<lparr>role = TOOL,
                content = Some (''Error executing '' @ tool_name tc @ '': '' @ str_exn e),
                name = Some (tool_name tc),
                additional_kwargs = [(''tool_call_id'', tool_id tc), (''name'', tool_name tc),
                                     (''tool_used'', tool_name tc)]\<rparr> \<in> set msgs) \<and>
            (\<forall>output. fst (acall tool (tool_kwargs tc) (world sj)) = Returns output \<longrightarrow>
               \<lparr>role = TOOL,
                content = Some (case output of None \<Rightarrow> [] | Some text \<Rightarrow> text),
                name = Some (tool_name tc),
                additional_kwargs = [(''tool_call_id'', tool_id tc), (''name'', tool_name tc),
                                     (''tool_used'', tool_name tc)]\<rparr> \<in> set msgs)"
        by (simp add: a(4) tool_msg_def error_msg_def split: awaited.splits)
    qed
    show ?thesis
      by (rule disjI2, intro exI [of _ s'] exI [of _ msgs] conjI) (rule r h l p1 p3)+
  qed
qed

theorem tool_failure_is_isolated_witness:
  "\<exists>s s' msgs.
     run demo_sched 2 demo_workflow 0 (Some ''q'') = Running s [GatherToolsEvent demo_calls] \<and>
     run demo_sched 11 demo_workflow 0 (Some ''q'') = Running s' [InputEvent] \<and>
     chat_history (workflow s') = chat_history (workflow s) @ msgs \<and> length msgs = 4 \<and>
     \<lparr>role = TOOL, content = Some ''Error executing document_tool: index unavailable'',
      name = Some ''document_tool'',
      additional_kwargs = [(''tool_call_id'', ''call_2''), (''name'', ''document_tool''),
                           (''tool_used'', ''document_tool'')]\<rparr> \<in> set msgs \<and>
     \<lparr>role = TOOL, content = Some ''1990-05-17'', name = Some ''sql_tool'',
      additional_kwargs = [(''tool_call_id'', ''call_1''), (''name'', ''sql_tool''),
                           (''tool_used'', ''sql_tool'')]\<rparr> \<in> set msgs"
proof -
  note t = tool_failure_is_isolated [OF demo_run2]
  have len: "length demo_calls = 4" by (rule demo_calls_length)
  have nt: "\<And>s' d. run demo_sched (Suc 2 + 2 * length demo_calls) demo_workflow 0 (Some ''q'') \<noteq> TimedOut s' d"
    using demo_run11 by (simp add: len)
  from t nt obtain s' msgs where
    r: "run demo_sched (Suc 2 + 2 * length demo_calls) demo_workflow 0 (Some ''q'') = Running s' [InputEvent]"
    and h: "chat_history (workflow s') = [system_msg, user_msg ''q'', demo_request] @ msgs"
    and l: "length msgs = length demo_calls"
    and p1: "\<forall>tc\<in>set demo_calls. \<exists>j<2 * length demo_calls. \<exists>sj pj.
            run demo_sched (Suc 2 + j) demo_workflow 0 (Some ''q'') = Running sj pj \<and>
            pj ! chosen demo_sched sj pj = ToolCallEvent tc"
    and p2: "\<forall>j<2 * length demo_calls. \<forall>sj pj tc tool.
            run demo_sched (Suc 2 + j) demo_workflow 0 (Some ''q'') = Running sj pj \<longrightarrow>
            pj ! chosen demo_sched sj pj = ToolCallEvent tc \<longrightarrow>
            tools_dict demo_workflow (tool_name tc) = Some tool \<longrightarrow>
            (\<forall>e. fst (acall tool (tool_kwargs tc) (world sj)) = Raises e \<longrightarrow>
               \<lparr>role = TOOL,
                content = Some (''Error executing '' @ tool_name tc @ '': '' @ str_exn e),
                name = Some (tool_name tc),
                additional_kwargs = [(''tool_call_id'', tool_id tc), (''name'', tool_name tc),
                                     (''tool_used'', tool_name tc)]\<rparr> \<in> set msgs) \<and>
            (\<forall>output. fst (acall tool (tool_kwargs tc) (world sj)) = Returns output \<longrightarrow>
               \<lparr>role = TOOL,
                content = Some (case output of None \<Rightarrow> [] | Some text \<Rightarrow> text),
                name = Some (tool_name tc),
                additional_kwargs = [(''tool_call_id'', tool_id tc), (''name'', tool_name tc),
                                     (''tool_used'', tool_name tc)]\<rparr> \<in> set msgs)"
    by (auto simp add: demo_run2)
  have "document_call \<in> set demo_calls" by (simp add: demo_calls_def)
  with p1 obtain j sj pj where j: "j < 2 * length demo_calls"
      "run demo_sched (Suc 2 + j) demo_workflow 0 (Some ''q'') = Running sj pj"
      "pj ! chosen demo_sched sj pj = ToolCallEvent document_call" by blast
  have "fst (acall demo_document_tool (tool_kwargs document_call) (world sj)) =
      Raises (Exception ''index unavailable'')" by (simp add: demo_document_tool_def)
  moreover have "tools_dict demo_workflow (tool_name document_call) = Some demo_document_tool"
    by (simp add: demo_lookup document_call_def)
  ultimately have "\<lparr>role = TOOL,
                content = Some (''Error executing '' @ tool_name document_call @ '': '' @ str_exn (Exception ''index unavailable'')),
                name = Some (tool_name document_call),
                additional_kwargs = [(''tool_call_id'', tool_id document_call), (''name'', tool_name document_call),
                                     (''tool_used'', tool_name document_call)]\<rparr> \<in> set msgs"
    using p2 j by blast
  then have d: "\<lparr>role = TOOL, content = Some ''Error executing document_tool: index unavailable'',
      name = Some ''document_tool'',
      additional_kwargs = [(''tool_call_id'', ''call_2''), (''name'', ''document_tool''),
                           (''tool_used'', ''document_tool'')]\<rparr> \<in> set msgs"
    by (simp add: document_call_def)
  have "sql_call \<in> set demo_calls" by (simp add: demo_calls_def)
  with p1 obtain j' sj' pj' where j': "j' < 2 * length demo_calls"
      "run demo_sched (Suc 2 + j') demo_workflow 0 (Some ''q'') = Running sj' pj'"
      "pj' ! chosen demo_sched sj' pj' = ToolCallEvent sql_call" by blast
  have "fst (acall demo_sql_tool (tool_kwargs sql_call) (world sj')) = Returns (Some ''1990-05-17'')"
    by (simp add: demo_sql_tool_def)
  moreover have "tools_dict demo_workflow (tool_name sql_call) = Some demo_sql_tool"
    by (simp add: demo_lookup sql_call_def)
  ultimately have "\<lparr>role = TOOL,
                content = Some (case Some ''1990-05-17'' of None \<Rightarrow> [] | Some text \<Rightarrow> text),
                name = Some (tool_name sql_call),
                additional_kwargs = [(''tool_call_id'', tool_id sql_call), (''name'', tool_name sql_call),
                                     (''tool_used'', tool_name sql_call)]\<rparr> \<in> set msgs"
    using p2 j' by blast
  then have q: "\<lparr>role = TOOL, content = Some ''1990-05-17'', name = Some ''sql_tool'',
      additional_kwargs = [(''tool_call_id'', ''call_1''), (''name'', ''sql_tool''),
                           (''tool_used'', ''sql_tool'')]\<rparr> \<in> set msgs"
    by (simp add: sql_call_def)
  from r have r': "run demo_sched 11 demo_workflow 0 (Some ''q'') = Running s' [InputEvent]"
    by (simp add: len)
  show ?thesis using r' h l d q by (simp add: demo_run2 len)
qed

lemma reasoning_failure_later_round:
  assumes "run sch n self w msg = Running s [InputEvent]"
    and "achat_with_tools (llm (workflow s)) (tools (workflow s)) (chat_history (workflow s)) (world s)
           = (Raises e, w')"
    and "\<not> expired (timeout self)
           (elapsed s + snd (sch (world s) (clock s) 1) + snd (sch w' (Suc (clock s)) 1))"
  shows "run sch (Suc (Suc n)) self w msg =
     Returned (Some apology)
       (s\<lparr>world := w', clock := Suc (Suc (clock s)),
          elapsed := elapsed s + snd (sch (world s) (clock s) 1) + snd (sch w' (Suc (clock s)) 1)\<rparr>)"
proof -
  have tm: "timeout (workflow s) = timeout self" using run_fields [OF assms(1)] by simp
  from assms(3) have e1: "\<not> expired (timeout (workflow s)) (elapsed s + duration sch s [InputEvent])"
    by (cases "timeout self") (simp_all add: tm duration_def expired_def)
  have r1: "run sch (Suc n) self w msg =
      Running ((tick sch s [InputEvent])\<lparr>world := w'\<rparr>) [StopEvent (Some apology)]"
    unfolding run_step [of sch n] assms(1)
    by (simp add: step_Input [OF e1] chat_raises [OF assms(2)] tick_def)
  have e2: "\<not> expired (timeout (workflow ((tick sch s [InputEvent])\<lparr>world := w'\<rparr>)))
      (elapsed ((tick sch s [InputEvent])\<lparr>world := w'\<rparr>) +
       duration sch ((tick sch s [InputEvent])\<lparr>world := w'\<rparr>) [StopEvent (Some apology)])"
    using assms(3) by (simp add: tm duration_def tick_def)
  show ?thesis
    unfolding run_step [of sch "Suc n"] r1
    by (simp add: step_Stop [OF e2]) (simp add: tick_def duration_def)
qed

text \<open>
  Claim C5. When the reasoning call for the query raises (or its response cannot be read
  for tool calls) and the time limit of the run does not expire, \<^verbatim>\<open>run\<close> returns the fixed
  apology; in the final state the history is the prepared one (no assistant and no tool
  message), nothing was dispatched (\<^verbatim>\<open>num_tool_calls\<close> was never set), and the world is the
  one the reasoning call left, so no adapter was invoked. When the limit expires during the
  three events, \<^verbatim>\<open>run\<close> raises \<^verbatim>\<open>WorkflowTimeoutError\<close>; nothing was dispatched then
  either. The same holds from a later round on (\<open>reasoning_failure_later_round\<close>).
\<close>

theorem reasoning_failure_apology:
  assumes "achat_with_tools (llm self) (tools self)
             (if chat_history self = [] then [system_msg, user_msg q]
              else chat_history self @ [user_msg q]) w = (out, w')"
    and "(\<exists>e. out = Raises e) \<or>
         (\<exists>res e. out = Returns res \<and> get_tool_calls_from_response (llm self) res = Inl e)"
    and "3 \<le> fuel"
  shows "(\<not> expired (timeout self) (snd (sch w 0 1) + snd (sch w 1 1) + snd (sch w' 2 1)) \<longrightarrow>
      run sch fuel self w (Some q) =
        Returned
          (Some ''I encountered an issue processing your request. Please try rephrasing your question.'')
          \<lparr>workflow = self\<lparr>chat_history :=
               (if chat_history self = [] then [system_msg, user_msg q]
                else chat_history self @ [user_msg q])\<rparr>,
           ctx = \<lparr>num_tool_calls = None, events_buffer = []\<rparr>, world = w', clock = 3,
           elapsed = snd (sch w 0 1) + snd (sch w 1 1) + snd (sch w' 2 1)\<rparr>) \<and>
     (expired (timeout self) (snd (sch w 0 1) + snd (sch w 1 1) + snd (sch w' 2 1)) \<longrightarrow>
      (\<exists>s' dropped. run sch fuel self w (Some q) = TimedOut s' dropped \<and> timeout self \<noteq> None \<and>
         num_tool_calls (ctx s') = None \<and>
         (chat_history (workflow s') = chat_history self \<or>
          chat_history (workflow s') =
            (if chat_history self = [] then [system_msg, user_msg q]
             else chat_history self @ [user_msg q]))))"
proof -
  define self1 where "self1 = self\<lparr>chat_history := prepared (chat_history self) q\<rparr>"
  have a: "achat_with_tools (llm self1) (tools self1) (chat_history self1) w = (out, w')"
    using assms(1) by (simp add: self1_def prepared_def)
  have "chat self1 w = (self1, w', StopEvent (Some apology))"
    using assms(2)
  proof
    assume "\<exists>e. out = Raises e"
    then show ?thesis using a by (auto simp add: chat_raises)
  next
    assume "\<exists>res e. out = Returns res \<and> get_tool_calls_from_response (llm self) res = Inl e"
    then obtain res e where "out = Returns res" "get_tool_calls_from_response (llm self1) res = Inl e"
      by (auto simp add: self1_def)
    then show ?thesis using a by (auto simp add: chat_malformed)
  qed
  then have c: "chat (self\<lparr>chat_history := prepared (chat_history self) q\<rparr>) w =
      (self1, w', StopEvent (Some apology))"
    by (simp only: self1_def)
  note r = run3_cases [OF c, of sch] run3_finished [OF c assms(3), of sch]
  show ?thesis
  proof (intro conjI impI)
    assume "\<not> expired (timeout self) (snd (sch w 0 1) + snd (sch w 1 1) + snd (sch w' 2 1))"
    moreover from this have "\<not> expired (timeout self) (snd (sch w 0 1) + snd (sch w 1 1))"
      "\<not> expired (timeout self) (snd (sch w 0 1))"
      by (cases "timeout self"; simp add: expired_def)+
    ultimately show "run sch fuel self w (Some q) =
        Returned
          (Some ''I encountered an issue processing your request. Please try rephrasing your question.'')
          \<lparr>workflow = self\<lparr>chat_history :=
               (if chat_history self = [] then [system_msg, user_msg q]
                else chat_history self @ [user_msg q])\<rparr>,
           ctx = \<lparr>num_tool_calls = None, events_buffer = []\<rparr>, world = w', clock = 3,
           elapsed = snd (sch w 0 1) + snd (sch w 1 1) + snd (sch w' 2 1)\<rparr>"
      by (simp add: r self1_def prepared_def apology_def)
  next
    assume e: "expired (timeout self) (snd (sch w 0 1) + snd (sch w 1 1) + snd (sch w' 2 1))"
    from expired_Some [OF this] have "timeout self \<noteq> None" .
    moreover have "\<exists>s' dropped. run sch fuel self w (Some q) = TimedOut s' dropped \<and>
         num_tool_calls (ctx s') = None \<and>
         (chat_history (workflow s') = chat_history self \<or>
          chat_history (workflow s') =
            (if chat_history self = [] then [system_msg, user_msg q]
             else chat_history self @ [user_msg q]))"
      using e by (simp add: r self1_def prepared_def)
    ultimately show "\<exists>s' dropped. run sch fuel self w (Some q) = TimedOut s' dropped \<and> timeout self \<noteq> None \<and>
         num_tool_calls (ctx s') = None \<and>
         (chat_history (workflow s') = chat_history self \<or>
          chat_history (workflow s') =
            (if chat_history self = [] then [system_msg, user_msg q]
             else chat_history self @ [user_msg q]))"
      by blast
  qed
qed

theorem reasoning_failure_apology_witness:
  "run demo_sched 4 (demo_workflow\<lparr>llm := failing_llm\<rparr>) 0 (Some ''When was Paula Walker born?'') =
     Returned
       (Some ''I encountered an issue processing your request. Please try rephrasing your question.'')
       \<lparr>workflow = demo_workflow\<lparr>llm := failing_llm,
            chat_history := [system_msg, user_msg ''When was Paula Walker born?'']\<rparr>,
        ctx = \<lparr>num_tool_calls = None, events_buffer = []\<rparr>, world = 1, clock = 3, elapsed = 3\<rparr>"
  using reasoning_failure_apology [of "demo_workflow\<lparr>llm := failing_llm\<rparr>"
      "''When was Paula Walker born?''" 0 "Raises (Exception ''rate limit'')" 1 4 demo_sched]
  by (simp add: demo_workflow_eq failing_llm_def demo_sched_def expired_def)

text \<open>
  Claim C6 as first stated fails for the interruption that ends a run. With every step
  taking 35 seconds, the time limit of 120 seconds expires while the four calls of the
  round are in flight. The three calls that reached an adapter are interrupted and each
  \<^verbatim>\<open>call_tool\<close> still produces its result with the fixed content, but the run is over:
  \<^verbatim>\<open>run\<close> raises \<^verbatim>\<open>WorkflowTimeoutError\<close>, the results are dropped, and the history holds no
  tool message, then and ever after.
\<close>

theorem timeout_drops_cancelled_results:
  "run slow_sched 4 demo_workflow 0 (Some ''q'') =
     TimedOut \<lparr>workflow = demo_workflow\<lparr>chat_history := [system_msg, user_msg ''q'', demo_request]\<rparr>,
              ctx = \<lparr>num_tool_calls = Some 4, events_buffer = []\<rparr>, world = 1, clock = 3, elapsed = 105\<rparr>
       [ToolCallEventResult
          \<lparr>role = TOOL, content = Some ''Tool execution was cancelled'', name = Some ''sql_tool'',
           additional_kwargs = [(''tool_call_id'', ''call_1''), (''name'', ''sql_tool''),
                                (''tool_used'', ''sql_tool'')]\<rparr>,
        ToolCallEventResult
          \<lparr>role = TOOL, content = Some ''Tool execution was cancelled'', name = Some ''document_tool'',
           additional_kwargs = [(''tool_call_id'', ''call_2''), (''name'', ''document_tool''),
                                (''tool_used'', ''document_tool'')]\<rparr>,
        ToolCallEventResult
          \<lparr>role = TOOL, content = Some ''Tool execution was cancelled'', name = Some ''slow_tool'',
           additional_kwargs = [(''tool_call_id'', ''call_3''), (''name'', ''slow_tool''),
                                (''tool_used'', ''slow_tool'')]\<rparr>] \<and>
   run slow_sched 11 demo_workflow 0 (Some ''q'') = run slow_sched 4 demo_workflow 0 (Some ''q'')"
proof -
  have "run slow_sched 11 demo_workflow 0 (Some ''q'') = run slow_sched 4 demo_workflow 0 (Some ''q'')"
    using run_ge_TimedOut [OF slow_run4, of 11] by (simp add: slow_run4)
  then show ?thesis
    by (simp add: slow_run4 tool_msg_def cancelled_content_def sql_call_def document_call_def slow_call_def)
qed

text \<open>
  Claim C6, as amended. A call whose awaited adapter is interrupted yields a result all
  the same: the tool message that carries the call's id and name and the fixed content
  \<^verbatim>\<open>Tool execution was cancelled\<close>. When the run goes on, that message is folded into the
  history with the other results of the round, as an error result is. When the
  interruption is the expiry of the run's time limit, the calls in flight still produce
  that result, but it is dropped with the run, which stays timed out.
\<close>

theorem cancelled_call_result:
  assumes "run sch n self w msg = Running s [GatherToolsEvent tool_calls]"
  shows "(\<forall>tc tool u. tools_dict self (tool_name tc) = Some tool \<longrightarrow>
            fst (acall tool (tool_kwargs tc) u) = Cancelled \<longrightarrow>
            fst (call_tool self tc u) =
              ToolCallEventResult
                \<lparr>role = TOOL, content = Some ''Tool execution was cancelled'',
                 name = Some (tool_name tc),
                 additional_kwargs = [(''tool_call_id'', tool_id tc), (''name'', tool_name tc),
                                      (''tool_used'', tool_name tc)]\<rparr>) \<and>
     ((\<exists>s' dropped. run sch (Suc n + 2 * length tool_calls) self w msg = TimedOut s' dropped \<and>
         timeout self \<noteq> None \<and> chat_history (workflow s') = chat_history (workflow s)) \<or>
      (\<exists>s' msgs.
         run sch (Suc n + 2 * length tool_calls) self w msg = Running s' [InputEvent] \<and>
         chat_history (workflow s') = chat_history (workflow s) @ msgs \<and>
         length msgs = length tool_calls \<and>
         (\<forall>tc\<in>set tool_calls. \<exists>j<2 * length tool_calls. \<exists>sj pj.
            run sch (Suc n + j) self w msg = Running sj pj \<and>
            pj ! chosen sch sj pj = ToolCallEvent tc) \<and>
         (\<forall>j<2 * length tool_calls. \<forall>sj pj tc tool.
            run sch (Suc n + j) self w msg = Running sj pj \<longrightarrow>
            pj ! chosen sch sj pj = ToolCallEvent tc \<longrightarrow>
            tools_dict self (tool_name tc) = Some tool \<longrightarrow>
            fst (acall tool (tool_kwargs tc) (world sj)) = Cancelled \<longrightarrow>
            \<lparr>role = TOOL, content = Some ''Tool execution was cancelled'',
             name = Some (tool_name tc),
             additional_kwargs = [(''tool_call_id'', tool_id tc), (''name'', tool_name tc),
                                  (''tool_used'', tool_name tc)]\<rparr> \<in> set msgs))) \<and>
     (\<forall>k sk pool tc tool.
        run sch k self w msg = Running sk pool \<longrightarrow> ToolCallEvent tc \<in> set pool \<longrightarrow>
        tools_dict self (tool_name tc) = Some tool \<longrightarrow>
        expired (timeout self) (elapsed sk + duration sch sk pool) \<longrightarrow>
        (\<exists>dropped.
           (\<forall>fuel. k < fuel \<longrightarrow> run sch fuel self w msg = TimedOut sk dropped) \<and>
           ToolCallEventResult
             \<lparr>role = TOOL, content = Some ''Tool execution was cancelled'',
              name = Some (tool_name tc),
              additional_kwargs = [(''tool_call_id'', tool_id tc), (''name'', tool_name tc),
                                   (''tool_used'', tool_name tc)]\<rparr> \<in> set dropped))"
proof (intro conjI)
  show "\<forall>tc tool u. tools_dict self (tool_name tc) = Some tool \<longrightarrow>
            fst (acall tool (tool_kwargs tc) u) = Cancelled \<longrightarrow>
            fst (call_tool self tc u) =
              ToolCallEventResult
                \<lparr>role = TOOL, content = Some ''Tool execution was cancelled'',
                 name = Some (tool_name tc),
                 additional_kwargs = [(''tool_call_id'', tool_id tc), (''name'', tool_name tc),
                                      (''tool_used'', tool_name tc)]\<rparr>"
    by (simp add: call_tool_message tool_msg_def cancelled_content_def)
  from round_results [OF assms]
  show "(\<exists>s' dropped. run sch (Suc n + 2 * length tool_calls) self w msg = TimedOut s' dropped \<and>
         timeout self \<noteq> None \<and> chat_history (workflow s') = chat_history (workflow s)) \<or>
      (\<exists>s' msgs.
         run sch (Suc n + 2 * length tool_calls) self w msg = Running s' [InputEvent] \<and>
         chat_history (workflow s') = chat_history (workflow s) @ msgs \<and>
         length msgs = length tool_calls \<and>
         (\<forall>tc\<in>set tool_calls. \<exists>j<2 * length tool_calls. \<exists>sj pj.
            run sch (Suc n + j) self w msg = Running sj pj \<and>
            pj ! chosen sch sj pj = ToolCallEvent tc) \<and>
         (\<forall>j<2 * length tool_calls. \<forall>sj pj tc tool.
            run sch (Suc n + j) self w msg = Running sj pj \<longrightarrow>
            pj ! chosen sch sj pj = ToolCallEvent tc \<longrightarrow>
            tools_dict self (tool_name tc) = Some tool \<longrightarrow>
            fst (acall tool (tool_kwargs tc) (world sj)) = Cancelled \<longrightarrow>
            \<lparr>role = TOOL, content = Some ''Tool execution was cancelled'',
             name = Some (tool_name tc),
             additional_kwargs = [(''tool_call_id'', tool_id tc), (''name'', tool_name tc),
                                  (''tool_used'', tool_name tc)]\<rparr> \<in> set msgs))"
  proof
    assume "\<exists>s' dropped. run sch (Suc n + 2 * length tool_calls) self w msg = TimedOut s' dropped \<and>
            timeout self \<noteq> None \<and> chat_history (workflow s') = chat_history (workflow s)"
    then show ?thesis by (rule disjI1)
  next
    assume "\<exists>s' msgs. run sch (Suc n + 2 * length tool_calls) self w msg = Running s' [InputEvent] \<and>
        chat_history (workflow s') = chat_history (workflow s) @ msgs \<and>
        length msgs = length tool_calls \<and>
        (\<forall>tc\<in>set tool_calls. \<exists>j<2 * length tool_calls. \<exists>sj pj.
           run sch (Suc n + j) self w msg = Running sj pj \<and> pj ! chosen sch sj pj = ToolCallEvent tc) \<and>
        (\<forall>j<2 * length tool_calls. \<forall>sj pj tc. run sch (Suc n + j) self w msg = Running sj pj \<longrightarrow>
           pj ! chosen sch sj pj = ToolCallEvent tc \<longrightarrow>
           tool_msg tc
             (case tools_dict self (tool_name tc) of
                None \<Rightarrow> error_msg tc (KeyError (tool_name tc))
              | Some tool \<Rightarrow>
                  (case fst (acall tool (tool_kwargs tc) (world sj)) of
                     Returns output \<Rightarrow> (case output of None \<Rightarrow> [] | Some text \<Rightarrow> text)
                   | Raises e \<Rightarrow> error_msg tc e
                   | Cancelled \<Rightarrow> cancelled_content)) \<in> set msgs)"
    then obtain s' msgs where r: "run sch (Suc n + 2 * length tool_calls) self w msg = Running s' [InputEvent]"
      and h: "chat_history (workflow s') = chat_history (workflow s) @ msgs"
      and l: "length msgs = length tool_calls"
      and p1: "\<forall>tc\<in>set tool_calls. \<exists>j<2 * length tool_calls. \<exists>sj pj.
           run sch (Suc n + j) self w msg = Running sj pj \<and> pj ! chosen sch sj pj = ToolCallEvent tc"
      and p2: "\<forall>j<2 * length tool_calls. \<forall>sj pj tc. run sch (Suc n + j) self w msg = Running sj pj \<longrightarrow>
           pj ! chosen sch sj pj = ToolCallEvent tc \<longrightarrow>
           tool_msg tc
             (case tools_dict self (tool_name tc) of
                None \<Rightarrow> error_msg tc (KeyError (tool_name tc))
              | Some tool \<Rightarrow>
                  (case fst (acall tool (tool_kwargs tc) (world sj)) of
                     Returns output \<Rightarrow> (case output of None \<Rightarrow> [] | Some text \<Rightarrow> text)
                   | Raises e \<Rightarrow> error_msg tc e
                   | Cancelled \<Rightarrow> cancelled_content)) \<in> set msgs"
      by blast
    have p3: "\<forall>j<2 * length tool_calls. \<forall>sj pj tc tool.
            run sch (Suc n + j) self w msg = Running sj pj \<longrightarrow>
            pj ! chosen sch sj pj = ToolCallEvent tc \<longrightarrow>
            tools_dict self (tool_name tc) = Some tool \<longrightarrow>
            fst (acall tool (tool_kwargs tc) (world sj)) = Cancelled \<longrightarrow>
            \<lparr>role = TOOL, content = Some ''Tool execution was cancelled'',
             name = Some (tool_name tc),
             additional_kwargs = [(''tool_call_id'', tool_id tc), (''name'', tool_name tc),
                                  (''tool_used'', tool_name tc)]\<rparr> \<in> set msgs"
    proof (intro allI impI)
      fix j sj pj tc tool
      assume a: "j < 2 * length tool_calls" "run sch (Suc n + j) self w msg = Running sj pj"
        "pj ! chosen sch sj pj = ToolCallEvent tc" "tools_dict self (tool_name tc) = Some tool"
        "fst (acall tool (tool_kwargs tc) (world sj)) = Cancelled"
      from p2 a(1,2,3) have "tool_msg tc
             (case tools_dict self (tool_name tc) of
                None \<Rightarrow> error_msg tc (KeyError (tool_name tc))
              | Some tool \<Rightarrow>
                  (case fst (acall tool (tool_kwargs tc) (world sj)) of
                     Returns output \<Rightarrow> (case output of None \<Rightarrow> [] | Some text \<Rightarrow> text)
                   | Raises e \<Rightarrow> error_msg tc e
                   | Cancelled \<Rightarrow> cancelled_content)) \<in> set msgs" by blast
      then show "\<lparr>role = TOOL, content = Some ''Tool execution was cancelled'',
             name = Some (tool_name tc),
             additional_kwargs = [(''tool_call_id'', tool_id tc), (''name'', tool_name tc),
                                  (''tool_used'', tool_name tc)]\<rparr> \<in> set msgs"
        by (simp add: a(4,5) tool_msg_def cancelled_content_def)
    qed
    show ?thesis
      by (rule disjI2, intro exI [of _ s'] exI [of _ msgs] conjI) (rule r h l p1 p3)+
  qed
  show "\<forall>k sk pool tc tool.
        run sch k self w msg = Running sk pool \<longrightarrow> ToolCallEvent tc \<in> set pool \<longrightarrow>
        tools_dict self (tool_name tc) = Some tool \<longrightarrow>
        expired (timeout self) (elapsed sk + duration sch sk pool) \<longrightarrow>
        (\<exists>dropped.
           (\<forall>fuel. k < fuel \<longrightarrow> run sch fuel self w msg = TimedOut sk dropped) \<and>
           ToolCallEventResult
             \<lparr>role = TOOL, content = Some ''Tool execution was cancelled'',
              name = Some (tool_name tc),
              additional_kwargs = [(''tool_call_id'', tool_id tc), (''name'', tool_name tc),
                                   (''tool_used'', tool_name tc)]\<rparr> \<in> set dropped)"
  proof (intro allI impI)
    fix k sk pool tc tool
    assume a: "run sch k self w msg = Running sk pool" "ToolCallEvent tc \<in> set pool"
      "tools_dict self (tool_name tc) = Some tool"
      "expired (timeout self) (elapsed sk + duration sch sk pool)"
    from timeout_interrupts_call [OF a] obtain dropped where
      d: "run sch (Suc k) self w msg = TimedOut sk dropped"
      "ToolCallEventResult (tool_msg tc cancelled_content) \<in> set dropped" by blast
    have "\<forall>fuel. k < fuel \<longrightarrow> run sch fuel self w msg = TimedOut sk dropped"
      using run_ge_TimedOut [OF d(1)] by (simp add: Suc_le_eq)
    moreover from d(2) have "ToolCallEventResult
             \<lparr>role = TOOL, content = Some ''Tool execution was cancelled'',
              name = Some (tool_name tc),
              additional_kwargs = [(''tool_call_id'', tool_id tc), (''name'', tool_name tc),
                                   (''tool_used'', tool_name tc)]\<rparr> \<in> set dropped"
      by (simp add: tool_msg_def cancelled_content_def)
    ultimately show "\<exists>dropped.
           (\<forall>fuel. k < fuel \<longrightarrow> run sch fuel self w msg = TimedOut sk dropped) \<and>
           ToolCallEventResult
             \<lparr>role = TOOL, content = Some ''Tool execution was cancelled'',
              name = Some (tool_name tc),
              additional_kwargs = [(''tool_call_id'', tool_id tc), (''name'', tool_name tc),
                                   (''tool_used'', tool_name tc)]\<rparr> \<in> set dropped"
      by blast
  qed
qed

theorem cancelled_call_result_witness:
  "\<exists>s s' msgs s3 dropped.
     run demo_sched 2 demo_workflow 0 (Some ''q'') = Running s [GatherToolsEvent demo_calls] \<and>
     run demo_sched 11 demo_workflow 0 (Some ''q'') = Running s' [InputEvent] \<and>
     chat_history (workflow s') = chat_history (workflow s) @ msgs \<and> length msgs = 4 \<and>
     \<lparr>role = TOOL, content = Some ''Tool execution was cancelled'', name = Some ''slow_tool'',
      additional_kwargs = [(''tool_call_id'', ''call_3''), (''name'', ''slow_tool''),
                           (''tool_used'', ''slow_tool'')]\<rparr> \<in> set msgs \<and>
     run slow_sched 3 demo_workflow 0 (Some ''q'') = Running s3 (map ToolCallEvent demo_calls) \<and>
     run slow_sched 4 demo_workflow 0 (Some ''q'') = TimedOut s3 dropped \<and>
     ToolCallEventResult
       \<lparr>role = TOOL, content = Some ''Tool execution was cancelled'', name = Some ''slow_tool'',
        additional_kwargs = [(''tool_call_id'', ''call_3''), (''name'', ''slow_tool''),
                             (''tool_used'', ''slow_tool'')]\<rparr> \<in> set dropped"
proof -
  note t = cancelled_call_result [OF demo_run2]
  note u = cancelled_call_result [OF slow_run2]
  have len: "length demo_calls = 4" by (rule demo_calls_length)
  have nt: "\<And>s' d. run demo_sched (Suc 2 + 2 * length demo_calls) demo_workflow 0 (Some ''q'') \<noteq> TimedOut s' d"
    using demo_run11 by (simp add: len)
  have nm: "tool_name slow_call = ''slow_tool''" "tool_id slow_call = ''call_3''"
    by (simp_all add: slow_call_def)
  have lk: "tools_dict demo_workflow (tool_name slow_call) = Some demo_slow_tool"
    by (simp add: demo_lookup slow_call_def)
  from t nt obtain s' msgs where
    r: "run demo_sched (Suc 2 + 2 * length demo_calls) demo_workflow 0 (Some ''q'') = Running s' [InputEvent]"
    and h: "chat_history (workflow s') = [system_msg, user_msg ''q'', demo_request] @ msgs"
    and l: "length msgs = length demo_calls"
    and p1: "\<forall>tc\<in>set demo_calls. \<exists>j<2 * length demo_calls. \<exists>sj pj.
            run demo_sched (Suc 2 + j) demo_workflow 0 (Some ''q'') = Running sj pj \<and>
            pj ! chosen demo_sched sj pj = ToolCallEvent tc"
    and p2: "\<forall>j<2 * length demo_calls. \<forall>sj pj tc tool.
            run demo_sched (Suc 2 + j) demo_workflow 0 (Some ''q'') = Running sj pj \<longrightarrow>
            pj ! chosen demo_sched sj pj = ToolCallEvent tc \<longrightarrow>
            tools_dict demo_workflow (tool_name tc) = Some tool \<longrightarrow>
            fst (acall tool (tool_kwargs tc) (world sj)) = Cancelled \<longrightarrow>
            \<lparr>role = TOOL, content = Some ''Tool execution was cancelled'',
             name = Some (tool_name tc),
             additional_kwargs = [(''tool_call_id'', tool_id tc), (''name'', tool_name tc),
                                  (''tool_used'', tool_name tc)]\<rparr> \<in> set msgs"
    by (auto simp add: demo_run2)
  have "slow_call \<in> set demo_calls" by (simp add: demo_calls_def)
  with p1 obtain j sj pj where j: "j < 2 * length demo_calls"
      "run demo_sched (Suc 2 + j) demo_workflow 0 (Some ''q'') = Running sj pj"
      "pj ! chosen demo_sched sj pj = ToolCallEvent slow_call" by blast
  have "fst (acall demo_slow_tool (tool_kwargs slow_call) (world sj)) = Cancelled"
    by (simp add: demo_slow_tool_def)
  with lk have "\<lparr>role = TOOL, content = Some ''Tool execution was cancelled'',
             name = Some (tool_name slow_call),
             additional_kwargs = [(''tool_call_id'', tool_id slow_call), (''name'', tool_name slow_call),
                                  (''tool_used'', tool_name slow_call)]\<rparr> \<in> set msgs"
    using p2 j by blast
  then have m: "\<lparr>role = TOOL, content = Some ''Tool execution was cancelled'', name = Some ''slow_tool'',
      additional_kwargs = [(''tool_call_id'', ''call_3''), (''name'', ''slow_tool''),
                           (''tool_used'', ''slow_tool'')]\<rparr> \<in> set msgs"
    by (simp add: nm)
  from r have r': "run demo_sched 11 demo_workflow 0 (Some ''q'') = Running s' [InputEvent]"
    by (simp add: len)
  have in_pool: "ToolCallEvent slow_call \<in> set (map ToolCallEvent demo_calls)"
    by (simp add: demo_calls_def)
  have ex: "expired (timeout demo_workflow)
      (elapsed \<lparr>workflow = demo_workflow\<lparr>chat_history := [system_msg, user_msg ''q'', demo_request]\<rparr>,
              ctx = \<lparr>num_tool_calls = Some 4, events_buffer = []\<rparr>, world = 1, clock = 3, elapsed = 105\<rparr>
       + duration slow_sched \<lparr>workflow = demo_workflow\<lparr>chat_history := [system_msg, user_msg ''q'', demo_request]\<rparr>,
              ctx = \<lparr>num_tool_calls = Some 4, events_buffer = []\<rparr>, world = 1, clock = 3, elapsed = 105\<rparr>
            (map ToolCallEvent demo_calls))"
    by (simp add: demo_workflow_eq expired_def duration_def slow_sched_def)
  from u slow_run3 in_pool lk ex obtain dropped where
    d: "\<forall>fuel. 3 < fuel \<longrightarrow> run slow_sched fuel demo_workflow 0 (Some ''q'') =
          TimedOut \<lparr>workflow = demo_workflow\<lparr>chat_history := [system_msg, user_msg ''q'', demo_request]\<rparr>,
              ctx = \<lparr>num_tool_calls = Some 4, events_buffer = []\<rparr>, world = 1, clock = 3, elapsed = 105\<rparr> dropped"
    and e: "ToolCallEventResult
             \<lparr>role = TOOL, content = Some ''Tool execution was cancelled'',
              name = Some (tool_name slow_call),
              additional_kwargs = [(''tool_call_id'', tool_id slow_call), (''name'', tool_name slow_call),
                                   (''tool_used'', tool_name slow_call)]\<rparr> \<in> set dropped"
    by blast
  from d have d4: "run slow_sched 4 demo_workflow 0 (Some ''q'') =
          TimedOut \<lparr>workflow = demo_workflow\<lparr>chat_history := [system_msg, user_msg ''q'', demo_request]\<rparr>,
              ctx = \<lparr>num_tool_calls = Some 4, events_buffer = []\<rparr>, world = 1, clock = 3, elapsed = 105\<rparr> dropped"
    by simp
  from e have e': "ToolCallEventResult
       \<lparr>role = TOOL, content = Some ''Tool execution was cancelled'', name = Some ''slow_tool'',
        additional_kwargs = [(''tool_call_id'', ''call_3''), (''name'', ''slow_tool''),
                             (''tool_used'', ''slow_tool'')]\<rparr> \<in> set dropped"
    by (simp add: nm)
  show ?thesis using r' h l m d4 e' by (simp add: demo_run2 slow_run3 len)
qed



text \<open>
  Claim C8. On an empty history \<^verbatim>\<open>prepare_chat\<close> puts the fixed system message first and
  the query as a user message after it; on a non-empty history it appends the user message
  only. The system message is the text below: it gives the domain of each of the two tools
  (structured data about people for the SQL tool, uploaded documents for the document
  tool), asks for one targeted tool call per query, and asks for separate tool calls for
  the parts of a mixed query.
\<close>

theorem prepare_chat_system_message:
  "(chat_history self = [] \<longrightarrow>
      prepare_chat self (Some q) =
        Inr (self\<lparr>chat_history :=
               [\<lparr>role = SYSTEM,
                 content = Some
                   (''You are an intelligent assistant with access to two specialized tools:\<newline>\<newline>'' @
                    ''1. SQL Tool: For querying structured data about people/students including names, '' @
                    ''birthdays, contact info, addresses, etc. Use this for specific person lookups '' @
                    ''and data analysis.\<newline>\<newline>'' @
                    ''2. Document Tool: For searching uploaded documents about policies, procedures, '' @
                    ''institutional information, etc. Use this for conceptual questions.\<newline>\<newline>'' @
                    ''IMPORTANT GUIDELINES:\<newline>'' @
                    ''- When a user asks about a specific person's information (name, birthday, phone, email, address), use ONLY the sql_tool\<newline>'' @
                    ''- When they ask about policies, procedures, or general information from documents, use ONLY the document_tool\<newline>'' @
                    ''- Make ONE targeted tool call per query - do not make multiple calls to the same tool\<newline>'' @
                    ''- Choose the most appropriate single tool based on the question type\<newline>'' @
                    ''- For mixed queries (e.g., 'terms and conditions AND phone owner'), make separate tool calls for each part''),
                 name = None, additional_kwargs = []\<rparr>,
                \<lparr>role = USER, content = Some q, name = None, additional_kwargs = []\<rparr>]\<rparr>, InputEvent)) \<and>
   (chat_history self \<noteq> [] \<longrightarrow>
      prepare_chat self (Some q) =
        Inr (self\<lparr>chat_history :=
               chat_history self @ [\<lparr>role = USER, content = Some q, name = None, additional_kwargs = []\<rparr>]\<rparr>,
             InputEvent))"
  by (simp add: prepare_chat_def system_msg_def user_msg_def system_prompt_def)

theorem prepare_chat_system_message_witness:
  "prepare_chat demo_workflow (Some ''q'') =
     Inr (demo_workflow\<lparr>chat_history :=
            [\<lparr>role = SYSTEM, content = Some system_prompt, name = None, additional_kwargs = []\<rparr>,
             \<lparr>role = USER, content = Some ''q'', name = None, additional_kwargs = []\<rparr>]\<rparr>, InputEvent) \<and>
   prepare_chat (demo_workflow\<lparr>chat_history := [demo_answer]\<rparr>) (Some ''q'') =
     Inr (demo_workflow\<lparr>chat_history :=
            [demo_answer, \<lparr>role = USER, content = Some ''q'', name = None, additional_kwargs = []\<rparr>]\<rparr>,
          InputEvent)"
  using prepare_chat_system_message [of demo_workflow "''q''"]
    prepare_chat_system_message [of "demo_workflow\<lparr>chat_history := [demo_answer]\<rparr>" "''q''"]
  by (simp add: demo_workflow_eq system_prompt_def)

text \<open>
  Claim C9 as first stated fails: deterministic reasoning and deterministic adapters are
  not enough, because the text may depend on the order in which the calls of a round
  complete, and that order is not theirs to fix. Here the reasoning client answers with
  the content of the first tool message of the history, and both it and the two adapters
  give the same output whatever the world (\<open>echo_session_deterministic\<close>); the scheduler
  lets the document call complete first in the first run and the SQL call first in the
  second. \<^verbatim>\<open>reset\<close> followed by \<^verbatim>\<open>run\<close> returns the error text of the document tool the
  first time and the birthday the second time.
\<close>

theorem rerun_depends_on_completion_order:
  "run world_sched 9 (reset echo_workflow) 0 (Some ''q'') =
     Returned (Some ''Error executing document_tool: index unavailable'')
       \<lparr>workflow = echo_workflow\<lparr>chat_history := [system_msg, user_msg ''q'', demo_request,
            tool_msg document_call ''Error executing document_tool: index unavailable'',
            tool_msg sql_call ''1990-05-17'',
            \<lparr>role = ASSISTANT, content = Some ''Error executing document_tool: index unavailable'',
             name = None, additional_kwargs = []\<rparr>]\<rparr>,
        ctx = \<lparr>num_tool_calls = Some 2, events_buffer = []\<rparr>, world = 4, clock = 9, elapsed = 9\<rparr> \<and>
   run world_sched 9
       (reset (echo_workflow\<lparr>chat_history := [system_msg, user_msg ''q'', demo_request,
            tool_msg document_call ''Error executing document_tool: index unavailable'',
            tool_msg sql_call ''1990-05-17'',
            \<lparr>role = ASSISTANT, content = Some ''Error executing document_tool: index unavailable'',
             name = None, additional_kwargs = []\<rparr>]\<rparr>)) 4 (Some ''q'') =
     Returned (Some ''1990-05-17'')
       \<lparr>workflow = echo_workflow\<lparr>chat_history := [system_msg, user_msg ''q'', demo_request,
            tool_msg sql_call ''1990-05-17'',
            tool_msg document_call ''Error executing document_tool: index unavailable'',
            \<lparr>role = ASSISTANT, content = Some ''1990-05-17'', name = None, additional_kwargs = []\<rparr>]\<rparr>,
        ctx = \<lparr>num_tool_calls = Some 2, events_buffer = []\<rparr>, world = 8, clock = 9, elapsed = 9\<rparr>"
proof -
  have "reset echo_workflow = echo_workflow" by (simp add: reset_def echo_workflow_eq)
  moreover have "reset (echo_workflow\<lparr>chat_history := [system_msg, user_msg ''q'', demo_request,
            tool_msg document_call ''Error executing document_tool: index unavailable'',
            tool_msg sql_call ''1990-05-17'',
            \<lparr>role = ASSISTANT, content = Some ''Error executing document_tool: index unavailable'',
             name = None, additional_kwargs = []\<rparr>]\<rparr>) = echo_workflow"
    by (simp add: reset_def echo_workflow_eq)
  ultimately show ?thesis by (simp only: echo_run_first echo_run_second)
qed

text \<open>
  Claim C9, as amended. Let the reasoning client, the adapters of the catalog and also
  the order and the duration of the steps be deterministic, that is, independent of the
  world. If \<^verbatim>\<open>reset\<close> followed by \<^verbatim>\<open>run(q)\<close> returns a result, then \<^verbatim>\<open>reset\<close> followed by
  \<^verbatim>\<open>run(q)\<close> once more, on the workflow and the world the first run left, returns the same
  result (and leaves the same history).
\<close>

theorem reset_then_run_repeats:
  assumes "\<forall>h w1 w2. fst (achat_with_tools (llm self) (tools self) h w1) =
                      fst (achat_with_tools (llm self) (tools self) h w2)"
    and "\<forall>nm tool kwargs w1 w2. tools_dict self nm = Some tool \<longrightarrow>
                      fst (acall tool kwargs w1) = fst (acall tool kwargs w2)"
    and "\<forall>w1 w2 k n. sch w1 k n = sch w2 k n"
    and "run sch fuel (reset self) w (Some q) = Returned r s1"
  shows "\<exists>s2. run sch fuel (reset (workflow s1)) (world s1) (Some q) = Returned r s2 \<and>
              workflow s2 = workflow s1"
proof -
  have r1: "reset (workflow s1) = reset self"
    using run_static [of sch fuel "reset self" w "Some q"] assms(4) by (simp add: reset_def)
  have f: "llm (reset self) = llm self" "tools (reset self) = tools self"
    "tools_dict (reset self) = tools_dict self" by (simp_all add: reset_def)
  have st: "reset (workflow (state_of (start (reset self) w (Some q)))) = reset (reset self)"
    by (simp add: start_def)
  have sm: "sim (start (reset self) w (Some q)) (start (reset self) (world s1) (Some q))"
    by (simp add: start_def agree_def)
  have "sim (run_loop sch fuel (start (reset self) w (Some q)))
            (run_loop sch fuel (start (reset self) (world s1) (Some q)))"
  proof (rule run_loop_sim [where ?self0.0 = "reset self"])
    show "\<And>h w1 w2. fst (achat_with_tools (llm (reset self)) (tools (reset self)) h w1) =
                 fst (achat_with_tools (llm (reset self)) (tools (reset self)) h w2)"
      using assms(1) by (simp add: f)
    show "\<And>nm tool kw w1 w2. tools_dict (reset self) nm = Some tool \<Longrightarrow>
                 fst (acall tool kw w1) = fst (acall tool kw w2)"
      using assms(2) by (simp add: f)
    show "\<And>w1 w2 k n. sch w1 k n = sch w2 k n" using assms(3) by simp
    show "reset (workflow (state_of (start (reset self) w (Some q)))) = reset (reset self)" by (rule st)
    show "sim (start (reset self) w (Some q)) (start (reset self) (world s1) (Some q))" by (rule sm)
  qed
  then have "sim (Returned r s1) (run sch fuel (reset self) (world s1) (Some q))"
    using assms(4) by (simp add: run_def)
  then obtain s2 where s2: "run sch fuel (reset self) (world s1) (Some q) = Returned r s2"
    and ag: "agree s1 s2"
    by (cases "run sch fuel (reset self) (world s1) (Some q)") auto
  from s2 have "run sch fuel (reset (workflow s1)) (world s1) (Some q) = Returned r s2"
    by (simp only: r1)
  moreover from ag have "workflow s2 = workflow s1" by (simp add: agree_def)
  ultimately show ?thesis by blast
qed

theorem reset_then_run_repeats_witness:
  "run demo_sched 13 (reset demo_workflow) 0 (Some ''q'') =
     Returned (Some ''Paula Walker was born on 1990-05-17.'')
       \<lparr>workflow = demo_workflow\<lparr>chat_history := [system_msg, user_msg ''q'', demo_request,
         tool_msg sql_call ''1990-05-17'',
         tool_msg web_call (error_msg web_call (KeyError ''web_tool'')),
         tool_msg document_call (error_msg document_call (Exception ''index unavailable'')),
         tool_msg slow_call cancelled_content, demo_answer]\<rparr>,
        ctx = \<lparr>num_tool_calls = Some 4, events_buffer = []\<rparr>, world = 5, clock = 13, elapsed = 13\<rparr> \<and>
   (\<exists>s2. run demo_sched 13
            (reset (demo_workflow\<lparr>chat_history := [system_msg, user_msg ''q'', demo_request,
               tool_msg sql_call ''1990-05-17'',
               tool_msg web_call (error_msg web_call (KeyError ''web_tool'')),
               tool_msg document_call (error_msg document_call (Exception ''index unavailable'')),
               tool_msg slow_call cancelled_content, demo_answer]\<rparr>)) 5 (Some ''q'') =
          Returned (Some ''Paula Walker was born on 1990-05-17.'') s2)"
proof -
  have rs: "reset demo_workflow = demo_workflow" by (simp add: reset_def demo_workflow_eq)
  have d1: "\<forall>h w1 w2. fst (achat_with_tools (llm demo_workflow) (tools demo_workflow) h w1) =
                      fst (achat_with_tools (llm demo_workflow) (tools demo_workflow) h w2)"
    by (simp add: demo_workflow_eq demo_llm_def)
  have d2: "\<forall>nm tool kwargs w1 w2. tools_dict demo_workflow nm = Some tool \<longrightarrow>
                      fst (acall tool kwargs w1) = fst (acall tool kwargs w2)"
    by (auto simp add: demo_workflow_eq demo_sql_tool_def demo_document_tool_def demo_slow_tool_def
        split: if_splits)
  have d3: "\<forall>w1 w2 k n. demo_sched w1 k n = demo_sched w2 k n" by (simp add: demo_sched_def)
  have r: "run demo_sched 13 (reset demo_workflow) 0 (Some ''q'') =
     Returned (Some ''Paula Walker was born on 1990-05-17.'')
       \<lparr>workflow = demo_workflow\<lparr>chat_history := [system_msg, user_msg ''q'', demo_request,
         tool_msg sql_call ''1990-05-17'',
         tool_msg web_call (error_msg web_call (KeyError ''web_tool'')),
         tool_msg document_call (error_msg document_call (Exception ''index unavailable'')),
         tool_msg slow_call cancelled_content, demo_answer]\<rparr>,
        ctx = \<lparr>num_tool_calls = Some 4, events_buffer = []\<rparr>, world = 5, clock = 13, elapsed = 13\<rparr>"
    by (simp only: rs demo_run13)
  from reset_then_run_repeats [OF d1 d2 d3 r] show ?thesis using r by auto
qed

text \<open>
  Claim C10. A dispatched call whose tool name is not a key of the catalog does not raise
  out of the step: the \<^verbatim>\<open>KeyError\<close> of the lookup becomes the tool message that carries
  the call's id and name and the content \<^verbatim>\<open>Error executing <name>: <repr of the name>\<close>;
  no adapter is reached (the world is unchanged). Unless the time limit of the run
  expires, the round ends with the next reasoning call pending and that message among the
  \<open>N\<close> messages appended to the history.
\<close>

theorem unknown_tool_is_reported:
  assumes "run sch n self w msg = Running s [GatherToolsEvent tool_calls]"
    and "tc \<in> set tool_calls"
    and "tools_dict self (tool_name tc) = None"
  shows "(\<forall>u. call_tool self tc u =
            (ToolCallEventResult
               \<lparr>role = TOOL,
                content = Some (''Error executing '' @ tool_name tc @ '': '' @ py_repr (tool_name tc)),
                name = Some (tool_name tc),
                additional_kwargs = [(''tool_call_id'', tool_id tc), (''name'', tool_name tc),
                                     (''tool_used'', tool_name tc)]\<rparr>, u)) \<and>
         ((\<exists>s' dropped. run sch (Suc n + 2 * length tool_calls) self w msg = TimedOut s' dropped \<and>
             timeout self \<noteq> None \<and> chat_history (workflow s') = chat_history (workflow s)) \<or>
          (\<exists>s' msgs.
             run sch (Suc n + 2 * length tool_calls) self w msg = Running s' [InputEvent] \<and>
             chat_history (workflow s') = chat_history (workflow s) @ msgs \<and>
             length msgs = length tool_calls \<and>
             \<lparr>role = TOOL,
              content = Some (''Error executing '' @ tool_name tc @ '': '' @ py_repr (tool_name tc)),
              name = Some (tool_name tc),
              additional_kwargs = [(''tool_call_id'', tool_id tc), (''name'', tool_name tc),
                                   (''tool_used'', tool_name tc)]\<rparr> \<in> set msgs))"
proof (rule conjI)
  show "\<forall>u. call_tool self tc u =
            (ToolCallEventResult
               \<lparr>role = TOOL,
                content = Some (''Error executing '' @ tool_name tc @ '': '' @ py_repr (tool_name tc)),
                name = Some (tool_name tc),
                additional_kwargs = [(''tool_call_id'', tool_id tc), (''name'', tool_name tc),
                                     (''tool_used'', tool_name tc)]\<rparr>, u)"
    using assms(3) by (simp add: call_tool_unknown tool_msg_def error_msg_def)
  from round_results [OF assms(1)]
  show "(\<exists>s' dropped. run sch (Suc n + 2 * length tool_calls) self w msg = TimedOut s' dropped \<and>
             timeout self \<noteq> None \<and> chat_history (workflow s') = chat_history (workflow s)) \<or>
          (\<exists>s' msgs.
             run sch (Suc n + 2 * length tool_calls) self w msg = Running s' [InputEvent] \<and>
             chat_history (workflow s') = chat_history (workflow s) @ msgs \<and>
             length msgs = length tool_calls \<and>
             \<lparr>role = TOOL,
              content = Some (''Error executing '' @ tool_name tc @ '': '' @ py_repr (tool_name tc)),
              name = Some (tool_name tc),
              additional_kwargs = [(''tool_call_id'', tool_id tc), (''name'', tool_name tc),
                                   (''tool_used'', tool_name tc)]\<rparr> \<in> set msgs)"
  proof
    assume "\<exists>s' dropped. run sch (Suc n + 2 * length tool_calls) self w msg = TimedOut s' dropped \<and>
            timeout self \<noteq> None \<and> chat_history (workflow s') = chat_history (workflow s)"
    then show ?thesis by (rule disjI1)
  next
    assume "\<exists>s' msgs. run sch (Suc n + 2 * length tool_calls) self w msg = Running s' [InputEvent] \<and>
        chat_history (workflow s') = chat_history (workflow s) @ msgs \<and>
        length msgs = length tool_calls \<and>
        (\<forall>tc\<in>set tool_calls. \<exists>j<2 * length tool_calls. \<exists>sj pj.
           run sch (Suc n + j) self w msg = Running sj pj \<and> pj ! chosen sch sj pj = ToolCallEvent tc) \<and>
        (\<forall>j<2 * length tool_calls. \<forall>sj pj tc. run sch (Suc n + j) self w msg = Running sj pj \<longrightarrow>
           pj ! chosen sch sj pj = ToolCallEvent tc \<longrightarrow>
           tool_msg tc
             (case tools_dict self (tool_name tc) of
                None \<Rightarrow> error_msg tc (KeyError (tool_name tc))
              | Some tool \<Rightarrow>
                  (case fst (acall tool (tool_kwargs tc) (world sj)) of
                     Returns output \<Rightarrow> (case output of None \<Rightarrow> [] | Some text \<Rightarrow> text)
                   | Raises e \<Rightarrow> error_msg tc e
                   | Cancelled \<Rightarrow> cancelled_content)) \<in> set msgs)"
    then obtain s' msgs where r: "run sch (Suc n + 2 * length tool_calls) self w msg = Running s' [InputEvent]"
      and h: "chat_history (workflow s') = chat_history (workflow s) @ msgs"
      and l: "length msgs = length tool_calls"
      and p1: "\<forall>tc\<in>set tool_calls. \<exists>j<2 * length tool_calls. \<exists>sj pj.
           run sch (Suc n + j) self w msg = Running sj pj \<and> pj ! chosen sch sj pj = ToolCallEvent tc"
      and p2: "\<forall>j<2 * length tool_calls. \<forall>sj pj tc. run sch (Suc n + j) self w msg = Running sj pj \<longrightarrow>
           pj ! chosen sch sj pj = ToolCallEvent tc \<longrightarrow>
           tool_msg tc
             (case tools_dict self (tool_name tc) of
                None \<Rightarrow> error_msg tc (KeyError (tool_name tc))
              | Some tool \<Rightarrow>
                  (case fst (acall tool (tool_kwargs tc) (world sj)) of
                     Returns output \<Rightarrow> (case output of None \<Rightarrow> [] | Some text \<Rightarrow> text)
                   | Raises e \<Rightarrow> error_msg tc e
                   | Cancelled \<Rightarrow> cancelled_content)) \<in> set msgs"
      by blast
    from p1 assms(2) obtain j sj pj where j: "j < 2 * length tool_calls"
      "run sch (Suc n + j) self w msg = Running sj pj" "pj ! chosen sch sj pj = ToolCallEvent tc"
      by blast
    with p2 have "tool_msg tc
             (case tools_dict self (tool_name tc) of
                None \<Rightarrow> error_msg tc (KeyError (tool_name tc))
              | Some tool \<Rightarrow>
                  (case fst (acall tool (tool_kwargs tc) (world sj)) of
                     Returns output \<Rightarrow> (case output of None \<Rightarrow> [] | Some text \<Rightarrow> text)
                   | Raises e \<Rightarrow> error_msg tc e
                   | Cancelled \<Rightarrow> cancelled_content)) \<in> set msgs" by blast
    then have m: "\<lparr>role = TOOL,
              content = Some (''Error executing '' @ tool_name tc @ '': '' @ py_repr (tool_name tc)),
              name = Some (tool_name tc),
              additional_kwargs = [(''tool_call_id'', tool_id tc), (''name'', tool_name tc),
                                   (''tool_used'', tool_name tc)]\<rparr> \<in> set msgs"
      by (simp add: assms(3) tool_msg_def error_msg_def)
    show ?thesis
      by (rule disjI2, intro exI [of _ s'] exI [of _ msgs] conjI) (rule r h l m)+
  qed
qed

theorem unknown_tool_is_reported_witness:
  "\<exists>s s' msgs.
     run demo_sched 2 demo_workflow 0 (Some ''q'') = Running s [GatherToolsEvent demo_calls] \<and>
     call_tool demo_workflow web_call 7 =
       (ToolCallEventResult
          \<lparr>role = TOOL, content = Some (''Error executing web_tool: 'web_tool'' @ [CHR 0x27]),
           name = Some ''web_tool'',
           additional_kwargs = [(''tool_call_id'', ''call_4''), (''name'', ''web_tool''),
                                (''tool_used'', ''web_tool'')]\<rparr>, 7) \<and>
     run demo_sched 11 demo_workflow 0 (Some ''q'') = Running s' [InputEvent] \<and>
     chat_history (workflow s') = chat_history (workflow s) @ msgs \<and> length msgs = 4 \<and>
     \<lparr>role = TOOL, content = Some (''Error executing web_tool: 'web_tool'' @ [CHR 0x27]),
      name = Some ''web_tool'',
      additional_kwargs = [(''tool_call_id'', ''call_4''), (''name'', ''web_tool''),
                           (''tool_used'', ''web_tool'')]\<rparr> \<in> set msgs"
proof -
  have a: "web_call \<in> set demo_calls" by (simp add: demo_calls_def)
  have b: "tools_dict demo_workflow (tool_name web_call) = None"
    by (simp add: demo_lookup web_call_def)
  note t = unknown_tool_is_reported [OF demo_run2 a b]
  have len: "length demo_calls = 4" by (rule demo_calls_length)
  have nt: "\<And>s' d. run demo_sched (Suc 2 + 2 * length demo_calls) demo_workflow 0 (Some ''q'') \<noteq> TimedOut s' d"
    using demo_run11 by (simp add: len)
  have py: "py_repr ''web_tool'' = '''web_tool'' @ [CHR 0x27]"
    by (simp add: py_repr_def py_escape_def Let_def)
  have nm: "tool_name web_call = ''web_tool''" "tool_id web_call = ''call_4''"
    by (simp_all add: web_call_def)
  from t have c: "call_tool demo_workflow web_call 7 =
       (ToolCallEventResult
          \<lparr>role = TOOL, content = Some (''Error executing web_tool: 'web_tool'' @ [CHR 0x27]),
           name = Some ''web_tool'',
           additional_kwargs = [(''tool_call_id'', ''call_4''), (''name'', ''web_tool''),
                                (''tool_used'', ''web_tool'')]\<rparr>, 7)"
    by (simp add: nm py)
  from t nt obtain s' msgs where
    r: "run demo_sched (Suc 2 + 2 * length demo_calls) demo_workflow 0 (Some ''q'') = Running s' [InputEvent]"
    and h: "chat_history (workflow s') = [system_msg, user_msg ''q'', demo_request] @ msgs"
    and l: "length msgs = length demo_calls"
    and m: "\<lparr>role = TOOL,
              content = Some (''Error executing '' @ tool_name web_call @ '': '' @ py_repr (tool_name web_call)),
              name = Some (tool_name web_call),
              additional_kwargs = [(''tool_call_id'', tool_id web_call), (''name'', tool_name web_call),
                                   (''tool_used'', tool_name web_call)]\<rparr> \<in> set msgs"
    by (auto simp add: demo_run2)
  from r have r': "run demo_sched 11 demo_workflow 0 (Some ''q'') = Running s' [InputEvent]"
    by (simp add: len)
  from m have m': "\<lparr>role = TOOL, content = Some (''Error executing web_tool: 'web_tool'' @ [CHR 0x27]),
      name = Some ''web_tool'',
      additional_kwargs = [(''tool_call_id'', ''call_4''), (''name'', ''web_tool''),
                           (''tool_used'', ''web_tool'')]\<rparr> \<in> set msgs"
    by (simp add: nm py)
  show ?thesis using c r' h l m' by (simp add: demo_run2 len)
qed

end
